theory Spec2Isabelle
  imports Complex_Main "HOL-Library.AList"
begin

section \<open>Python runtime: exceptions, strings, integer parsing\<close>

text \<open>
  The four scripts are Python programs run inside a 3D host application. Exceptions are
  values of \<open>pyerr\<close>; a computation that may raise returns \<open>pyerr + 'a\<close> with
  \<open>Inl\<close> for the exception. Python floats are modelled by the reals: rounding is not
  represented. Strings are lists of 8-bit characters, so only code points below 256 are
  covered.
\<close>

datatype pyerr =
    ValueError
  | KeyError string
  | IndexError
  | TypeError
  | AttributeError
  | ZeroDivisionError
  | RuntimeError
  | SystemExit int

text \<open>\<^verbatim>\<open>s.lstrip(c)\<close> for a one-character argument, and the slice \<^verbatim>\<open>s[i:j]\<close> for
  \<open>0 \<le> i \<le> j\<close> (slices never raise; they clip).\<close>

definition py_lstrip :: "char \<Rightarrow> string \<Rightarrow> string" where
  "py_lstrip c s = dropWhile (\<lambda>x. x = c) s"

definition py_slice :: "string \<Rightarrow> nat \<Rightarrow> nat \<Rightarrow> string" where
  "py_slice s i j = take (j - i) (drop i s)"

text \<open>\<^verbatim>\<open>int(s, 16)\<close>. Leading and trailing whitespace is dropped, one sign is allowed,
  then an optional \<^verbatim>\<open>0x\<close> prefix (which may be followed by one underscore), then hexadecimal
  digits with single underscores between them. Anything else raises \<^verbatim>\<open>ValueError\<close>.\<close>

definition py_isspace :: "char \<Rightarrow> bool" where
  "py_isspace c = ((of_char c :: nat) \<in> {9, 10, 11, 12, 13, 28, 29, 30, 31, 32, 133, 160})"

definition hexval :: "char \<Rightarrow> nat option" where
  "hexval c =
     (let n = (of_char c :: nat) in
      if 48 \<le> n \<and> n \<le> 57 then Some (n - 48)
      else if 97 \<le> n \<and> n \<le> 102 then Some (n - 87)
      else if 65 \<le> n \<and> n \<le> 70 then Some (n - 55)
      else None)"

text \<open>The digit scanner: the rest of the input, the previous character, the number of
  digits seen and the value so far. \<open>None\<close> is a syntax error (doubled or trailing
  underscore); otherwise the value, the digit count and the unread rest.\<close>

fun scan16 :: "string \<Rightarrow> char \<Rightarrow> nat \<Rightarrow> nat \<Rightarrow> (nat \<times> nat \<times> string) option" where
  "scan16 [] prev k acc = (if prev = CHR ''_'' then None else Some (acc, k, []))"
| "scan16 (c # cs) prev k acc =
     (if c = CHR ''_'' then (if prev = CHR ''_'' then None else scan16 cs c k acc)
      else (case hexval c of
              Some d \<Rightarrow> scan16 cs c (k + 1) (16 * acc + d)
            | None \<Rightarrow> (if prev = CHR ''_'' then None else Some (acc, k, c # cs))))"

definition strip_sign :: "string \<Rightarrow> bool \<times> string" where
  "strip_sign s =
     (case s of
        [] \<Rightarrow> (False, s)
      | c # r \<Rightarrow> if c = CHR ''+'' then (False, r)
                else if c = CHR ''-'' then (True, r)
                else (False, s))"

definition strip_0x :: "string \<Rightarrow> string" where
  "strip_0x s =
     (case s of
        a # b # r \<Rightarrow>
          if a = CHR ''0'' \<and> (b = CHR ''x'' \<or> b = CHR ''X'')
          then (case r of u # r' \<Rightarrow> if u = CHR ''_'' then r' else r | [] \<Rightarrow> r)
          else s
      | _ \<Rightarrow> s)"

definition py_int16 :: "string \<Rightarrow> pyerr + int" where
  "py_int16 s =
     (let (neg, s2) = strip_sign (dropWhile py_isspace s);
          s3 = strip_0x s2
      in if s3 \<noteq> [] \<and> hd s3 = CHR ''_'' then Inl ValueError
         else (case scan16 s3 (CHR 0x00) 0 0 of
                 None \<Rightarrow> Inl ValueError
               | Some (v, k, rest) \<Rightarrow>
                   if k = 0 then Inl ValueError
                   else if dropWhile py_isspace rest \<noteq> [] then Inl ValueError
                   else Inr (if neg then - int v else int v)))"

section \<open>The host: scene objects, console and operator calls\<close>

text \<open>
  The scripts drive the host through its scripting interface. What the host computes
  (the geometry of a primitive, the effect of an operator or of a modifier on a mesh, the
  sockets of a shader node, what is on disk) is a parameter of the model, collected in the
  record \<open>host\<close>; what the scripts themselves decide (which calls, in which order, with
  which arguments, and what they store on the objects) is modelled in full. Host operators
  are taken to exist and to succeed; the version-dependent parts that the scripts guard
  against (shader sockets, node trees of new materials) can be absent.
\<close>

datatype pyval = VNone | VBool bool | VInt int | VReal real | VStr string | VTuple "real list"

type_synonym kwargs = "(string \<times> pyval) list"
type_synonym vec3 = "real \<times> real \<times> real"

definition vtuple :: "vec3 \<Rightarrow> pyval" where
  "vtuple v = (case v of (x, y, z) \<Rightarrow> VTuple [x, y, z])"

text \<open>A console line is a list of fragments: literal text (UTF-8 bytes), an integer or a
  float that an f-string formats. The number formats (\<^verbatim>\<open>:,\<close> \<^verbatim>\<open>:.2f\<close> \<^verbatim>\<open>:.2%\<close>)
  are not rendered.\<close>

datatype frag = Txt string | Num int | Flt real

datatype event =
    Print "frag list"
  | Call string kwargs
  | SetProp string string pyval

text \<open>\<open>Call\<close> records a call of a host function reached through \<^verbatim>\<open>bpy.ops\<close>,
  \<^verbatim>\<open>bpy.data\<close> or \<^verbatim>\<open>bpy.context\<close>, and the method calls that select an object or link
  it to a collection, with the keyword arguments (a positional argument has the empty
  keyword; an object argument is given by its name). \<open>SetProp\<close> records the
  assignment of a custom property \<^verbatim>\<open>obj[key] = value\<close>.\<close>

definition check_mark :: string where "check_mark = [CHR 0xE2, CHR 0x9C, CHR 0x93]"
definition ballot_x :: string where "ballot_x = [CHR 0xE2, CHR 0x9C, CHR 0x97]"
definition right_arrow :: string where "right_arrow = [CHR 0xE2, CHR 0x86, CHR 0x92]"
definition cross_mark :: string where "cross_mark = [CHR 0xE2, CHR 0x9D, CHR 0x8C]"
definition warning_sign :: string where
  "warning_sign = [CHR 0xE2, CHR 0x9A, CHR 0xA0, CHR 0xEF, CHR 0xB8, CHR 0x8F]"

definition banner :: "nat \<Rightarrow> string" where
  "banner n = CHR 0x0A # replicate n (CHR ''='')"

record mesh =
  verts :: "vec3 list"
  polys :: "nat list list"

record node =
  nname :: string
  ntype :: string
  inputs :: kwargs
  outputs :: "string list"

record material =
  mname :: string
  use_nodes :: bool
  nodes :: "node list"
  links :: "(string \<times> string \<times> string \<times> string) list"
  mattrs :: kwargs

record modifier =
  modname :: string
  modtype :: string
  modattrs :: kwargs

record obj =
  oname :: string
  otype :: string
  odata :: mesh
  oloc :: vec3
  oscale :: vec3
  omats :: "material list"
  omods :: "modifier list"
  oattrs :: kwargs
  oprops :: kwargs
  okeys :: "(string \<times> vec3 list) list"
  ogroups :: "(string \<times> nat list) list"

type_synonym path = "string list"

record host =
  project_root :: path
  new_name :: "string \<Rightarrow> string"
  prim_mesh :: "string \<Rightarrow> kwargs \<Rightarrow> mesh"
  op_mesh :: "string \<Rightarrow> kwargs \<Rightarrow> obj \<Rightarrow> mesh"
  apply_modifier :: "modifier \<Rightarrow> mesh \<Rightarrow> mesh"
  new_node :: "string \<Rightarrow> node"
  use_nodes_default :: bool
  default_nodes :: "node list"
  path_exists :: "string \<Rightarrow> bool"
  library_objects :: "string \<Rightarrow> obj list"
  obj_import :: "string \<Rightarrow> obj list"
  glob_obj :: "path \<Rightarrow> nat"
  orphan_blocks :: "string \<Rightarrow> string list"
  in_scene_collection :: "string \<Rightarrow> bool"
  file_size :: "string \<Rightarrow> nat"

text \<open>
  \<^item> \<open>project_root\<close>: the absolute directory \<^verbatim>\<open>PROJECT_ROOT\<close>, as its components;
  \<^item> \<open>new_name op\<close>: the name the host gives the object that operator \<open>op\<close> creates;
  \<^item> \<open>prim_mesh op kw\<close>: the mesh of the primitive that \<open>op\<close> creates;
  \<^item> \<open>op_mesh op kw ob\<close>: the mesh of \<open>ob\<close> after operator \<open>op\<close> ran on it;
  \<^item> \<open>apply_modifier m d\<close>: the mesh \<open>d\<close> after modifier \<open>m\<close> is applied;
  \<^item> \<open>new_node t\<close>: a fresh shader node of type \<open>t\<close>; \<open>default_nodes\<close>: the nodes of
    a material whose node tree the host created; \<open>use_nodes_default\<close>: whether a new
    material has a node tree;
  \<^item> \<open>path_exists\<close>, \<open>library_objects\<close>, \<open>obj_import\<close>, \<open>glob_obj\<close>, \<open>file_size\<close>:
    the file system (the objects of a library file, the objects an OBJ file imports, the
    number of OBJ files in a directory);
  \<^item> \<open>orphan_blocks c\<close>: the data blocks of collection \<open>c\<close> without users once the
    scene is emptied; \<open>in_scene_collection n\<close>: whether an object named \<open>n\<close> is linked
    directly in the scene's root collection.
\<close>

subsection \<open>Computations that log events and may raise\<close>

type_synonym 'a run = "event list \<times> (pyerr + 'a)"

definition retR :: "'a \<Rightarrow> 'a run" where
  "retR x = ([], Inr x)"

definition raiseR :: "pyerr \<Rightarrow> 'a run" where
  "raiseR e = ([], Inl e)"

definition liftR :: "pyerr + 'a \<Rightarrow> 'a run" where
  "liftR r = ([], r)"

definition emit :: "event \<Rightarrow> unit run" where
  "emit e = ([e], Inr ())"

definition bindR :: "'a run \<Rightarrow> ('a \<Rightarrow> 'b run) \<Rightarrow> 'b run" where
  "bindR m f =
     (case m of
        (es, Inl e) \<Rightarrow> (es, Inl e)
      | (es, Inr a) \<Rightarrow> (case f a of (es', r) \<Rightarrow> (es @ es', r)))"

definition thenR :: "unit run \<Rightarrow> 'b run \<Rightarrow> 'b run" where
  "thenR m k = bindR m (\<lambda>_. k)"

text \<open>\<^verbatim>\<open>try: ... except: pass\<close> around a block that updates a value: on any exception the
  value is the one from before the block (the blocks below raise before they assign).\<close>

definition try_pass :: "'a \<Rightarrow> (pyerr + 'a) \<Rightarrow> 'a" where
  "try_pass old r = (case r of Inl _ \<Rightarrow> old | Inr new \<Rightarrow> new)"

fun for_each :: "('a \<Rightarrow> 's \<Rightarrow> 's run) \<Rightarrow> 'a list \<Rightarrow> 's \<Rightarrow> 's run" where
  "for_each f [] s = retR s"
| "for_each f (x # xs) s = bindR (f x s) (for_each f xs)"

fun prints :: "frag list list \<Rightarrow> unit run" where
  "prints [] = retR ()"
| "prints (l # ls) = thenR (emit (Print l)) (prints ls)"

subsection \<open>Paths\<close>

text \<open>Absolute POSIX paths as lists of components. \<open>path_div\<close> is \<^verbatim>\<open>Path / str\<close>:
  an absolute right operand replaces the left one; empty and \<^verbatim>\<open>.\<close> components vanish.\<close>

fun split_slash :: "string \<Rightarrow> string \<Rightarrow> string list" where
  "split_slash cur [] = [rev cur]"
| "split_slash cur (c # cs) =
     (if c = CHR ''/'' then rev cur # split_slash [] cs else split_slash (c # cur) cs)"

definition path_parts :: "string \<Rightarrow> path" where
  "path_parts s = filter (\<lambda>p. p \<noteq> [] \<and> p \<noteq> ''.'') (split_slash [] s)"

definition path_div :: "path \<Rightarrow> string \<Rightarrow> path" where
  "path_div p s = (if s \<noteq> [] \<and> hd s = CHR ''/'' then path_parts s else p @ path_parts s)"

definition path_str :: "path \<Rightarrow> string" where
  "path_str p = (if p = [] then ''/'' else concat (map (\<lambda>c. CHR ''/'' # c) p))"

subsection \<open>Shader sockets, modifiers and operators on an object\<close>

text \<open>\<^verbatim>\<open>node.inputs[k].default_value = v\<close> raises \<^verbatim>\<open>KeyError\<close> when the node has no
  input \<open>k\<close>; \<^verbatim>\<open>k in node.inputs\<close> tests for it.\<close>

definition has_socket :: "string \<Rightarrow> node \<Rightarrow> bool" where
  "has_socket k n = (map_of (inputs n) k \<noteq> None)"

definition set_socket :: "string \<Rightarrow> pyval \<Rightarrow> node \<Rightarrow> pyerr + node" where
  "set_socket k v n =
     (if has_socket k n then Inr (n\<lparr>inputs := AList.update k v (inputs n)\<rparr>)
      else Inl (KeyError k))"

text \<open>\<^verbatim>\<open>links.new(a.outputs[o], b.inputs[i])\<close>.\<close>

definition link_nodes :: "node \<Rightarrow> string \<Rightarrow> node \<Rightarrow> string
    \<Rightarrow> pyerr + (string \<times> string \<times> string \<times> string)" where
  "link_nodes a out b inp =
     (if out \<notin> set (outputs a) then Inl (KeyError out)
      else if \<not> has_socket inp b then Inl (KeyError inp)
      else Inr (nname a, out, nname b, inp))"

text \<open>An operator that edits the object the script made active or selected: the call is
  logged and the host gives the new mesh.\<close>

definition run_op :: "host \<Rightarrow> string \<Rightarrow> kwargs \<Rightarrow> obj \<Rightarrow> obj run" where
  "run_op h op kw ob = ([Call op kw], Inr (ob\<lparr>odata := op_mesh h op kw ob\<rparr>))"

text \<open>An operator or method that changes selection, mode or shading only: the call is
  logged and the object passes through unchanged.\<close>

definition call_op :: "string \<Rightarrow> kwargs \<Rightarrow> 'a \<Rightarrow> 'a run" where
  "call_op op kw x = ([Call op kw], Inr x)"

definition select_set :: "obj \<Rightarrow> obj run" where
  "select_set ob = call_op ''obj.select_set'' [(''object'', VStr (oname ob)), ([], VBool True)] ob"

text \<open>\<^verbatim>\<open>bpy.ops.object.transform_apply(scale=True)\<close>: the scale is baked into the mesh and
  reset.\<close>

definition transform_apply :: "host \<Rightarrow> obj \<Rightarrow> obj run" where
  "transform_apply h ob =
     bindR (run_op h ''bpy.ops.object.transform_apply'' [(''scale'', VBool True)] ob)
       (\<lambda>ob. retR (ob\<lparr>oscale := (1, 1, 1)\<rparr>))"

text \<open>\<^verbatim>\<open>bpy.ops.object.modifier_apply(modifier=nm)\<close>: the first modifier of that name is
  applied to the mesh and leaves the stack; the operator fails when there is none.\<close>

definition modifier_apply :: "host \<Rightarrow> string \<Rightarrow> obj \<Rightarrow> obj run" where
  "modifier_apply h nm ob =
     thenR (emit (Call ''bpy.ops.object.modifier_apply'' [(''modifier'', VStr nm)]))
       (case find (\<lambda>m. modname m = nm) (omods ob) of
          None \<Rightarrow> raiseR RuntimeError
        | Some m \<Rightarrow> retR (ob\<lparr>odata := apply_modifier h m (odata ob),
                              omods := remove1 m (omods ob)\<rparr>))"

text \<open>A primitive-creation operator: a new mesh object at \<open>loc\<close>, without materials,
  modifiers or custom properties.\<close>

definition add_primitive :: "host \<Rightarrow> string \<Rightarrow> kwargs \<Rightarrow> string \<Rightarrow> vec3 \<Rightarrow> obj run" where
  "add_primitive h op kw ty loc =
     ([Call op kw],
      Inr \<lparr>oname = new_name h op, otype = ty, odata = prim_mesh h op kw, oloc = loc,
           oscale = (1, 1, 1), omats = [], omods = [], oattrs = [], oprops = [],
           okeys = [], ogroups = []\<rparr>)"

text \<open>\<^verbatim>\<open>obj[key] = value\<close>.\<close>

definition set_prop :: "string \<Rightarrow> pyval \<Rightarrow> obj \<Rightarrow> obj run" where
  "set_prop k v ob = ([SetProp (oname ob) k v], Inr (ob\<lparr>oprops := AList.update k v (oprops ob)\<rparr>))"

definition get_prop :: "obj \<Rightarrow> string \<Rightarrow> pyval option" where
  "get_prop ob k = map_of (oprops ob) k"

section \<open>Hex colours\<close>

text \<open>
  Each of the three Blender scripts defines its own \<^verbatim>\<open>hex_to_rgb\<close>:
  \<^verbatim>\<open>
  def hex_to_rgb(hex_color):
      hex_color = hex_color.lstrip('#')
      return tuple(int(hex_color[i:i+2], 16) / 255.0 for i in (0, 2, 4))
  \<close>
  The generator is consumed left to right, so the first slice that does not parse raises.
\<close>

type_synonym rgb = "real \<times> real \<times> real"

definition hex_to_rgb_custom :: "string \<Rightarrow> pyerr + rgb" where
  "hex_to_rgb_custom hex_color =
     (let hex_color = py_lstrip (CHR ''#'') hex_color in
      (case py_int16 (py_slice hex_color 0 2) of Inl e \<Rightarrow> Inl e | Inr r \<Rightarrow>
      (case py_int16 (py_slice hex_color 2 4) of Inl e \<Rightarrow> Inl e | Inr g \<Rightarrow>
      (case py_int16 (py_slice hex_color 4 6) of Inl e \<Rightarrow> Inl e | Inr b \<Rightarrow>
        Inr (real_of_int r / 255, real_of_int g / 255, real_of_int b / 255)))))"

definition hex_to_rgb_proc :: "string \<Rightarrow> pyerr + rgb" where
  "hex_to_rgb_proc hex_color =
     (let hex_color = py_lstrip (CHR ''#'') hex_color in
      (case py_int16 (py_slice hex_color 0 2) of Inl e \<Rightarrow> Inl e | Inr r \<Rightarrow>
      (case py_int16 (py_slice hex_color 2 4) of Inl e \<Rightarrow> Inl e | Inr g \<Rightarrow>
      (case py_int16 (py_slice hex_color 4 6) of Inl e \<Rightarrow> Inl e | Inr b \<Rightarrow>
        Inr (real_of_int r / 255, real_of_int g / 255, real_of_int b / 255)))))"

definition hex_to_rgb_bp3d :: "string \<Rightarrow> pyerr + rgb" where
  "hex_to_rgb_bp3d hex_color =
     (let hex_color = py_lstrip (CHR ''#'') hex_color in
      (case py_int16 (py_slice hex_color 0 2) of Inl e \<Rightarrow> Inl e | Inr r \<Rightarrow>
      (case py_int16 (py_slice hex_color 2 4) of Inl e \<Rightarrow> Inl e | Inr g \<Rightarrow>
      (case py_int16 (py_slice hex_color 4 6) of Inl e \<Rightarrow> Inl e | Inr b \<Rightarrow>
        Inr (real_of_int r / 255, real_of_int g / 255, real_of_int b / 255)))))"

text \<open>The reading of a hexadecimal digit that the claim about colours refers to: its
  position in the usual digit alphabet, upper or lower case.\<close>

definition spec_hex_digit :: "char \<Rightarrow> nat option" where
  "spec_hex_digit c =
     map_of (zip ''0123456789abcdefABCDEF''
                 [0, 1, 2, 3, 4, 5, 6, 7, 8, 9, 10, 11, 12, 13, 14, 15, 10, 11, 12, 13, 14, 15]) c"

definition spec_byte :: "nat \<Rightarrow> nat \<Rightarrow> real" where
  "spec_byte hi lo = real (16 * hi + lo) / 255"

section \<open>build\_custom\_anatomy.py\<close>

definition OUTPUT_DIR_custom :: "host \<Rightarrow> path" where
  "OUTPUT_DIR_custom h = path_div (project_root h) ''cli/packages/apps/client-app/public/models''"

definition OUTPUT_FILE_custom :: string where
  "OUTPUT_FILE_custom = ''human_anatomy_custom.glb''"

definition POLYGON_BUDGET :: "(string \<times> int) list" where
  "POLYGON_BUDGET =
     [(''brain'', 5000), (''heart'', 8000), (''lungs'', 6000), (''liver'', 6000),
      (''stomach'', 3000), (''intestines'', 8000), (''kidneys'', 2000), (''bladder'', 1000),
      (''spleen'', 1500), (''pancreas'', 2000), (''skeleton'', 15000), (''vessels'', 5000),
      (''nerves'', 3000)]"

record anat_spec =
  stype :: string
  sposition :: vec3
  ssize :: vec3
  scolor :: string
  ssystem :: string
  subdivisions :: int
  features :: "string list option"

definition mk_structure :: "string \<Rightarrow> vec3 \<Rightarrow> vec3 \<Rightarrow> string \<Rightarrow> string \<Rightarrow> int
    \<Rightarrow> string list option \<Rightarrow> anat_spec" where
  "mk_structure t p z c y d f =
     \<lparr>stype = t, sposition = p, ssize = z, scolor = c, ssystem = y, subdivisions = d,
      features = f\<rparr>"

definition ANATOMY_STRUCTURES :: "(string \<times> anat_spec) list" where
  "ANATOMY_STRUCTURES =
     [(''brain'', mk_structure ''complex'' (0, 1.52, 0.02) (0.12, 0.14, 0.11) ''#E8B4D9''
         ''NERVOUS'' 4 (Some [''cerebrum'', ''cerebellum'', ''brainstem''])),
      (''spinal_cord'', mk_structure ''tube'' (0, 0.82, -0.05) (0.012, 0.75, 0.012) ''#9B59B6''
         ''NERVOUS'' 2 None),
      (''heart'', mk_structure ''complex'' (0.02, 0.98, 0.05) (0.09, 0.11, 0.08) ''#E74C3C''
         ''CARDIOVASCULAR'' 4
         (Some [''left_ventricle'', ''right_ventricle'', ''left_atrium'', ''right_atrium''])),
      (''aorta'', mk_structure ''curved_tube'' (0.02, 1.05, 0.02) (0.018, 0.45, 0.018) ''#C0392B''
         ''CARDIOVASCULAR'' 3 None),
      (''lung_right'', mk_structure ''complex'' (0.11, 1.0, 0) (0.11, 0.22, 0.09) ''#FFB6C1''
         ''RESPIRATORY'' 3 (Some [''upper_lobe'', ''middle_lobe'', ''lower_lobe''])),
      (''lung_left'', mk_structure ''complex'' (-0.09, 1.0, 0) (0.09, 0.20, 0.08) ''#FFB6C1''
         ''RESPIRATORY'' 3 (Some [''upper_lobe'', ''lower_lobe''])),
      (''trachea'', mk_structure ''tube'' (0, 1.25, 0.05) (0.015, 0.12, 0.015) ''#E8A4C9''
         ''RESPIRATORY'' 2 None),
      (''diaphragm'', mk_structure ''dome'' (0, 0.70, 0) (0.20, 0.03, 0.15) ''#C48793''
         ''RESPIRATORY'' 2 None),
      (''liver'', mk_structure ''complex'' (0.09, 0.85, 0.05) (0.16, 0.12, 0.10) ''#8B4513''
         ''DIGESTIVE'' 3 (Some [''right_lobe'', ''left_lobe''])),
      (''stomach'', mk_structure ''pouch'' (-0.05, 0.78, 0.08) (0.09, 0.13, 0.09) ''#FFDAB9''
         ''DIGESTIVE'' 3 None),
      (''small_intestine'', mk_structure ''coiled_tube'' (0, 0.58, 0.09) (0.16, 0.18, 0.13)
         ''#FFE4B5'' ''DIGESTIVE'' 4 None),
      (''large_intestine'', mk_structure ''tube_frame'' (0, 0.55, 0.11) (0.18, 0.22, 0.14)
         ''#E8C4A9'' ''DIGESTIVE'' 3 None),
      (''pancreas'', mk_structure ''elongated'' (0, 0.76, 0.02) (0.13, 0.03, 0.03) ''#DEB887''
         ''DIGESTIVE'' 2 None),
      (''spleen'', mk_structure ''oval'' (-0.12, 0.85, 0.02) (0.05, 0.09, 0.04) ''#8B008B''
         ''DIGESTIVE'' 2 None),
      (''kidney_right'', mk_structure ''bean'' (0.09, 0.70, -0.05) (0.05, 0.09, 0.04) ''#8B0000''
         ''URINARY'' 3 None),
      (''kidney_left'', mk_structure ''bean'' (-0.09, 0.70, -0.05) (0.05, 0.09, 0.04) ''#8B0000''
         ''URINARY'' 3 None),
      (''bladder'', mk_structure ''sphere'' (0, 0.42, 0.08) (0.07, 0.08, 0.06) ''#FFD700''
         ''URINARY'' 3 None)]"

subsection \<open>Geometry creation\<close>

definition create_complex_mesh :: "host \<Rightarrow> string \<Rightarrow> vec3 \<Rightarrow> vec3 \<Rightarrow> int \<Rightarrow> obj run" where
  "create_complex_mesh h name position sz subdivs =
     bindR (add_primitive h ''bpy.ops.mesh.primitive_uv_sphere_add''
              [(''radius'', VReal 1.0), (''location'', vtuple position),
               (''segments'', VInt 16), (''ring_count'', VInt 8)] ''MESH'' position) (\<lambda>ob.
     bindR (transform_apply h (ob\<lparr>oname := name, oscale := sz\<rparr>)) (\<lambda>ob.
     modifier_apply h ''Subdivision''
       (ob\<lparr>omods := omods ob @
              [\<lparr>modname = ''Subdivision'', modtype = ''SUBSURF'',
                modattrs = [(''levels'', VInt subdivs), (''render_levels'', VInt subdivs)]\<rparr>]\<rparr>)))"

definition create_tube_mesh :: "host \<Rightarrow> string \<Rightarrow> vec3 \<Rightarrow> vec3 \<Rightarrow> int \<Rightarrow> obj run" where
  "create_tube_mesh h name position sz subdivs =
     (case sz of (radius, height, _) \<Rightarrow>
        bindR (add_primitive h ''bpy.ops.mesh.primitive_cylinder_add''
                 [(''radius'', VReal radius), (''depth'', VReal height),
                  (''location'', vtuple position), (''vertices'', VInt 16)] ''MESH'' position) (\<lambda>ob.
        call_op ''bpy.ops.object.shade_smooth'' [] (ob\<lparr>oname := name\<rparr>)))"

definition create_bean_mesh :: "host \<Rightarrow> string \<Rightarrow> vec3 \<Rightarrow> vec3 \<Rightarrow> int \<Rightarrow> obj run" where
  "create_bean_mesh h name position sz subdivs =
     bindR (create_complex_mesh h name position sz subdivs) (\<lambda>ob.
     transform_apply h
       (ob\<lparr>oscale := (fst sz, fst (snd sz), snd (snd sz) * 0.8)\<rparr>))"

definition create_dome_mesh :: "host \<Rightarrow> string \<Rightarrow> vec3 \<Rightarrow> vec3 \<Rightarrow> int \<Rightarrow> obj run" where
  "create_dome_mesh h name position sz subdivs =
     bindR (add_primitive h ''bpy.ops.mesh.primitive_uv_sphere_add''
              [(''radius'', VReal 1.0), (''location'', vtuple position),
               (''segments'', VInt 24), (''ring_count'', VInt 12)] ''MESH'' position) (\<lambda>ob.
     bindR (call_op ''bpy.ops.object.mode_set'' [(''mode'', VStr ''EDIT'')]
              (ob\<lparr>oname := name\<rparr>)) (\<lambda>ob.
     bindR (call_op ''bpy.ops.mesh.select_all'' [(''action'', VStr ''SELECT'')] ob) (\<lambda>ob.
     bindR (run_op h ''bpy.ops.mesh.bisect''
              [(''plane_co'', VTuple [0, 0, 0]), (''plane_no'', VTuple [0, 0, 1]),
               (''clear_inner'', VBool True)] ob) (\<lambda>ob.
     bindR (call_op ''bpy.ops.object.mode_set'' [(''mode'', VStr ''OBJECT'')] ob) (\<lambda>ob.
     transform_apply h (ob\<lparr>oscale := sz\<rparr>))))))"

definition create_coiled_tube_mesh :: "host \<Rightarrow> string \<Rightarrow> vec3 \<Rightarrow> vec3 \<Rightarrow> int \<Rightarrow> obj run" where
  "create_coiled_tube_mesh h name position sz subdivs =
     bindR (add_primitive h ''bpy.ops.curve.primitive_bezier_curve_add''
              [(''location'', vtuple position)] ''CURVE'' position) (\<lambda>curve.
     bindR (run_op h ''bpy.ops.object.convert'' [(''target'', VStr ''MESH'')]
              (curve\<lparr>oname := name @ ''_curve'',
                     oattrs := AList.update ''data.resolution_u'' (VInt 12)
                                 (AList.update ''data.bevel_depth'' (VReal (fst sz / 20))
                                    (oattrs curve))\<rparr>)) (\<lambda>ob.
     retR (ob\<lparr>otype := ''MESH'', oname := name\<rparr>)))"

subsection \<open>Material creation\<close>

text \<open>\<^verbatim>\<open>mat.node_tree.nodes\<close> needs the node tree of the new material; the script does
  not switch it on, so a host whose new materials have none raises \<^verbatim>\<open>AttributeError\<close>.\<close>

definition create_organ_material :: "host \<Rightarrow> string \<Rightarrow> string \<Rightarrow> real \<Rightarrow> material run" where
  "create_organ_material h name color_hex roughness =
     thenR (emit (Call ''bpy.data.materials.new'' [(''name'', VStr (''Mat_'' @ name))]))
     (if \<not> use_nodes_default h then raiseR AttributeError
      else
        bindR (liftR (hex_to_rgb_custom color_hex)) (\<lambda>rgb.
        bindR (liftR (set_socket ''Base Color''
                        (case rgb of (r, g, b) \<Rightarrow> VTuple [r, g, b, 1.0])
                        (new_node h ''ShaderNodeBsdfPrincipled''))) (\<lambda>bsdf.
        bindR (liftR (set_socket ''Roughness'' (VReal roughness) bsdf)) (\<lambda>bsdf.
        (let bsdf = try_pass bsdf
                      (if has_socket ''Subsurface Weight'' bsdf
                       then set_socket ''Subsurface Weight'' (VReal 0.1) bsdf
                       else Inr bsdf);
             output = new_node h ''ShaderNodeOutputMaterial''
         in bindR (liftR (link_nodes bsdf ''BSDF'' output ''Surface'')) (\<lambda>l.
            retR \<lparr>mname = ''Mat_'' @ name, use_nodes = True, nodes = [bsdf, output],
                  links = [l], mattrs = []\<rparr>))))))"

subsection \<open>Mesh optimisation\<close>

text \<open>\<^verbatim>\<open>a / b\<close> on integers.\<close>

definition py_truediv :: "int \<Rightarrow> int \<Rightarrow> pyerr + real" where
  "py_truediv a b = (if b = 0 then Inl ZeroDivisionError else Inr (real_of_int a / real_of_int b))"

definition npolys :: "obj \<Rightarrow> int" where
  "npolys ob = int (length (polys (odata ob)))"

definition optimize_mesh :: "host \<Rightarrow> obj \<Rightarrow> int \<Rightarrow> obj run" where
  "optimize_mesh h ob target_polygons =
     (if otype ob \<noteq> ''MESH'' then retR ob
      else
        (let current_polygons = npolys ob in
         if current_polygons \<le> target_polygons then retR ob
         else
           bindR (liftR (py_truediv target_polygons current_polygons)) (\<lambda>ratio.
           bindR (modifier_apply h ''Decimate''
                    (ob\<lparr>omods := omods ob @
                           [\<lparr>modname = ''Decimate'', modtype = ''DECIMATE'',
                             modattrs = [(''ratio'', VReal ratio),
                                         (''use_collapse_triangulate'', VBool True)]\<rparr>]\<rparr>)) (\<lambda>ob'.
           thenR (emit (Print [Txt ''  Optimized '', Txt (oname ob'), Txt '': '',
                               Num current_polygons, Txt ('' '' @ right_arrow @ '' ''),
                               Num (npolys ob'), Txt '' polygons'']))
                 (retR ob')))))"

subsection \<open>Building the model\<close>

text \<open>\<^verbatim>\<open>s.lower()\<close>, on ASCII letters.\<close>

definition py_lower :: "string \<Rightarrow> string" where
  "py_lower s =
     map (\<lambda>c. if 65 \<le> (of_char c :: nat) \<and> (of_char c :: nat) \<le> 90
               then char_of ((of_char c :: nat) + 32) else c) s"

definition clear_scene_ops :: "unit run" where
  "clear_scene_ops =
     thenR (emit (Call ''bpy.ops.object.select_all'' [(''action'', VStr ''SELECT'')]))
           (emit (Call ''bpy.ops.object.delete'' []))"

text \<open>The loading of the reference file: every loaded object is linked into the scene,
  entered into the dictionary \<^verbatim>\<open>reference_objects\<close> under its lower-cased name, and
  hidden. The result is the dictionary.\<close>

definition load_reference :: "host \<Rightarrow> string \<Rightarrow> (string \<times> obj) list run" where
  "load_reference h z_anatomy_path =
     thenR (emit (Print [Txt ''Loading Z-Anatomy reference: '', Txt z_anatomy_path]))
    (thenR (emit (Call ''bpy.data.libraries.load''
                   [([], VStr z_anatomy_path), (''link'', VBool False)]))
    (bindR (for_each
              (\<lambda>ob refs.
                 thenR (emit (Call ''bpy.context.scene.collection.objects.link''
                               [([], VStr (oname ob))]))
                   (retR (AList.update (py_lower (oname ob))
                            (ob\<lparr>oattrs := AList.update ''hide_render'' (VBool True)
                                   (AList.update ''hide_viewport'' (VBool True) (oattrs ob))\<rparr>)
                            refs)))
              (library_objects h z_anatomy_path) []) (\<lambda>refs.
     thenR (emit (Print [Txt ''  Loaded '', Num (int (length refs)), Txt '' reference objects'']))
           (retR refs))))"

text \<open>The \<^verbatim>\<open>if\<close>/\<^verbatim>\<open>elif\<close> chain on \<^verbatim>\<open>spec['type']\<close>; \<open>None\<close> when no branch
  applies.\<close>

definition mesh_for_type :: "host \<Rightarrow> string \<Rightarrow> anat_spec \<Rightarrow> obj option run" where
  "mesh_for_type h name spec =
     (let some = (\<lambda>m. bindR m (\<lambda>ob. retR (Some ob))) in
      if stype spec = ''complex''
        then some (create_complex_mesh h name (sposition spec) (ssize spec) (subdivisions spec))
      else if stype spec = ''tube''
        then some (create_tube_mesh h name (sposition spec) (ssize spec) (subdivisions spec))
      else if stype spec = ''bean''
        then some (create_bean_mesh h name (sposition spec) (ssize spec) (subdivisions spec))
      else if stype spec = ''dome''
        then some (create_dome_mesh h name (sposition spec) (ssize spec) (subdivisions spec))
      else if stype spec = ''coiled_tube''
        then some (create_coiled_tube_mesh h name (sposition spec) (ssize spec)
                     (subdivisions spec))
      else if stype spec \<in> set [''pouch'', ''oval'', ''elongated'', ''sphere'', ''curved_tube'',
                                 ''tube_frame'']
        then some (create_complex_mesh h name (sposition spec) (ssize spec) (subdivisions spec))
      else retR None)"

text \<open>One round of the loop over \<^verbatim>\<open>ANATOMY_STRUCTURES.items()\<close>; the state is the list
  \<^verbatim>\<open>created_objects\<close>.\<close>

definition build_structure :: "host \<Rightarrow> string \<times> anat_spec \<Rightarrow> obj list \<Rightarrow> obj list run" where
  "build_structure h entry created_objects =
     (case entry of (name, spec) \<Rightarrow>
        thenR (emit (Print [Txt ''Creating '', Txt name, Txt ''...'']))
       (bindR (mesh_for_type h name spec) (\<lambda>r.
          case r of
            None \<Rightarrow> retR created_objects
          | Some ob \<Rightarrow>
              bindR (create_organ_material h name (scolor spec) 0.4) (\<lambda>mat.
              bindR (set_prop ''system'' (VStr (ssystem spec))
                       (ob\<lparr>omats := omats ob @ [mat]\<rparr>)) (\<lambda>ob.
              bindR (set_prop ''clickable'' (VBool True) ob) (\<lambda>ob.
              bindR (case map_of POLYGON_BUDGET name of
                       Some budget \<Rightarrow> optimize_mesh h ob budget
                     | None \<Rightarrow> retR ob) (\<lambda>ob.
              retR (created_objects @ [ob]))))))))"

definition build_anatomy_model :: "host \<Rightarrow> string option \<Rightarrow> obj list run" where
  "build_anatomy_model h z_anatomy_path =
     thenR (prints [[Txt (banner 70)], [Txt ''CUSTOM ANATOMY MODEL BUILDER''],
                    [Txt (replicate 70 (CHR ''='') @ [CHR 0x0A])], [Txt ''Clearing scene...'']])
    (thenR clear_scene_ops
    (bindR (case z_anatomy_path of
              None \<Rightarrow> retR []
            | Some p \<Rightarrow> if p \<noteq> [] \<and> path_exists h p then load_reference h p else retR [])
       (\<lambda>reference_objects.
     thenR (emit (Print [Txt (CHR 0x0A # ''Building anatomical structures...'')]))
    (bindR (for_each (build_structure h) ANATOMY_STRUCTURES []) (\<lambda>created_objects.
     bindR (for_each
              (\<lambda>ref_obj (u :: unit).
                 emit (Call ''bpy.data.objects.remove'' [([], VStr (oname ref_obj))]))
              (map snd reference_objects) ()) (\<lambda>_.
     thenR (prints
              [[Txt (CHR 0x0A # check_mark @ '' Created ''),
                Num (int (length created_objects)), Txt '' anatomical structures''],
               [Txt ''  Total polygons: '',
                Num (sum_list (map npolys (filter (\<lambda>ob. otype ob = ''MESH'') created_objects)))]])
           (retR created_objects)))))))"

subsection \<open>Export and main\<close>

text \<open>The size of the written file is read back from disk; the directory is created
  beforehand (\<^verbatim>\<open>mkdir\<close>, not logged).\<close>

definition export_model :: "host \<Rightarrow> path run" where
  "export_model h =
     (let output_path = path_div (OUTPUT_DIR_custom h) OUTPUT_FILE_custom in
      thenR (emit (Print [Txt (CHR 0x0A # ''Exporting to GLTF...'')]))
     (thenR (emit (Call ''bpy.ops.export_scene.gltf''
                    [(''filepath'', VStr (path_str output_path)),
                     (''export_format'', VStr ''GLB''),
                     (''export_cameras'', VBool False),
                     (''export_lights'', VBool False)]))
     (thenR (prints
               [[Txt (CHR 0x0A # check_mark @ '' Export complete!'')],
                [Txt ''  File: '', Txt (path_str output_path)],
                [Txt ''  Size: '',
                 Flt (real (file_size h (path_str output_path)) / (1024 * 1024)), Txt '' MB'']])
            (retR output_path))))"

text \<open>\<^verbatim>\<open>xs.index(x)\<close> when \<open>x\<close> is in \<open>xs\<close>.\<close>

definition py_index :: "'a list \<Rightarrow> 'a \<Rightarrow> nat" where
  "py_index xs x = length (takeWhile (\<lambda>y. y \<noteq> x) xs)"

definition parse_reference :: "string list \<Rightarrow> string option" where
  "parse_reference sys_argv =
     (if ''--'' \<in> set sys_argv then
        (let argv = drop (py_index sys_argv ''--'' + 1) sys_argv in
         if ''--reference'' \<in> set argv then
           (let idx = py_index argv ''--reference'' in
            if idx + 1 < length argv then Some (argv ! (idx + 1)) else None)
         else None)
      else None)"

definition main_custom :: "host \<Rightarrow> string list \<Rightarrow> unit run" where
  "main_custom h sys_argv =
     bindR (build_anatomy_model h (parse_reference sys_argv)) (\<lambda>objects.
     bindR (export_model h) (\<lambda>output_path.
     prints
       [[Txt (banner 70)], [Txt (check_mark @ '' SUCCESS!'')], [Txt (replicate 70 (CHR ''=''))],
        [Txt (CHR 0x0A # ''Custom anatomy model created: ''), Txt OUTPUT_FILE_custom],
        [Txt ''Structures: '', Num (int (length objects))],
        [Txt (CHR 0x0A # ''Next steps:'')],
        [Txt ''1. Update PhysicsAnatomyModel.tsx:''],
        [Txt (''   const { scene } = useGLTF('' @ [CHR 0x27]
              @ ''/models/human_anatomy_custom.glb'' @ [CHR 0x27] @ '');'')],
        [Txt ''2. Refresh browser: http://localhost:5175/physics-demo''],
        []]))"

section \<open>import\_bodyparts3d.py\<close>

text \<open>
  This script reads the scene back (\<^verbatim>\<open>bpy.data.objects\<close>) when it optimises, so its
  functions pass the list of scene objects along. Deleting the selection after
  \<^verbatim>\<open>select_all\<close> is taken to empty the scene.
\<close>

definition MODELS_INPUT_DIR :: "host \<Rightarrow> path" where
  "MODELS_INPUT_DIR h = path_div (project_root h) ''scripts/blender/bodyparts3d_models''"

definition MODELS_OUTPUT_DIR :: "host \<Rightarrow> path" where
  "MODELS_OUTPUT_DIR h = path_div (project_root h) ''cli/packages/apps/client-app/public/models''"

text \<open>\<^verbatim>\<open>(fma_code, organ_name, system, color_hex, position_xyz)\<close>\<close>

definition ANATOMY_MODELS :: "(string \<times> string \<times> string \<times> string \<times> vec3) list" where
  "ANATOMY_MODELS =
     [(''FMA50801'', ''brain'', ''NERVOUS'', ''#9B59B6'', (0, 1.5, 0)),
      (''FMA7647'', ''spinal_cord'', ''NERVOUS'', ''#8E44AD'', (0, 0.8, -0.05)),
      (''FMA7088'', ''heart'', ''CARDIOVASCULAR'', ''#E74C3C'', (0.02, 1.0, 0.05)),
      (''FMA3986'', ''aorta'', ''CARDIOVASCULAR'', ''#C0392B'', (0, 1.0, 0)),
      (''FMA4720'', ''superior_vena_cava'', ''CARDIOVASCULAR'', ''#8B0000'', (0.05, 1.1, 0.05)),
      (''FMA7195'', ''lung_right'', ''RESPIRATORY'', ''#5DADE2'', (0.08, 1.0, 0)),
      (''FMA7196'', ''lung_left'', ''RESPIRATORY'', ''#5DADE2'', (-0.08, 1.0, 0)),
      (''FMA7394'', ''trachea'', ''RESPIRATORY'', ''#3498DB'', (0, 1.2, 0.05)),
      (''FMA13322'', ''diaphragm'', ''RESPIRATORY'', ''#2E86C1'', (0, 0.7, 0)),
      (''FMA7197'', ''liver'', ''DIGESTIVE'', ''#D68910'', (0.1, 0.85, 0.05)),
      (''FMA7148'', ''stomach'', ''DIGESTIVE'', ''#E67E22'', (-0.05, 0.8, 0.08)),
      (''FMA7199'', ''gallbladder'', ''DIGESTIVE'', ''#F39C12'', (0.12, 0.82, 0.08)),
      (''FMA7203'', ''pancreas'', ''DIGESTIVE'', ''#CA6F1E'', (0, 0.75, 0.05)),
      (''FMA7201'', ''spleen'', ''DIGESTIVE'', ''#7D3C98'', (-0.12, 0.85, 0.05)),
      (''FMA7200'', ''small_intestine'', ''DIGESTIVE'', ''#F5B041'', (0, 0.6, 0.08)),
      (''FMA14543'', ''large_intestine'', ''DIGESTIVE'', ''#DC7633'', (0, 0.55, 0.1)),
      (''FMA7203'', ''kidney_right'', ''URINARY'', ''#F4D03F'', (0.08, 0.7, -0.05)),
      (''FMA7204'', ''kidney_left'', ''URINARY'', ''#F4D03F'', (-0.08, 0.7, -0.05)),
      (''FMA15900'', ''bladder'', ''URINARY'', ''#F7DC6F'', (0, 0.45, 0.08)),
      (''FMA46565'', ''skull'', ''SKELETAL'', ''#E8E8E8'', (0, 1.5, 0)),
      (''FMA7647'', ''spine'', ''SKELETAL'', ''#D5D8DC'', (0, 0.8, -0.05)),
      (''FMA9468'', ''ribs'', ''SKELETAL'', ''#BDC3C7'', (0, 1.0, 0)),
      (''FMA16585'', ''pelvis'', ''SKELETAL'', ''#AAB7B8'', (0, 0.5, 0))]"

definition GLOBAL_SCALE :: real where
  "GLOBAL_SCALE = 0.001"

definition TARGET_POLYGON_COUNT :: "(string \<times> int) list" where
  "TARGET_POLYGON_COUNT = [(''high_detail'', 500000), (''low_detail'', 50000)]"

subsection \<open>Utility functions\<close>

definition remove_orphans :: "host \<Rightarrow> string \<Rightarrow> unit run" where
  "remove_orphans h coll =
     for_each (\<lambda>block (u :: unit). emit (Call (coll @ ''.remove'') [([], VStr block)]))
       (orphan_blocks h coll) ()"

definition clear_scene_bp3d :: "host \<Rightarrow> unit run" where
  "clear_scene_bp3d h =
     thenR clear_scene_ops
    (thenR (remove_orphans h ''bpy.data.meshes'')
    (thenR (remove_orphans h ''bpy.data.materials'')
    (thenR (remove_orphans h ''bpy.data.textures'')
           (remove_orphans h ''bpy.data.images''))))"

definition create_material_bp3d :: "host \<Rightarrow> string \<Rightarrow> string \<Rightarrow> real \<Rightarrow> material run" where
  "create_material_bp3d h name color_hex roughness =
     thenR (emit (Call ''bpy.data.materials.new'' [(''name'', VStr (''Mat_'' @ name))]))
    (bindR (liftR (hex_to_rgb_bp3d color_hex)) (\<lambda>rgb.
     (let rgba = (case rgb of (r, g, b) \<Rightarrow> VTuple [r, g, b, 1.0]) in
      bindR (liftR (set_socket ''Base Color'' rgba (new_node h ''ShaderNodeBsdfPrincipled'')))
        (\<lambda>node_bsdf.
      bindR (liftR (set_socket ''Roughness'' (VReal roughness) node_bsdf)) (\<lambda>node_bsdf.
      bindR (liftR (set_socket ''Subsurface'' (VReal 0.05) node_bsdf)) (\<lambda>node_bsdf.
      bindR (liftR (set_socket ''Subsurface Color'' rgba node_bsdf)) (\<lambda>node_bsdf.
      (let node_output = new_node h ''ShaderNodeOutputMaterial'' in
       bindR (liftR (link_nodes node_bsdf ''BSDF'' node_output ''Surface'')) (\<lambda>l.
       retR \<lparr>mname = ''Mat_'' @ name, use_nodes = True, nodes = [node_bsdf, node_output],
             links = [l], mattrs = []\<rparr>)))))))))"

text \<open>The result is the imported object, if any, and the other objects the file brought
  into the scene.\<close>

definition import_obj_model :: "host \<Rightarrow> string \<Rightarrow> string \<Rightarrow> (obj option \<times> obj list) run" where
  "import_obj_model h fma_code organ_name =
     (let obj_path = path_div (MODELS_INPUT_DIR h) (fma_code @ ''.obj'') in
      if \<not> path_exists h (path_str obj_path)
      then thenR (emit (Print [Txt (warning_sign @ ''  WARNING: Model not found: ''),
                               Txt (path_str obj_path)]))
                 (retR (None, []))
      else
        thenR (emit (Call ''bpy.ops.import_scene.obj'' [(''filepath'', VStr (path_str obj_path))]))
          (case obj_import h (path_str obj_path) of
             [] \<Rightarrow> retR (None, [])
           | imported_obj # others \<Rightarrow>
               thenR (emit (Print [Txt (check_mark @ '' Imported: ''), Txt organ_name,
                                   Txt '' ('', Txt fma_code, Txt '')'']))
                     (retR (Some (imported_obj\<lparr>oname := organ_name\<rparr>), others))))"

definition clean_mesh :: "host \<Rightarrow> obj \<Rightarrow> obj run" where
  "clean_mesh h ob =
     (if otype ob \<noteq> ''MESH'' then retR ob
      else
        bindR (call_op ''bpy.ops.object.select_all'' [(''action'', VStr ''DESELECT'')] ob) (\<lambda>ob.
        bindR (select_set ob) (\<lambda>ob.
        bindR (call_op ''bpy.ops.object.mode_set'' [(''mode'', VStr ''EDIT'')] ob) (\<lambda>ob.
        bindR (call_op ''bpy.ops.mesh.select_all'' [(''action'', VStr ''SELECT'')] ob) (\<lambda>ob.
        bindR (run_op h ''bpy.ops.mesh.remove_doubles'' [(''threshold'', VReal 0.0001)] ob) (\<lambda>ob.
        bindR (run_op h ''bpy.ops.mesh.normals_make_consistent'' [(''inside'', VBool False)] ob)
          (\<lambda>ob.
        bindR (run_op h ''bpy.ops.mesh.delete_loose'' [] ob) (\<lambda>ob.
        call_op ''bpy.ops.object.mode_set'' [(''mode'', VStr ''OBJECT'')] ob))))))))"

definition decimate_mesh :: "host \<Rightarrow> obj \<Rightarrow> real \<Rightarrow> obj run" where
  "decimate_mesh h ob ratio =
     (if otype ob \<noteq> ''MESH'' then retR ob
      else modifier_apply h ''Decimate''
             (ob\<lparr>omods := omods ob @
                    [\<lparr>modname = ''Decimate'', modtype = ''DECIMATE'',
                      modattrs = [(''ratio'', VReal ratio),
                                  (''use_collapse_triangulate'', VBool True)]\<rparr>]\<rparr>))"

subsection \<open>Import, optimisation, export and main\<close>

definition SYSTEMS :: "string list" where
  "SYSTEMS = [''NERVOUS'', ''CARDIOVASCULAR'', ''RESPIRATORY'', ''DIGESTIVE'', ''URINARY'',
              ''SKELETAL'']"

text \<open>One round of the loop over \<^verbatim>\<open>ANATOMY_MODELS\<close>. The state is the scene, the
  counter \<^verbatim>\<open>imported_count\<close> and the counter \<^verbatim>\<open>skipped_count\<close>.\<close>

definition import_one :: "host \<Rightarrow> string \<times> string \<times> string \<times> string \<times> vec3
    \<Rightarrow> obj list \<times> int \<times> int \<Rightarrow> (obj list \<times> int \<times> int) run" where
  "import_one h entry st =
     (case entry of (fma_code, organ_name, system, color_hex, position) \<Rightarrow>
      case st of (scene, imported_count, skipped_count) \<Rightarrow>
        bindR (import_obj_model h fma_code organ_name) (\<lambda>res.
          case res of
            (None, others) \<Rightarrow> retR (scene @ others, imported_count, skipped_count + 1)
          | (Some ob, others) \<Rightarrow>
              bindR (transform_apply h
                       (ob\<lparr>oscale := (GLOBAL_SCALE, GLOBAL_SCALE, GLOBAL_SCALE)\<rparr>)) (\<lambda>ob.
              bindR (clean_mesh h (ob\<lparr>oloc := position\<rparr>)) (\<lambda>ob.
              bindR (create_material_bp3d h organ_name color_hex 0.4) (\<lambda>mat.
              bindR (if system \<in> set SYSTEMS
                     then thenR (emit (Call ''collections[system].objects.link''
                                        [(''collection'', VStr (system @ ''_System'')),
                                         ([], VStr (oname ob))]))
                                (if in_scene_collection h (oname ob)
                                 then emit (Call ''bpy.context.scene.collection.objects.unlink''
                                              [([], VStr (oname ob))])
                                 else retR ())
                     else retR ()) (\<lambda>_.
              bindR (set_prop ''system_code'' (VStr system)
                       (ob\<lparr>omats := (if omats ob \<noteq> [] then mat # tl (omats ob)
                                       else omats ob @ [mat])\<rparr>)) (\<lambda>ob.
              bindR (set_prop ''fma_code'' (VStr fma_code) ob) (\<lambda>ob.
              bindR (set_prop ''clickable'' (VBool True) ob) (\<lambda>ob.
              retR (scene @ [ob] @ others, imported_count + 1, skipped_count))))))))))"

definition import_anatomy_models :: "host \<Rightarrow> (obj list \<times> int) run" where
  "import_anatomy_models h =
     thenR (prints [[Txt (banner 70)], [Txt ''IMPORTING BODYPARTS3D ANATOMICAL MODELS''],
                    [Txt (replicate 70 (CHR ''='') @ [CHR 0x0A])], [Txt ''Clearing scene...'']])
    (thenR (clear_scene_bp3d h)
    (thenR (for_each
              (\<lambda>system (u :: unit).
                 thenR (emit (Call ''bpy.data.collections.new''
                               [(''name'', VStr (system @ ''_System''))]))
                       (emit (Call ''bpy.context.scene.collection.children.link''
                               [([], VStr (system @ ''_System''))])))
              SYSTEMS ())
    (bindR (for_each (import_one h) ANATOMY_MODELS ([], 0, 0)) (\<lambda>st.
       case st of (scene, imported_count, skipped_count) \<Rightarrow>
         thenR (emit (Print [Txt (CHR 0x0A # check_mark @ '' Import complete: ''),
                             Num imported_count, Txt '' models imported, '',
                             Num skipped_count, Txt '' skipped'']))
               (retR (scene, imported_count))))))"

definition total_polygons :: "obj list \<Rightarrow> int" where
  "total_polygons scene = sum_list (map npolys (filter (\<lambda>ob. otype ob = ''MESH'') scene))"

text \<open>One round of the loop over \<^verbatim>\<open>bpy.data.objects\<close> in \<^verbatim>\<open>optimize_models\<close>; the
  state is the list of the objects already visited.\<close>

definition decimate_step :: "host \<Rightarrow> real \<Rightarrow> obj \<Rightarrow> obj list \<Rightarrow> obj list run" where
  "decimate_step h ratio ob done =
     (if otype ob = ''MESH''
      then thenR (emit (Print [Txt ''  Decimating '', Txt (oname ob), Txt ''...'']))
                 (bindR (decimate_mesh h ob ratio) (\<lambda>ob'. retR (done @ [ob'])))
      else retR (done @ [ob]))"

definition optimize_models :: "host \<Rightarrow> string \<Rightarrow> obj list \<Rightarrow> obj list run" where
  "optimize_models h target_detail scene =
     thenR (prints [[Txt (banner 70)],
                    [Txt ''OPTIMIZING MODELS (Target: '', Txt target_detail, Txt '')''],
                    [Txt (replicate 70 (CHR ''='') @ [CHR 0x0A])]])
       (case map_of TARGET_POLYGON_COUNT target_detail of
          None \<Rightarrow> raiseR (KeyError target_detail)
        | Some target_total \<Rightarrow>
            thenR (prints [[Txt ''Current polygon count: '', Num (total_polygons scene)],
                           [Txt ''Target polygon count: '', Num target_total]])
              (if total_polygons scene \<le> target_total
               then thenR (emit (Print [Txt (check_mark @ '' Already optimized!'')])) (retR scene)
               else
                 bindR (liftR (py_truediv target_total (total_polygons scene))) (\<lambda>decimate_ratio.
                 thenR (emit (Print [Txt ''Decimation ratio: '', Flt decimate_ratio]))
                (bindR (for_each (decimate_step h decimate_ratio) scene []) (\<lambda>scene'.
                 thenR (emit (Print [Txt (CHR 0x0A # check_mark @ '' Optimization complete: ''),
                                     Num (total_polygons scene'), Txt '' polygons'']))
                       (retR scene'))))))"

definition export_gltf_bp3d :: "host \<Rightarrow> string \<Rightarrow> path run" where
  "export_gltf_bp3d h output_filename =
     (let output_path = path_div (MODELS_OUTPUT_DIR h) output_filename in
      thenR (prints [[Txt (banner 70)], [Txt ''EXPORTING TO GLTF''],
                     [Txt (replicate 70 (CHR ''='') @ [CHR 0x0A])]])
     (thenR (emit (Call ''bpy.ops.export_scene.gltf''
                    [(''filepath'', VStr (path_str output_path)),
                     (''export_format'', VStr ''GLB''),
                     (''export_textures'', VBool True),
                     (''export_normals'', VBool True),
                     (''export_materials'', VStr ''EXPORT''),
                     (''export_colors'', VBool True),
                     (''export_cameras'', VBool False),
                     (''export_lights'', VBool False),
                     (''export_apply'', VBool True),
                     (''export_yup'', VBool True),
                     (''export_draco_mesh_compression_enable'', VBool True),
                     (''export_draco_mesh_compression_level'', VInt 6),
                     (''export_draco_position_quantization'', VInt 14),
                     (''export_draco_normal_quantization'', VInt 10),
                     (''export_draco_texcoord_quantization'', VInt 12)]))
     (thenR (prints
               [[Txt (check_mark @ '' Export complete: ''), Txt (path_str output_path)],
                [Txt ''  File size: '',
                 Flt (real (file_size h (path_str output_path)) / (1024 * 1024)), Txt '' MB'']])
            (retR output_path))))"

definition main_bp3d :: "host \<Rightarrow> unit run" where
  "main_bp3d h =
     thenR (prints [[Txt (banner 70)], [Txt ''BODYPARTS3D TO GLTF CONVERTER''],
                    [Txt (replicate 70 (CHR ''=''))]])
       (if \<not> path_exists h (path_str (MODELS_INPUT_DIR h))
        then thenR (prints
                      [[Txt (CHR 0x0A # cross_mark @ '' ERROR: Input directory not found: ''),
                        Txt (path_str (MODELS_INPUT_DIR h))],
                       [Txt (CHR 0x0A #
                          ''Please create the directory and place BodyParts3D OBJ files there.'')],
                       [Txt (CHR 0x0A # ''Download from: http://lifesciencedb.jp/bp3d/'')]])
                   (raiseR (SystemExit 1))
        else
          thenR (emit (Print [Txt (CHR 0x0A # ''Found ''),
                              Num (int (glob_obj h (MODELS_INPUT_DIR h))),
                              Txt '' OBJ files in input directory'']))
         (bindR (import_anatomy_models h) (\<lambda>res.
            case res of (scene, imported_count) \<Rightarrow>
              if imported_count = 0
              then thenR (prints
                            [[Txt (CHR 0x0A # cross_mark @ '' ERROR: No models were imported!'')],
                             [Txt ''Please download OBJ files from BodyParts3D and place them in:''],
                             [Txt ''  '', Txt (path_str (MODELS_INPUT_DIR h))]])
                         (raiseR (SystemExit 1))
              else
                bindR (optimize_models h ''high_detail'' scene) (\<lambda>scene.
                bindR (export_gltf_bp3d h ''human_anatomy_high.glb'') (\<lambda>_.
                bindR (optimize_models h ''low_detail'' scene) (\<lambda>scene.
                bindR (export_gltf_bp3d h ''human_anatomy_low.glb'') (\<lambda>_.
                prints
                  [[Txt (banner 70)], [Txt (check_mark @ '' CONVERSION COMPLETE!'')],
                   [Txt (replicate 70 (CHR ''=''))],
                   [Txt (CHR 0x0A # ''Output files:'')],
                   [Txt ''  - '',
                    Txt (path_str (path_div (MODELS_OUTPUT_DIR h) ''human_anatomy_high.glb'')),
                    Txt '' (detailed)''],
                   [Txt ''  - '',
                    Txt (path_str (path_div (MODELS_OUTPUT_DIR h) ''human_anatomy_low.glb'')),
                    Txt '' (optimized)''],
                   [Txt (CHR 0x0A # ''Next steps:'')],
                   [Txt ''  1. Copy GLB files to client-app/public/models/''],
                   [Txt ''  2. Update PhysicsAnatomyModel.tsx to load the GLB''],
                   [Txt ''  3. Test in browser at http://localhost:5175/physics-demo''],
                   [Txt (CHR 0x0A # ''Attribution required:'')],
                   [Txt (''  '' @ [CHR 0x27]
                         @ ''Anatomical models from BodyParts3D Database (CC BY-SA 2.1 JP)''
                         @ [CHR 0x27])],
                   [Txt (''  '' @ [CHR 0x27] @ ''Database Center for Life Science, Japan''
                         @ [CHR 0x27])],
                   []])))))))"

section \<open>generate\_anatomy\_procedural.py\<close>

text \<open>
  \<^verbatim>\<open>create_organ\<close> reads \<^verbatim>\<open>bpy.context.active_object\<close> after its \<^verbatim>\<open>if\<close>/\<^verbatim>\<open>elif\<close>
  chain. The scene is the list of objects created so far, the last one being the active
  object; after \<^verbatim>\<open>clear_scene\<close> there is none. The argument \<^verbatim>\<open>size\<close> is a float for a
  sphere and a tuple otherwise, so it is a \<open>pyval\<close>.
\<close>

definition OUTPUT_DIR_proc :: "host \<Rightarrow> path" where
  "OUTPUT_DIR_proc h = path_div (project_root h) ''cli/packages/apps/client-app/public/models''"

definition OUTPUT_FILE_proc :: string where
  "OUTPUT_FILE_proc = ''human_anatomy.glb''"

definition clear_scene_proc :: "unit run" where
  "clear_scene_proc = clear_scene_ops"

definition create_material_proc :: "host \<Rightarrow> string \<Rightarrow> string \<Rightarrow> real \<Rightarrow> real \<Rightarrow> material run"
  where
  "create_material_proc h name color_hex roughness subsurface =
     thenR (emit (Call ''bpy.data.materials.new'' [(''name'', VStr (''Mat_'' @ name))]))
     (if \<not> use_nodes_default h then raiseR AttributeError
      else
        bindR (liftR (hex_to_rgb_proc color_hex)) (\<lambda>rgb.
        bindR (liftR (set_socket ''Base Color''
                        (case rgb of (r, g, b) \<Rightarrow> VTuple [r, g, b, 1.0])
                        (new_node h ''ShaderNodeBsdfPrincipled''))) (\<lambda>bsdf.
        bindR (liftR (set_socket ''Roughness'' (VReal roughness) bsdf)) (\<lambda>bsdf.
        (let bsdf = try_pass bsdf
                      (if has_socket ''Subsurface Weight'' bsdf
                       then set_socket ''Subsurface Weight'' (VReal subsurface) bsdf
                       else if has_socket ''Subsurface'' bsdf
                       then set_socket ''Subsurface'' (VReal subsurface) bsdf
                       else Inr bsdf);
             output = new_node h ''ShaderNodeOutputMaterial''
         in bindR (liftR (link_nodes bsdf ''BSDF'' output ''Surface'')) (\<lambda>l.
            retR \<lparr>mname = ''Mat_'' @ name, use_nodes = True, nodes = [bsdf, output],
                  links = [l], mattrs = []\<rparr>))))))"

text \<open>\<^verbatim>\<open>size[i]\<close> and \<^verbatim>\<open>obj.scale = v\<close> on a value of unknown shape.\<close>

definition py_getitem :: "pyval \<Rightarrow> nat \<Rightarrow> pyerr + real" where
  "py_getitem v i =
     (case v of
        VTuple xs \<Rightarrow> if i < length xs then Inr (xs ! i) else Inl IndexError
      | _ \<Rightarrow> Inl TypeError)"

definition set_scale :: "pyval \<Rightarrow> obj \<Rightarrow> pyerr + obj" where
  "set_scale v ob =
     (case v of
        VTuple xs \<Rightarrow>
          (case xs of
             [x, y, z] \<Rightarrow> Inr (ob\<lparr>oscale := (x, y, z)\<rparr>)
           | _ \<Rightarrow> Inl ValueError)
      | _ \<Rightarrow> Inl TypeError)"

definition create_organ :: "host \<Rightarrow> string \<Rightarrow> string \<Rightarrow> pyval \<Rightarrow> vec3 \<Rightarrow> string \<Rightarrow> string
    \<Rightarrow> obj list \<Rightarrow> obj list run" where
  "create_organ h name geometry_type sz position color system scene =
     bindR
       (if geometry_type = ''sphere'' then
          bindR (add_primitive h ''bpy.ops.mesh.primitive_uv_sphere_add''
                   [(''radius'', sz), (''location'', vtuple position),
                    (''segments'', VInt 32), (''ring_count'', VInt 16)] ''MESH'' position) (\<lambda>ob.
          retR (scene @ [ob]))
        else if geometry_type = ''ellipsoid'' then
          bindR (add_primitive h ''bpy.ops.mesh.primitive_uv_sphere_add''
                   [(''radius'', VReal 1.0), (''location'', vtuple position),
                    (''segments'', VInt 32), (''ring_count'', VInt 16)] ''MESH'' position) (\<lambda>ob.
          bindR (liftR (set_scale sz ob)) (\<lambda>ob.
          retR (scene @ [ob])))
        else if geometry_type = ''cylinder'' then
          bindR (liftR (py_getitem sz 0)) (\<lambda>radius.
          bindR (liftR (py_getitem sz 1)) (\<lambda>depth.
          bindR (add_primitive h ''bpy.ops.mesh.primitive_cylinder_add''
                   [(''radius'', VReal radius), (''depth'', VReal depth),
                    (''location'', vtuple position), (''vertices'', VInt 32)] ''MESH'' position)
            (\<lambda>ob.
          retR (scene @ [ob]))))
        else if geometry_type = ''capsule'' then
          bindR (liftR (py_getitem sz 0)) (\<lambda>radius.
          bindR (add_primitive h ''bpy.ops.mesh.primitive_uv_sphere_add''
                   [(''radius'', VReal radius), (''location'', vtuple position),
                    (''segments'', VInt 32), (''ring_count'', VInt 16)] ''MESH'' position) (\<lambda>ob.
          bindR (liftR (py_getitem sz 1)) (\<lambda>stretch.
          retR (scene @ [ob\<lparr>oscale := (1.0, stretch, 1.0)\<rparr>]))))
        else retR scene)
       (\<lambda>scene.
          if scene = [] then raiseR AttributeError
          else
            bindR (create_material_proc h name color 0.4 0.1) (\<lambda>mat.
            bindR (set_prop ''system'' (VStr system)
                     ((last scene)\<lparr>oname := name, omats := omats (last scene) @ [mat]\<rparr>)) (\<lambda>ob.
            bindR (set_prop ''clickable'' (VBool True) ob) (\<lambda>ob.
            bindR (call_op ''bpy.ops.object.shade_smooth'' [] ob) (\<lambda>ob.
            retR (butlast scene @ [ob]))))))"

text \<open>A run of \<^verbatim>\<open>create_organ\<close> calls, given by their arguments.\<close>

type_synonym organ_args = "string \<times> string \<times> pyval \<times> vec3 \<times> string \<times> string"

definition create_organs :: "host \<Rightarrow> organ_args list \<Rightarrow> obj list \<Rightarrow> obj list run" where
  "create_organs h calls scene =
     for_each (\<lambda>args scene.
                 case args of (name, geometry_type, sz, position, color, system) \<Rightarrow>
                   create_organ h name geometry_type sz position color system scene)
       calls scene"

subsection \<open>Body structure and organ systems\<close>

text \<open>Each function of this part prints a line and calls \<^verbatim>\<open>create_organ\<close> with
  constant arguments; the argument lists are named so that they can be spoken about.\<close>

definition body_outline_calls :: "organ_args list" where
  "body_outline_calls =
     [(''head'', ''sphere'', VReal 0.12, (0, 1.5, 0), ''#FFD7BE'', ''BODY''),
      (''neck'', ''cylinder'', VTuple [0.04, 0.12], (0, 1.35, 0), ''#FFD7BE'', ''BODY''),
      (''torso_upper'', ''ellipsoid'', VTuple [0.18, 0.35, 0.12], (0, 1.0, 0), ''#FFD7BE'',
       ''BODY''),
      (''torso_lower'', ''ellipsoid'', VTuple [0.15, 0.25, 0.12], (0, 0.7, 0), ''#FFD7BE'',
       ''BODY'')]
     @ concat (map (\<lambda>(side, x_pos).
          [(''arm_upper_'' @ side, ''cylinder'', VTuple [0.03, 0.25], (x_pos, 0.95, 0),
            ''#FFD7BE'', ''BODY''),
           (''arm_lower_'' @ side, ''cylinder'', VTuple [0.025, 0.22], (x_pos, 0.65, 0),
            ''#FFD7BE'', ''BODY'')])
        [(''left'', -0.25), (''right'', 0.25)])
     @ concat (map (\<lambda>(side, x_pos).
          [(''leg_upper_'' @ side, ''cylinder'', VTuple [0.06, 0.4], (x_pos, 0.25, 0),
            ''#FFD7BE'', ''BODY''),
           (''leg_lower_'' @ side, ''cylinder'', VTuple [0.04, 0.4], (x_pos, -0.15, 0),
            ''#FFD7BE'', ''BODY'')])
        [(''left'', -0.08), (''right'', 0.08)])"

definition create_body_outline :: "host \<Rightarrow> obj list \<Rightarrow> obj list run" where
  "create_body_outline h scene =
     thenR (emit (Print [Txt ''Creating body outline...'']))
           (create_organs h body_outline_calls scene)"

definition brain_calls :: "organ_args list" where
  "brain_calls =
     [(''brain'', ''ellipsoid'', VTuple [0.08, 0.10, 0.09], (0, 1.52, 0.02), ''#E8B4D9'',
       ''NERVOUS'')]"

definition create_brain :: "host \<Rightarrow> obj list \<Rightarrow> obj list run" where
  "create_brain h scene =
     thenR (emit (Print [Txt ''Creating brain...''])) (create_organs h brain_calls scene)"

definition heart_calls :: "organ_args list" where
  "heart_calls =
     [(''heart'', ''ellipsoid'', VTuple [0.08, 0.10, 0.07], (0.02, 0.98, 0.05), ''#E74C3C'',
       ''CARDIOVASCULAR'')]"

definition create_heart :: "host \<Rightarrow> obj list \<Rightarrow> obj list run" where
  "create_heart h scene =
     thenR (emit (Print [Txt ''Creating heart...''])) (create_organs h heart_calls scene)"

definition lungs_calls :: "organ_args list" where
  "lungs_calls =
     [(''lung_right'', ''ellipsoid'', VTuple [0.10, 0.20, 0.08], (0.10, 1.0, 0), ''#FFB6C1'',
       ''RESPIRATORY''),
      (''lung_left'', ''ellipsoid'', VTuple [0.08, 0.18, 0.07], (-0.10, 1.0, 0), ''#FFB6C1'',
       ''RESPIRATORY'')]"

definition create_lungs :: "host \<Rightarrow> obj list \<Rightarrow> obj list run" where
  "create_lungs h scene =
     thenR (emit (Print [Txt ''Creating lungs...''])) (create_organs h lungs_calls scene)"

definition digestive_calls :: "organ_args list" where
  "digestive_calls =
     [(''liver'', ''ellipsoid'', VTuple [0.14, 0.10, 0.18], (0.08, 0.85, 0.05), ''#8B4513'',
       ''DIGESTIVE''),
      (''stomach'', ''ellipsoid'', VTuple [0.08, 0.12, 0.08], (-0.05, 0.80, 0.08), ''#FFDAB9'',
       ''DIGESTIVE''),
      (''intestines'', ''ellipsoid'', VTuple [0.15, 0.15, 0.12], (0, 0.60, 0.08), ''#FFE4B5'',
       ''DIGESTIVE''),
      (''pancreas'', ''cylinder'', VTuple [0.02, 0.12], (0, 0.78, 0.02), ''#DEB887'',
       ''DIGESTIVE''),
      (''spleen'', ''ellipsoid'', VTuple [0.05, 0.08, 0.04], (-0.12, 0.85, 0.02), ''#8B008B'',
       ''DIGESTIVE'')]"

definition create_digestive_system :: "host \<Rightarrow> obj list \<Rightarrow> obj list run" where
  "create_digestive_system h scene =
     thenR (emit (Print [Txt ''Creating digestive system...'']))
           (create_organs h digestive_calls scene)"

definition urinary_calls :: "organ_args list" where
  "urinary_calls =
     map (\<lambda>(side, x_pos).
            (''kidney_'' @ side, ''ellipsoid'', VTuple [0.05, 0.08, 0.04], (x_pos, 0.70, -0.05),
             ''#8B0000'', ''URINARY''))
       [(''left'', -0.08), (''right'', 0.08)]
     @ [(''bladder'', ''sphere'', VReal 0.06, (0, 0.45, 0.08), ''#FFD700'', ''URINARY'')]"

definition create_urinary_system :: "host \<Rightarrow> obj list \<Rightarrow> obj list run" where
  "create_urinary_system h scene =
     thenR (emit (Print [Txt ''Creating urinary system...'']))
           (create_organs h urinary_calls scene)"

fun update_first :: "('a \<Rightarrow> bool) \<Rightarrow> ('a \<Rightarrow> 'a) \<Rightarrow> 'a list \<Rightarrow> 'a list" where
  "update_first p f [] = []"
| "update_first p f (x # xs) = (if p x then f x # xs else x # update_first p f xs)"

text \<open>The block that makes the skull half transparent. It sits in
  \<^verbatim>\<open>try: ... except: pass\<close>; the only step of it that can raise here is
  \<^verbatim>\<open>materials[0]\<close> on an object without materials, before anything is assigned.\<close>

definition make_transparent :: "obj \<Rightarrow> obj" where
  "make_transparent ob =
     (case omats ob of
        [] \<Rightarrow> ob
      | m # ms \<Rightarrow>
          (let m = m\<lparr>mattrs := AList.update ''blend_method'' (VStr ''BLEND'') (mattrs m)\<rparr> in
           case find (\<lambda>n. nname n = ''Principled BSDF'') (nodes m) of
             None \<Rightarrow> ob\<lparr>omats := m # ms\<rparr>
           | Some bsdf \<Rightarrow>
               if has_socket ''Alpha'' bsdf
               then ob\<lparr>omats :=
                        m\<lparr>nodes := update_first (\<lambda>n. nname n = ''Principled BSDF'')
                                      (\<lambda>n. try_pass n (set_socket ''Alpha'' (VReal 0.3) n))
                                      (nodes m)\<rparr> # ms\<rparr>
               else ob\<lparr>omats := m # ms\<rparr>))"

definition skull_call :: organ_args where
  "skull_call = (''skull'', ''sphere'', VReal 0.13, (0, 1.5, 0), ''#E8E8E8'', ''SKELETAL'')"

definition spine_ribs_calls :: "organ_args list" where
  "spine_ribs_calls =
     (''spine'', ''cylinder'', VTuple [0.02, 0.8], (0, 0.8, -0.05), ''#D3D3D3'', ''SKELETAL'')
     # map (\<lambda>i. (''rib_'' @ [char_of (48 + i)], ''ellipsoid'', VTuple [0.18, 0.01, 0.10],
                  (0, 1.2 - real i * 0.08, 0), ''#D3D3D3'', ''SKELETAL''))
         [0 ..< 6]"

definition create_skeletal_system :: "host \<Rightarrow> obj list \<Rightarrow> obj list run" where
  "create_skeletal_system h scene =
     thenR (emit (Print [Txt ''Creating skeletal system...'']))
    (bindR (create_organs h [skull_call] scene) (\<lambda>scene.
     create_organs h spine_ribs_calls (butlast scene @ [make_transparent (last scene)])))"

definition vascular_calls :: "organ_args list" where
  "vascular_calls =
     [(''aorta'', ''cylinder'', VTuple [0.015, 0.6], (0.02, 0.80, 0), ''#C0392B'',
       ''CARDIOVASCULAR''),
      (''vena_cava_superior'', ''cylinder'', VTuple [0.012, 0.15], (0.05, 1.15, 0.02),
       ''#8B0000'', ''CARDIOVASCULAR'')]"

definition create_vascular_system :: "host \<Rightarrow> obj list \<Rightarrow> obj list run" where
  "create_vascular_system h scene =
     thenR (emit (Print [Txt ''Creating vascular system...'']))
           (create_organs h vascular_calls scene)"

definition nervous_calls :: "organ_args list" where
  "nervous_calls =
     (''spinal_cord'', ''cylinder'', VTuple [0.01, 0.75], (0, 0.82, -0.05), ''#9B59B6'',
      ''NERVOUS'')
     # map (\<lambda>(side, x_pos).
              (''nerve_branch_'' @ side, ''cylinder'', VTuple [0.005, 0.3], (x_pos, 0.65, -0.05),
               ''#8E44AD'', ''NERVOUS''))
         [(''left'', -0.08), (''right'', 0.08)]"

definition create_nervous_system :: "host \<Rightarrow> obj list \<Rightarrow> obj list run" where
  "create_nervous_system h scene =
     thenR (emit (Print [Txt ''Creating nervous system...'']))
           (create_organs h nervous_calls scene)"

subsection \<open>Main\<close>

text \<open>The creation calls of \<^verbatim>\<open>main\<close>, from the body outline to the nervous system,
  starting from the emptied scene.\<close>

definition create_all :: "host \<Rightarrow> obj list run" where
  "create_all h =
     bindR (create_body_outline h []) (\<lambda>scene.
     bindR (create_brain h scene) (\<lambda>scene.
     bindR (create_heart h scene) (\<lambda>scene.
     bindR (create_lungs h scene) (\<lambda>scene.
     bindR (create_digestive_system h scene) (\<lambda>scene.
     bindR (create_urinary_system h scene) (\<lambda>scene.
     bindR (create_skeletal_system h scene) (\<lambda>scene.
     bindR (create_vascular_system h scene) (\<lambda>scene.
     create_nervous_system h scene))))))))"

definition export_call_proc :: "host \<Rightarrow> event" where
  "export_call_proc h =
     Call ''bpy.ops.export_scene.gltf''
       [(''filepath'', VStr (path_str (path_div (OUTPUT_DIR_proc h) OUTPUT_FILE_proc))),
        (''export_format'', VStr ''GLB''),
        (''export_cameras'', VBool False),
        (''export_lights'', VBool False)]"

definition main_proc :: "host \<Rightarrow> unit run" where
  "main_proc h =
     thenR (prints [[Txt (banner 70)], [Txt ''PROCEDURAL ANATOMY MODEL GENERATOR''],
                    [Txt (replicate 70 (CHR ''='') @ [CHR 0x0A])], [Txt ''Clearing scene...'']])
    (thenR clear_scene_proc
    (bindR (create_all h) (\<lambda>scene.
     (let organ_count = int (length (filter (\<lambda>ob. otype ob = ''MESH'') scene));
          output_path = path_div (OUTPUT_DIR_proc h) OUTPUT_FILE_proc
      in thenR (prints [[Txt (CHR 0x0A # check_mark @ '' Created ''), Num organ_count,
                         Txt '' anatomical structures''],
                        [Txt (CHR 0x0A # ''Exporting to GLTF...'')]])
        (thenR (emit (export_call_proc h))
               (prints
                  [[Txt (CHR 0x0A # check_mark @ '' Export complete!'')],
                   [Txt ''  File: '', Txt (path_str output_path)],
                   [Txt ''  Size: '',
                    Flt (real (file_size h (path_str output_path)) / (1024 * 1024)),
                    Txt '' MB''],
                   [Txt ''  Organs: '', Num organ_count],
                   [Txt (banner 70)], [Txt ''SUCCESS! Anatomy model created''],
                   [Txt (replicate 70 (CHR ''=''))],
                   [Txt (CHR 0x0A #
                      ''Next step: Update PhysicsAnatomyModel.tsx to load the GLB'')],
                   []]))))))"

section \<open>create\_morph\_targets.py\<close>

definition OUTPUT_DIR_morph :: "host \<Rightarrow> path" where
  "OUTPUT_DIR_morph h =
     path_div (project_root h) ''cli/packages/apps/client-app/public/models/anatomy''"

definition OUTPUT_FILE_morph :: string where
  "OUTPUT_FILE_morph = ''human_body_morphable.glb''"

record preset =
  bmi :: real
  abdomen_scale :: real
  limbs_scale :: real
  face_scale :: real

definition BMI_PRESETS :: "(string \<times> preset) list" where
  "BMI_PRESETS =
     [(''Underweight'',
         \<lparr>bmi = 17.0, abdomen_scale = 0.85, limbs_scale = 0.90, face_scale = 0.95\<rparr>),
      (''Normal'', \<lparr>bmi = 22.0, abdomen_scale = 1.0, limbs_scale = 1.0, face_scale = 1.0\<rparr>),
      (''Overweight'',
         \<lparr>bmi = 27.5, abdomen_scale = 1.20, limbs_scale = 1.08, face_scale = 1.05\<rparr>),
      (''Obese1'', \<lparr>bmi = 32.5, abdomen_scale = 1.45, limbs_scale = 1.15, face_scale = 1.12\<rparr>),
      (''Obese2'', \<lparr>bmi = 37.5, abdomen_scale = 1.70, limbs_scale = 1.22, face_scale = 1.18\<rparr>),
      (''Obese3'', \<lparr>bmi = 45.0, abdomen_scale = 2.00, limbs_scale = 1.30, face_scale = 1.25\<rparr>)]"

definition clear_scene_morph :: "unit run" where
  "clear_scene_morph =
     thenR (emit (Call ''bpy.ops.object.select_all'' [(''action'', VStr ''SELECT'')]))
    (thenR (emit (Call ''bpy.ops.object.delete'' [(''use_global'', VBool False)]))
           (emit (Print [Txt (check_mark @ '' Scene cleared'')])))"

definition import_base_model :: "host \<Rightarrow> obj run" where
  "import_base_model h =
     thenR (emit (Print [Txt ''Importing base human model...'']))
    (bindR (add_primitive h ''bpy.ops.mesh.primitive_cube_add''
              [(''size'', VInt 2), (''location'', VTuple [0, 0, 1])] ''MESH'' (0, 0, 1)) (\<lambda>body.
     bindR (transform_apply h
              (body\<lparr>oname := ''BodyReference_BMI22'', oscale := (0.3, 0.2, 0.85)\<rparr>)) (\<lambda>body.
     thenR (emit (Print [Txt (check_mark @ '' Base model created: ''), Txt (oname body)]))
           (retR body))))"

subsection \<open>Vertex groups\<close>

text \<open>The group a vertex falls into, by the \<^verbatim>\<open>if\<close>/\<^verbatim>\<open>elif\<close> chain on its
  coordinates; \<open>None\<close> when no branch assigns it.\<close>

definition vertex_group_of :: "vec3 \<Rightarrow> string option" where
  "vertex_group_of co =
     (case co of (x, y, z) \<Rightarrow>
        if 0.3 < z \<and> z < 0.7 \<and> y > 0 then Some ''abdomen''
        else if 0.7 < z \<and> z < 1.0 then Some ''chest''
        else if z > 1.5 then Some ''face''
        else if z < 0.5 then
          (if \<bar>x\<bar> > 0.15 then (if z > 0.25 then Some ''limbs_upper'' else Some ''limbs_lower'')
           else None)
        else None)"

definition GROUP_NAMES :: "string list" where
  "GROUP_NAMES = [''abdomen'', ''chest'', ''limbs_upper'', ''limbs_lower'', ''face'', ''neck'']"

definition create_vertex_groups :: "host \<Rightarrow> obj \<Rightarrow> (obj \<times> (string \<times> nat list) list) run" where
  "create_vertex_groups h ob =
     thenR (emit (Print [Txt ''Creating vertex groups for body regions...'']))
    (bindR (call_op ''bpy.ops.object.mode_set'' [(''mode'', VStr ''EDIT'')] ob) (\<lambda>ob.
     (let vs = verts (odata ob);
          groups = map (\<lambda>g. (g, filter (\<lambda>i. vertex_group_of (vs ! i) = Some g) [0 ..< length vs]))
                     GROUP_NAMES
      in bindR (call_op ''bpy.ops.object.mode_set'' [(''mode'', VStr ''OBJECT'')]
                  (ob\<lparr>ogroups := ogroups ob @ groups\<rparr>)) (\<lambda>ob.
         thenR (emit (Print [Txt (check_mark @ '' Created ''), Num (int (length groups)),
                             Txt '' vertex groups'']))
               (retR (ob, groups))))))"

subsection \<open>BMI variants\<close>

text \<open>The body of the loop over \<^verbatim>\<open>bm.verts\<close>: the new coordinates of one vertex. The
  tests read the coordinates from before the update.\<close>

definition scale_vertex :: "real \<Rightarrow> real \<Rightarrow> real \<Rightarrow> vec3 \<Rightarrow> vec3" where
  "scale_vertex abdomen limbs face co =
     (case co of (x, y, z) \<Rightarrow>
        if 0.3 < z \<and> z < 0.7 \<and> y > 0 then (x * (1 + (abdomen - 1) * 0.5), y * abdomen, z)
        else if z < 0.5 then
          (if \<bar>x\<bar> > 0.15 then (x * limbs, y * (1 + (limbs - 1) * 0.5), z) else (x, y, z))
        else if z > 1.0 then (x * face, y * face, z * face)
        else (x, y, z))"

definition create_bmi_variant :: "host \<Rightarrow> obj \<Rightarrow> string \<Rightarrow> preset \<Rightarrow> obj run" where
  "create_bmi_variant h base_obj preset_name preset_params =
     thenR (emit (Print [Txt ''Creating BMI variant: '', Txt preset_name, Txt '' (BMI '',
                         Flt (bmi preset_params), Txt '')...'']))
    (bindR (call_op ''bpy.ops.object.select_all'' [(''action'', VStr ''DESELECT'')] base_obj)
       (\<lambda>base_obj.
     bindR (select_set base_obj) (\<lambda>base_obj.
     bindR (call_op ''bpy.ops.object.duplicate'' []
              (base_obj\<lparr>oname := new_name h ''bpy.ops.object.duplicate''\<rparr>)) (\<lambda>variant.
     bindR (call_op ''bpy.ops.object.mode_set'' [(''mode'', VStr ''EDIT'')]
              (variant\<lparr>oname := ''Body_'' @ preset_name\<rparr>)) (\<lambda>variant.
     bindR (call_op ''bpy.ops.object.mode_set'' [(''mode'', VStr ''OBJECT'')]
              (variant\<lparr>odata := (odata variant)
                 \<lparr>verts := map (scale_vertex (abdomen_scale preset_params)
                                  (limbs_scale preset_params) (face_scale preset_params))
                              (verts (odata variant))\<rparr>\<rparr>)) (\<lambda>variant.
     thenR (emit (Print [Txt (check_mark @ '' Variant created: ''), Txt preset_name]))
           (retR variant)))))))"

subsection \<open>Shape keys\<close>

text \<open>\<^verbatim>\<open>shape_key.data[i].co = vert.co\<close> for every \<^verbatim>\<open>i, vert\<close> of the enumeration; an
  index outside the key's data raises \<^verbatim>\<open>IndexError\<close>.\<close>

fun copy_coords :: "nat \<Rightarrow> vec3 list \<Rightarrow> vec3 list \<Rightarrow> pyerr + vec3 list" where
  "copy_coords i [] key_data = Inr key_data"
| "copy_coords i (co # rest) key_data =
     (if i < length key_data then copy_coords (Suc i) rest (key_data[i := co])
      else Inl IndexError)"

text \<open>\<^verbatim>\<open>obj.shape_key_add(name=..., from_mix=False)\<close>: a new key holding the positions
  of the object's mesh.\<close>

definition shape_key_add :: "string \<Rightarrow> obj \<Rightarrow> obj" where
  "shape_key_add name ob = ob\<lparr>okeys := okeys ob @ [(name, verts (odata ob))]\<rparr>"

text \<open>One round of the loop over \<^verbatim>\<open>variants.items()\<close>; the state is the base object.\<close>

definition shape_key_step :: "string \<times> obj \<Rightarrow> obj \<Rightarrow> obj run" where
  "shape_key_step entry base_obj =
     (case entry of (preset_name, variant_obj) \<Rightarrow>
        if length (verts (odata base_obj)) \<noteq> length (verts (odata variant_obj))
        then thenR (emit (Print [Txt (''  '' @ ballot_x @ '' ERROR: Vertex count mismatch for ''),
                                 Txt preset_name]))
                   (retR base_obj)
        else
          (let base_obj = shape_key_add preset_name base_obj in
           bindR (liftR (copy_coords 0 (verts (odata variant_obj)) (snd (last (okeys base_obj)))))
             (\<lambda>key_data.
           thenR (emit (Print [Txt (''  '' @ check_mark @ '' Shape key created: ''),
                               Txt preset_name]))
                 (retR (base_obj\<lparr>okeys := butlast (okeys base_obj) @ [(preset_name, key_data)]\<rparr>)))))"

definition create_shape_keys :: "obj \<Rightarrow> (string \<times> obj) list \<Rightarrow> obj run" where
  "create_shape_keys base_obj variants =
     thenR (emit (Print [Txt ''Creating shape keys from variants...'']))
    (thenR (emit (Print [Txt (''  '' @ check_mark @ '' Basis shape key created'')]))
    (bindR (for_each shape_key_step variants (shape_key_add ''Basis'' base_obj)) (\<lambda>base_obj.
     thenR (emit (Print [Txt (check_mark @ '' ''), Num (int (length variants)),
                         Txt '' shape keys created'']))
           (retR base_obj))))"

subsection \<open>Organ meshes, export and main\<close>

definition ORGANS :: "(string \<times> vec3 \<times> real \<times> string) list" where
  "ORGANS =
     [(''heart'', (0.05, 0.05, 0.7), 0.08, ''#E74C3C''),
      (''liver_right_lobe'', (0.15, 0.05, 0.5), 0.12, ''#D68910''),
      (''stomach_body'', (-0.05, 0.05, 0.55), 0.08, ''#E67E22''),
      (''lung_right'', (0.12, 0.02, 0.75), 0.10, ''#3498DB''),
      (''lung_left'', (-0.12, 0.02, 0.75), 0.10, ''#3498DB''),
      (''kidney_right'', (0.10, -0.05, 0.45), 0.05, ''#16A085''),
      (''kidney_left'', (-0.10, -0.05, 0.45), 0.05, ''#16A085'')]"

text \<open>The colour conversion that \<^verbatim>\<open>add_organ_meshes\<close> writes inline:
  \<^verbatim>\<open>tuple(int(color.lstrip('#')[i:i+2], 16) / 255.0 for i in (0, 2, 4))\<close>.\<close>

definition hex_triple_morph :: "string \<Rightarrow> pyerr + rgb" where
  "hex_triple_morph color =
     (case py_int16 (py_slice (py_lstrip (CHR ''#'') color) 0 2) of Inl e \<Rightarrow> Inl e | Inr r \<Rightarrow>
     (case py_int16 (py_slice (py_lstrip (CHR ''#'') color) 2 4) of Inl e \<Rightarrow> Inl e | Inr g \<Rightarrow>
     (case py_int16 (py_slice (py_lstrip (CHR ''#'') color) 4 6) of Inl e \<Rightarrow> Inl e | Inr b \<Rightarrow>
        Inr (real_of_int r / 255, real_of_int g / 255, real_of_int b / 255))))"

text \<open>The material of one organ: \<^verbatim>\<open>use_nodes = True\<close> makes the host build its default
  node tree, in which the script looks for the node named \<^verbatim>\<open>Principled BSDF\<close>.\<close>

definition organ_material :: "host \<Rightarrow> string \<Rightarrow> string \<Rightarrow> material run" where
  "organ_material h organ_name color =
     thenR (emit (Call ''bpy.data.materials.new'' [(''name'', VStr (''Mat_'' @ organ_name))]))
       (case find (\<lambda>n. nname n = ''Principled BSDF'') (default_nodes h) of
          None \<Rightarrow>
            retR \<lparr>mname = ''Mat_'' @ organ_name, use_nodes = True, nodes = default_nodes h,
                  links = [], mattrs = []\<rparr>
        | Some bsdf \<Rightarrow>
            bindR (liftR (hex_triple_morph color)) (\<lambda>rgb.
            bindR (liftR (set_socket ''Base Color''
                            (case rgb of (r, g, b) \<Rightarrow> VTuple [r, g, b, 1.0]) bsdf)) (\<lambda>bsdf.
            bindR (liftR (set_socket ''Roughness'' (VReal 0.6) bsdf)) (\<lambda>bsdf.
            retR \<lparr>mname = ''Mat_'' @ organ_name, use_nodes = True,
                  nodes = update_first (\<lambda>n. nname n = ''Principled BSDF'') (\<lambda>_. bsdf)
                            (default_nodes h),
                  links = [], mattrs = []\<rparr>))))"

text \<open>One round of the loop over the organ list; the state is the list of objects added
  to the scene.\<close>

definition add_organ :: "host \<Rightarrow> string \<times> vec3 \<times> real \<times> string \<Rightarrow> obj list \<Rightarrow> obj list run" where
  "add_organ h entry added =
     (case entry of (organ_name, location, scale, color) \<Rightarrow>
        bindR (add_primitive h ''bpy.ops.mesh.primitive_uv_sphere_add''
                 [(''radius'', VReal scale), (''location'', vtuple location)] ''MESH'' location)
          (\<lambda>organ.
        bindR (set_prop ''isOrgan'' (VBool True) (organ\<lparr>oname := organ_name\<rparr>)) (\<lambda>organ.
        bindR (set_prop ''organName'' (VStr organ_name) organ) (\<lambda>organ.
        bindR (set_prop ''displayColor'' (VStr color) organ) (\<lambda>organ.
        bindR (organ_material h organ_name color) (\<lambda>mat.
        retR (added @ [organ\<lparr>omats := omats organ @ [mat]\<rparr>])))))))"

definition add_organ_meshes :: "host \<Rightarrow> obj list run" where
  "add_organ_meshes h =
     thenR (emit (Print [Txt ''Adding organ meshes...'']))
    (bindR (for_each (add_organ h) ORGANS []) (\<lambda>added.
     thenR (emit (Print [Txt (check_mark @ '' ''), Num (int (length ORGANS)),
                         Txt '' organ meshes added'']))
           (retR added)))"

text \<open>Truth value of \<^verbatim>\<open>obj.get(key)\<close>.\<close>

definition py_truthy :: "pyval option \<Rightarrow> bool" where
  "py_truthy v =
     (case v of
        None \<Rightarrow> False
      | Some VNone \<Rightarrow> False
      | Some (VBool b) \<Rightarrow> b
      | Some (VInt n) \<Rightarrow> n \<noteq> 0
      | Some (VReal x) \<Rightarrow> x \<noteq> 0
      | Some (VStr s) \<Rightarrow> s \<noteq> []
      | Some (VTuple xs) \<Rightarrow> xs \<noteq> [])"

text \<open>The scene at export time is the base object followed by the other objects.\<close>

definition export_gltf_morph :: "host \<Rightarrow> obj \<Rightarrow> obj list \<Rightarrow> path \<Rightarrow> unit run" where
  "export_gltf_morph h base_obj others output_path =
     thenR (emit (Print [Txt ''Exporting to GLTF: '', Txt (path_str output_path)]))
    (thenR (emit (Call ''bpy.ops.object.select_all'' [(''action'', VStr ''DESELECT'')]))
    (bindR (for_each (\<lambda>ob (u :: unit). bindR (select_set ob) (\<lambda>_. retR ()))
              (base_obj # filter (\<lambda>ob. py_truthy (get_prop ob ''isOrgan'')) others) ()) (\<lambda>_.
     thenR (emit (Call ''bpy.ops.export_scene.gltf''
                    [(''filepath'', VStr (path_str output_path)),
                     (''export_format'', VStr ''GLB''),
                     (''use_selection'', VBool True),
                     (''export_textures'', VBool True),
                     (''export_normals'', VBool True),
                     (''export_materials'', VStr ''EXPORT''),
                     (''export_colors'', VBool True),
                     (''export_cameras'', VBool False),
                     (''export_lights'', VBool False),
                     (''export_yup'', VBool True),
                     (''export_apply'', VBool True),
                     (''export_morph'', VBool True),
                     (''export_morph_normal'', VBool True),
                     (''export_morph_tangent'', VBool True),
                     (''export_draco_mesh_compression_enable'', VBool True),
                     (''export_draco_mesh_compression_level'', VInt 6)]))
           (emit (Print [Txt (check_mark @ '' Export complete: ''),
                         Flt (real (file_size h (path_str output_path)) / (1024 * 1024)),
                         Txt '' MB''])))))"

text \<open>One round of the loop over \<^verbatim>\<open>BMI_PRESETS.items()\<close>; the state is the dictionary
  \<^verbatim>\<open>variants\<close>.\<close>

definition variant_step :: "host \<Rightarrow> obj \<Rightarrow> string \<times> preset \<Rightarrow> (string \<times> obj) list
    \<Rightarrow> (string \<times> obj) list run" where
  "variant_step h base_obj entry variants =
     (case entry of (preset_name, preset_params) \<Rightarrow>
        if preset_name = ''Normal'' then retR variants
        else bindR (create_bmi_variant h base_obj preset_name preset_params) (\<lambda>variant.
             retR (AList.update preset_name variant variants)))"

text \<open>Steps 1 to 7 of \<^verbatim>\<open>main\<close>: from clearing the scene to the organ meshes. The
  result is the base object and the organ objects, which make up the scene at export
  time (the variant objects are removed in step 6).\<close>

definition prepare_morph :: "host \<Rightarrow> (obj \<times> obj list) run" where
  "prepare_morph h =
     thenR clear_scene_morph
    (bindR (import_base_model h) (\<lambda>base_obj.
     bindR (create_vertex_groups h base_obj) (\<lambda>res.
     bindR (for_each (variant_step h (fst res)) BMI_PRESETS []) (\<lambda>variants.
     bindR (create_shape_keys (fst res) variants) (\<lambda>base_obj.
     bindR (for_each
              (\<lambda>variant_obj (u :: unit).
                 emit (Call ''bpy.data.objects.remove''
                         [([], VStr (oname variant_obj)), (''do_unlink'', VBool True)]))
              (map snd variants) ()) (\<lambda>_.
     bindR (add_organ_meshes h) (\<lambda>organs.
     retR (base_obj, organs))))))))"

definition main_morph :: "host \<Rightarrow> unit run" where
  "main_morph h =
     thenR (prints [[Txt (banner 60)], [Txt ''3D Morphable Anatomy Model Generator''],
                    [Txt ''Creating patient-specific body model with BMI variants''],
                    [Txt (replicate 60 (CHR ''='') @ [CHR 0x0A])]])
    (bindR (prepare_morph h) (\<lambda>res.
     (let output_path = path_div (OUTPUT_DIR_morph h) OUTPUT_FILE_morph in
      bindR (export_gltf_morph h (fst res) (snd res) output_path) (\<lambda>_.
      prints
        [[Txt (banner 60)], [Txt (check_mark @ '' Model generation complete!'')],
         [Txt ''Output: '', Txt (path_str output_path)],
         [Txt (CHR 0x0A # ''Next steps:'')],
         [Txt ''1. Test model in Three.js viewer''],
         [Txt ''2. Replace primitive shapes with BodyParts3D anatomical models''],
         [Txt ''3. Add more detailed organ structures''],
         [Txt ''4. Refine BMI morph targets based on medical reference images''],
         [Txt (replicate 60 (CHR ''='') @ [CHR 0x0A])]]))))"

section \<open>Example hosts\<close>

text \<open>
  Small hosts on which the scripts can be run. The principled shader node of
  \<open>host_new\<close> has the sockets of recent host versions (\<^verbatim>\<open>Subsurface Weight\<close>, no
  \<^verbatim>\<open>Subsurface\<close>, no \<^verbatim>\<open>Subsurface Color\<close>) and its new materials have a node tree;
  \<open>host_old\<close> has the older sockets and new materials without a node tree. Every
  primitive is one triangle, operators leave the mesh as it is, and the decimate modifier
  keeps one polygon.
\<close>

definition output_node :: node where
  "output_node =
     \<lparr>nname = ''Material Output'', ntype = ''ShaderNodeOutputMaterial'',
      inputs = [(''Surface'', VNone), (''Volume'', VNone), (''Displacement'', VNone)],
      outputs = []\<rparr>"

definition bsdf_new :: node where
  "bsdf_new =
     \<lparr>nname = ''Principled BSDF'', ntype = ''ShaderNodeBsdfPrincipled'',
      inputs = [(''Base Color'', VTuple [0.8, 0.8, 0.8, 1]), (''Roughness'', VReal 0.5),
                (''Subsurface Weight'', VReal 0), (''Alpha'', VReal 1)],
      outputs = [''BSDF'']\<rparr>"

definition bsdf_old :: node where
  "bsdf_old =
     \<lparr>nname = ''Principled BSDF'', ntype = ''ShaderNodeBsdfPrincipled'',
      inputs = [(''Base Color'', VTuple [0.8, 0.8, 0.8, 1]), (''Subsurface'', VReal 0),
                (''Subsurface Color'', VTuple [0.8, 0.8, 0.8, 1]), (''Roughness'', VReal 0.5),
                (''Alpha'', VReal 1)],
      outputs = [''BSDF'']\<rparr>"

definition tri_mesh :: mesh where
  "tri_mesh = \<lparr>verts = [(0, 0, 0), (1, 0, 0), (0, 1, 0)], polys = [[0, 1, 2]]\<rparr>"

definition tri_obj :: obj where
  "tri_obj =
     \<lparr>oname = ''Object'', otype = ''MESH'', odata = tri_mesh, oloc = (0, 0, 0),
      oscale = (1, 1, 1), omats = [], omods = [], oattrs = [], oprops = [], okeys = [],
      ogroups = []\<rparr>"

definition host_new :: host where
  "host_new =
     \<lparr>project_root = [''repo''],
      new_name = (\<lambda>op. ''Object''),
      prim_mesh = (\<lambda>op kw. tri_mesh),
      op_mesh = (\<lambda>op kw ob. odata ob),
      apply_modifier = (\<lambda>m d. if modtype m = ''DECIMATE'' then d\<lparr>polys := take 1 (polys d)\<rparr>
                               else d),
      new_node = (\<lambda>t. if t = ''ShaderNodeBsdfPrincipled'' then bsdf_new else output_node),
      use_nodes_default = True,
      default_nodes = [bsdf_new, output_node],
      path_exists = (\<lambda>p. True),
      library_objects = (\<lambda>p. []),
      obj_import = (\<lambda>p. [tri_obj]),
      glob_obj = (\<lambda>d. 1),
      orphan_blocks = (\<lambda>c. []),
      in_scene_collection = (\<lambda>n. True),
      file_size = (\<lambda>p. 1048576)\<rparr>"

definition host_old :: host where
  "host_old =
     host_new\<lparr>new_node := (\<lambda>t. if t = ''ShaderNodeBsdfPrincipled'' then bsdf_old
                                else output_node),
              use_nodes_default := False,
              default_nodes := [bsdf_old, output_node]\<rparr>"

text \<open>A host on whose disk nothing exists, and one where only the input directory of the
  import script exists.\<close>

definition host_no_dir :: host where
  "host_no_dir = host_old\<lparr>path_exists := (\<lambda>p. False), glob_obj := (\<lambda>d. 0)\<rparr>"

definition host_empty_dir :: host where
  "host_empty_dir =
     host_old\<lparr>path_exists := (\<lambda>p. p = ''/repo/scripts/blender/bodyparts3d_models''),
              glob_obj := (\<lambda>d. 0)\<rparr>"

section \<open>Notions used in the properties\<close>

text \<open>The decimate modifier that \<^verbatim>\<open>optimize_mesh\<close> and \<^verbatim>\<open>decimate_mesh\<close> put on an
  object, and the operator call that applies it.\<close>

definition decimate_modifier :: "real \<Rightarrow> modifier" where
  "decimate_modifier ratio =
     \<lparr>modname = ''Decimate'', modtype = ''DECIMATE'',
      modattrs = [(''ratio'', VReal ratio), (''use_collapse_triangulate'', VBool True)]\<rparr>"

definition decimate_call :: event where
  "decimate_call = Call ''bpy.ops.object.modifier_apply'' [(''modifier'', VStr ''Decimate'')]"

definition decimated :: "host \<Rightarrow> real \<Rightarrow> obj \<Rightarrow> obj" where
  "decimated h ratio ob = ob\<lparr>odata := apply_modifier h (decimate_modifier ratio) (odata ob)\<rparr>"

definition is_print :: "event \<Rightarrow> bool" where
  "is_print e = (case e of Print _ \<Rightarrow> True | _ \<Rightarrow> False)"

text \<open>Events: exporter calls, primitive-creation calls, the keyword arguments of a call,
  and the calls among a list of events.\<close>

definition is_export :: "event \<Rightarrow> bool" where
  "is_export e = (case e of Call op kw \<Rightarrow> op = ''bpy.ops.export_scene.gltf'' | _ \<Rightarrow> False)"

definition is_primitive :: "event \<Rightarrow> bool" where
  "is_primitive e =
     (case e of
        Call op kw \<Rightarrow>
          op \<in> set [''bpy.ops.mesh.primitive_uv_sphere_add'',
                    ''bpy.ops.mesh.primitive_cylinder_add'',
                    ''bpy.ops.mesh.primitive_cube_add'',
                    ''bpy.ops.curve.primitive_bezier_curve_add'']
      | _ \<Rightarrow> False)"

definition is_call :: "event \<Rightarrow> bool" where
  "is_call e = (case e of Call op kw \<Rightarrow> True | _ \<Rightarrow> False)"

definition kwarg :: "event \<Rightarrow> string \<Rightarrow> pyval option" where
  "kwarg e k = (case e of Call op kw \<Rightarrow> map_of kw k | _ \<Rightarrow> None)"

definition calls :: "event list \<Rightarrow> event list" where
  "calls es = filter is_call es"

text \<open>A host on which the unguarded steps of material creation succeed: the principled
  node has the inputs \<^verbatim>\<open>Base Color\<close> and \<^verbatim>\<open>Roughness\<close> and the output \<^verbatim>\<open>BSDF\<close>, and the
  output node has the input \<^verbatim>\<open>Surface\<close>.\<close>

definition material_ready :: "host \<Rightarrow> bool" where
  "material_ready h =
     (has_socket ''Base Color'' (new_node h ''ShaderNodeBsdfPrincipled'')
      \<and> has_socket ''Roughness'' (new_node h ''ShaderNodeBsdfPrincipled'')
      \<and> ''BSDF'' \<in> set (outputs (new_node h ''ShaderNodeBsdfPrincipled''))
      \<and> has_socket ''Surface'' (new_node h ''ShaderNodeOutputMaterial''))"

text \<open>A colour string that is six hexadecimal digits once leading \<open>#\<close> are stripped.\<close>

definition hex6 :: "string \<Rightarrow> bool" where
  "hex6 s = (length (py_lstrip (CHR ''#'') s) = 6
             \<and> list_all (\<lambda>c. hexval c \<noteq> None) (py_lstrip (CHR ''#'') s))"

text \<open>The geometry tags for which the \<^verbatim>\<open>if\<close>/\<^verbatim>\<open>elif\<close> chain of
  \<^verbatim>\<open>build_anatomy_model\<close> has a branch, and those for which \<^verbatim>\<open>create_organ\<close> has
  one.\<close>

definition HANDLED_TYPES :: "string list" where
  "HANDLED_TYPES =
     [''complex'', ''tube'', ''bean'', ''dome'', ''coiled_tube'', ''pouch'', ''oval'',
      ''elongated'', ''sphere'', ''curved_tube'', ''tube_frame'']"

definition ORGAN_TYPES :: "string list" where
  "ORGAN_TYPES = [''sphere'', ''ellipsoid'', ''cylinder'', ''capsule'']"

text \<open>The archetype set that the specification names.\<close>

definition SPEC_ARCHETYPES :: "string list" where
  "SPEC_ARCHETYPES =
     [''sphere'', ''ellipsoid'', ''cylinder'', ''tube'', ''dome'', ''complex'', ''coiled'']"

text \<open>A mesh object just created under a name: no material, modifier or custom property
  yet.\<close>

definition fresh_named :: "string \<Rightarrow> obj \<Rightarrow> bool" where
  "fresh_named name ob =
     (oname ob = name \<and> otype ob = ''MESH'' \<and> oprops ob = [] \<and> omods ob = [] \<and> omats ob = [])"

text \<open>What the build script and the procedural script leave on an object: its name and
  exactly the two custom properties \<^verbatim>\<open>system\<close> and \<^verbatim>\<open>clickable\<close>.\<close>

definition tagged :: "string \<Rightarrow> string \<Rightarrow> obj \<Rightarrow> bool" where
  "tagged name system ob =
     (oname ob = name
      \<and> oprops ob = [(''system'', VStr system), (''clickable'', VBool True)])"

text \<open>\<open>returns Q r\<close>: the computation \<open>r\<close> ends without an exception, and its result
  satisfies \<open>Q\<close>.\<close>

definition returns :: "('a \<Rightarrow> bool) \<Rightarrow> 'a run \<Rightarrow> bool" where
  "returns Q r = (case snd r of Inl e \<Rightarrow> False | Inr a \<Rightarrow> Q a)"

text \<open>The exporter calls that the build script and the procedural script issue.\<close>

definition export_call_custom :: "host \<Rightarrow> event" where
  "export_call_custom h =
     Call ''bpy.ops.export_scene.gltf''
       [(''filepath'', VStr (path_str (path_div (OUTPUT_DIR_custom h) OUTPUT_FILE_custom))),
        (''export_format'', VStr ''GLB''),
        (''export_cameras'', VBool False),
        (''export_lights'', VBool False)]"

definition export_call_morph :: "host \<Rightarrow> event" where
  "export_call_morph h =
     Call ''bpy.ops.export_scene.gltf''
       [(''filepath'', VStr (path_str (path_div (OUTPUT_DIR_morph h) OUTPUT_FILE_morph))),
        (''export_format'', VStr ''GLB''),
        (''use_selection'', VBool True),
        (''export_textures'', VBool True),
        (''export_normals'', VBool True),
        (''export_materials'', VStr ''EXPORT''),
        (''export_colors'', VBool True),
        (''export_cameras'', VBool False),
        (''export_lights'', VBool False),
        (''export_yup'', VBool True),
        (''export_apply'', VBool True),
        (''export_morph'', VBool True),
        (''export_morph_normal'', VBool True),
        (''export_morph_tangent'', VBool True),
        (''export_draco_mesh_compression_enable'', VBool True),
        (''export_draco_mesh_compression_level'', VInt 6)]"

text \<open>A host on which \<^verbatim>\<open>add_organ_meshes\<close> can set the colour and the roughness: if
  the default node tree has a node named \<^verbatim>\<open>Principled BSDF\<close>, that node has both
  inputs.\<close>

definition morph_ready :: "host \<Rightarrow> bool" where
  "morph_ready h =
     (case find (\<lambda>n. nname n = ''Principled BSDF'') (default_nodes h) of
        None \<Rightarrow> True
      | Some bsdf \<Rightarrow> has_socket ''Base Color'' bsdf \<and> has_socket ''Roughness'' bsdf)"

definition select_all_call :: event where
  "select_all_call = Call ''bpy.ops.object.select_all'' [(''action'', VStr ''SELECT'')]"

text \<open>The calls of \<^verbatim>\<open>create_organ\<close> that the procedural script makes, in order; the
  organ system named in a call; and the calls whose geometry type has a branch that is
  used by the script, with a size of the shape that branch reads and a colour that
  parses.\<close>

definition all_organ_calls :: "organ_args list" where
  "all_organ_calls =
     body_outline_calls @ brain_calls @ heart_calls @ lungs_calls @ digestive_calls
     @ urinary_calls @ [skull_call] @ spine_ribs_calls @ vascular_calls @ nervous_calls"

definition call_system :: "organ_args \<Rightarrow> string" where
  "call_system a = (case a of (name, geometry_type, sz, position, color, system) \<Rightarrow> system)"

definition call_type :: "organ_args \<Rightarrow> string" where
  "call_type a = (case a of (name, geometry_type, sz, position, color, system) \<Rightarrow> geometry_type)"

definition organ_call_ok :: "organ_args \<Rightarrow> bool" where
  "organ_call_ok a =
     (case a of (name, geometry_type, sz, position, color, system) \<Rightarrow>
        hex6 color
        \<and> (geometry_type = ''sphere''
           \<or> geometry_type = ''ellipsoid''
              \<and> (case sz of VTuple xs \<Rightarrow> length xs = 3 | _ \<Rightarrow> False)
           \<or> geometry_type = ''cylinder''
              \<and> (case sz of VTuple xs \<Rightarrow> 2 \<le> length xs | _ \<Rightarrow> False)))"

text \<open>\<open>builds cs scene r\<close>: the computation \<open>r\<close> returns the scene extended by one
  object for each call of \<open>cs\<close>, named and tagged as the call says; it issues one
  primitive-creation call for each and no exporter call.\<close>

definition builds :: "organ_args list \<Rightarrow> obj list \<Rightarrow> obj list run \<Rightarrow> bool" where
  "builds cs scene r =
     (\<exists>objs es. r = (es, Inr (scene @ objs))
        \<and> list_all2 (\<lambda>ob a. tagged (fst a) (call_system a) ob) objs cs
        \<and> list_all (\<lambda>e. \<not> is_export e) es
        \<and> length (filter is_primitive es) = length cs)"

text \<open>The import script: the path of the OBJ file of an FMA code; whether that file
  exists and brings at least one object; what the script leaves on the object it
  imported for a table entry; and its exporter call for a file name.\<close>

definition obj_file :: "host \<Rightarrow> string \<Rightarrow> string" where
  "obj_file h fma_code = path_str (path_div (MODELS_INPUT_DIR h) (fma_code @ ''.obj''))"

definition importable :: "host \<Rightarrow> string \<Rightarrow> bool" where
  "importable h fma_code =
     (path_exists h (obj_file h fma_code) \<and> obj_import h (obj_file h fma_code) \<noteq> [])"

definition tagged_bp3d :: "string \<times> string \<times> string \<times> string \<times> vec3 \<Rightarrow> obj \<Rightarrow> bool" where
  "tagged_bp3d entry ob =
     (case entry of (fma_code, organ_name, system, color_hex, position) \<Rightarrow>
        oname ob = organ_name
        \<and> get_prop ob ''system_code'' = Some (VStr system)
        \<and> get_prop ob ''fma_code'' = Some (VStr fma_code)
        \<and> get_prop ob ''clickable'' = Some (VBool True))"

definition bp3d_ready :: "host \<Rightarrow> bool" where
  "bp3d_ready h =
     (material_ready h
      \<and> has_socket ''Subsurface'' (new_node h ''ShaderNodeBsdfPrincipled'')
      \<and> has_socket ''Subsurface Color'' (new_node h ''ShaderNodeBsdfPrincipled''))"

definition export_call_bp3d :: "host \<Rightarrow> string \<Rightarrow> event" where
  "export_call_bp3d h output_filename =
     Call ''bpy.ops.export_scene.gltf''
       [(''filepath'', VStr (path_str (path_div (MODELS_OUTPUT_DIR h) output_filename))),
        (''export_format'', VStr ''GLB''),
        (''export_textures'', VBool True),
        (''export_normals'', VBool True),
        (''export_materials'', VStr ''EXPORT''),
        (''export_colors'', VBool True),
        (''export_cameras'', VBool False),
        (''export_lights'', VBool False),
        (''export_apply'', VBool True),
        (''export_yup'', VBool True),
        (''export_draco_mesh_compression_enable'', VBool True),
        (''export_draco_mesh_compression_level'', VInt 6),
        (''export_draco_position_quantization'', VInt 14),
        (''export_draco_normal_quantization'', VInt 10),
        (''export_draco_texcoord_quantization'', VInt 12)]"

text \<open>Events that show that an optimisation or export step was reached: an exporter
  call, the application of a modifier, or the headline that \<^verbatim>\<open>optimize_models\<close>
  prints.\<close>

definition is_modifier_apply :: "event \<Rightarrow> bool" where
  "is_modifier_apply e =
     (case e of Call op kw \<Rightarrow> op = ''bpy.ops.object.modifier_apply'' | _ \<Rightarrow> False)"

definition optimize_headline :: "string \<Rightarrow> event" where
  "optimize_headline target_detail =
     Print [Txt ''OPTIMIZING MODELS (Target: '', Txt target_detail, Txt '')'']"

definition past_import :: "event \<Rightarrow> bool" where
  "past_import e =
     (is_export e \<or> is_modifier_apply e \<or> e = optimize_headline ''high_detail''
      \<or> e = optimize_headline ''low_detail'')"

(*PROPERTIES*)

section \<open>Properties of the colour conversion\<close>

lemma spec_hex_digit_hexval: "spec_hex_digit c = Some d \<Longrightarrow> hexval c = Some d"
  unfolding spec_hex_digit_def
  by (auto simp: hexval_def split: if_splits)

lemma hexval_bound: "hexval c = Some d \<Longrightarrow> d < 16"
  by (auto simp: hexval_def Let_def split: if_splits)

lemma hexval_not_special:
  assumes "hexval c = Some d"
  shows "\<not> py_isspace c" "c \<noteq> CHR ''_''" "c \<noteq> CHR ''+''" "c \<noteq> CHR ''-''" "c \<noteq> CHR ''x''" "c \<noteq> CHR ''X''" "c \<noteq> CHR ''#''"
  using assms by (auto simp: hexval_def py_isspace_def Let_def split: if_splits)

lemma py_int16_pair:
  assumes "hexval a = Some x" "hexval b = Some y"
  shows "py_int16 [a, b] = Inr (int (16 * x + y))"
  using assms hexval_not_special[OF assms(1)] hexval_not_special[OF assms(2)]
  by (simp add: py_int16_def strip_sign_def strip_0x_def)

lemma spec_byte_unit: "hi < 16 \<Longrightarrow> lo < 16 \<Longrightarrow> 0 \<le> spec_byte hi lo \<and> spec_byte hi lo \<le> 1"
  by (simp add: spec_byte_def)

lemma lstrip_six:
  assumes "hexval c1 = Some d1" "s = [c1, c2, c3, c4, c5, c6] \<or> s = CHR ''#'' # [c1, c2, c3, c4, c5, c6]"
  shows "py_lstrip (CHR ''#'') s = [c1, c2, c3, c4, c5, c6]"
  using assms(2) hexval_not_special(7)[OF assms(1)] by (auto simp: py_lstrip_def)

lemma hex_six_custom:
  assumes "hexval c1 = Some d1" "hexval c2 = Some d2" "hexval c3 = Some d3"
    "hexval c4 = Some d4" "hexval c5 = Some d5" "hexval c6 = Some d6"
    "s = [c1, c2, c3, c4, c5, c6] \<or> s = CHR ''#'' # [c1, c2, c3, c4, c5, c6]"
  shows "hex_to_rgb_custom s = Inr (spec_byte d1 d2, spec_byte d3 d4, spec_byte d5 d6)"
  unfolding hex_to_rgb_custom_def lstrip_six[OF assms(1) assms(7)] Let_def
  by (simp add: py_slice_def py_int16_pair[OF assms(1,2)] py_int16_pair[OF assms(3,4)]
      py_int16_pair[OF assms(5,6)] spec_byte_def)

lemma hex_to_rgb_same: "hex_to_rgb_proc = hex_to_rgb_custom" "hex_to_rgb_bp3d = hex_to_rgb_custom"
  by (simp_all add: fun_eq_iff hex_to_rgb_proc_def hex_to_rgb_custom_def hex_to_rgb_bp3d_def)

text \<open>
  Claim C10. On every input made of six hexadecimal digits, with or without one leading
  \<open>#\<close>, the three \<^verbatim>\<open>hex_to_rgb\<close> functions return the same triple: the three bytes
  the digit pairs denote, each divided by 255; and each component lies between 0 and 1.
\<close>

theorem hex_to_rgb_agree_unit_interval:
  assumes "spec_hex_digit c1 = Some d1" "spec_hex_digit c2 = Some d2" "spec_hex_digit c3 = Some d3"
    "spec_hex_digit c4 = Some d4" "spec_hex_digit c5 = Some d5" "spec_hex_digit c6 = Some d6"
    and "s = [c1, c2, c3, c4, c5, c6] \<or> s = CHR ''#'' # [c1, c2, c3, c4, c5, c6]"
  shows "hex_to_rgb_custom s = Inr (spec_byte d1 d2, spec_byte d3 d4, spec_byte d5 d6)
       \<and> hex_to_rgb_proc s = Inr (spec_byte d1 d2, spec_byte d3 d4, spec_byte d5 d6)
       \<and> hex_to_rgb_bp3d s = Inr (spec_byte d1 d2, spec_byte d3 d4, spec_byte d5 d6)
       \<and> 0 \<le> spec_byte d1 d2 \<and> spec_byte d1 d2 \<le> 1
       \<and> 0 \<le> spec_byte d3 d4 \<and> spec_byte d3 d4 \<le> 1
       \<and> 0 \<le> spec_byte d5 d6 \<and> spec_byte d5 d6 \<le> 1"
proof -
  note h = assms(1-6)[THEN spec_hex_digit_hexval]
  have c: "hex_to_rgb_custom s = Inr (spec_byte d1 d2, spec_byte d3 d4, spec_byte d5 d6)"
    by (rule hex_six_custom[OF h assms(7)])
  note b = h[THEN hexval_bound]
  show ?thesis
    using c spec_byte_unit[OF b(1) b(2)] spec_byte_unit[OF b(3) b(4)] spec_byte_unit[OF b(5) b(6)]
    by (simp add: hex_to_rgb_same)
qed

theorem hex_to_rgb_agree_unit_interval_witness:
  "hex_to_rgb_custom ''#E8B4D9'' = Inr (232 / 255, 180 / 255, 217 / 255)
   \<and> hex_to_rgb_proc ''#E8B4D9'' = Inr (232 / 255, 180 / 255, 217 / 255)
   \<and> hex_to_rgb_bp3d ''#E8B4D9'' = Inr (232 / 255, 180 / 255, 217 / 255)"
  using hex_to_rgb_agree_unit_interval[of "CHR ''E''" 14 "CHR ''8''" 8 "CHR ''B''" 11 "CHR ''4''" 4
      "CHR ''D''" 13 "CHR ''9''" 9 "''#E8B4D9''"]
  by (simp add: spec_hex_digit_def spec_byte_def)

section \<open>Properties of the logging computations\<close>

lemma bindR_simps [simp]:
  "bindR (es, Inl e) f = (es, Inl e)"
  "bindR (es, Inr a) f = (es @ fst (f a), snd (f a))"
  by (simp_all add: bindR_def split: prod.splits)

lemma bindR_retR [simp]: "bindR (retR x) f = f x"
  by (simp add: retR_def)

lemma thenR_simps [simp]:
  "thenR (es, Inl e) k = (es, Inl e)"
  "thenR (es, Inr u) k = (es @ fst k, snd k)"
  by (simp_all add: thenR_def)

lemma thenR_emit [simp]: "thenR (emit e) k = (e # fst k, snd k)"
  by (simp add: emit_def)

lemma call_op_simp [simp]: "bindR (call_op op kw x) f = (Call op kw # fst (f x), snd (f x))"
  by (simp add: call_op_def)

section \<open>The BMI scaling at the reference preset\<close>

lemma scale_vertex_one: "scale_vertex 1 1 1 co = co"
  by (cases co) (simp add: scale_vertex_def)

text \<open>
  Claim C8. The preset \<^verbatim>\<open>Normal\<close> has all three scale factors equal to 1; with these
  factors the per-vertex scaling returns every coordinate triple unchanged, and
  \<^verbatim>\<open>create_bmi_variant\<close> returns the base object under the name \<^verbatim>\<open>Body_Normal\<close>, its
  mesh being that of the base. (Over the reals; the float products \<open>x * 1.0\<close> are exact
  as well.)
\<close>

theorem normal_preset_is_identity:
  "map_of BMI_PRESETS ''Normal''
     = Some \<lparr>bmi = 22, abdomen_scale = 1, limbs_scale = 1, face_scale = 1\<rparr>
   \<and> scale_vertex 1 1 1 (x, y, z) = (x, y, z)
   \<and> snd (create_bmi_variant h base_obj ''Normal''
            \<lparr>bmi = 22, abdomen_scale = 1, limbs_scale = 1, face_scale = 1\<rparr>)
       = Inr (base_obj\<lparr>oname := ''Body_Normal''\<rparr>)
   \<and> odata (base_obj\<lparr>oname := ''Body_Normal''\<rparr>) = odata base_obj"
proof -
  have m: "map (scale_vertex 1 1 1) vs = vs" for vs
    by (induction vs) (simp_all add: scale_vertex_one)
  show ?thesis
    by (simp add: BMI_PRESETS_def scale_vertex_one create_bmi_variant_def select_set_def m retR_def)
qed

section \<open>Material creation and missing shader sockets\<close>

text \<open>
  Claim C6. The material function of the import script assigns \<^verbatim>\<open>Subsurface\<close> and
  \<^verbatim>\<open>Subsurface Color\<close> without a guard: on a host whose principled node has no socket
  \<^verbatim>\<open>Subsurface\<close> the \<^verbatim>\<open>KeyError\<close> leaves the function and no material is returned.
\<close>

theorem create_material_bp3d_missing_subsurface:
  "create_material_bp3d host_new ''brain'' ''#9B59B6'' 0.4
     = ([Call ''bpy.data.materials.new'' [(''name'', VStr ''Mat_brain'')]],
        Inl (KeyError ''Subsurface''))"
  by (simp add: create_material_bp3d_def host_new_def bsdf_new_def hex_to_rgb_bp3d_def
      py_lstrip_def py_slice_def py_int16_def strip_sign_def strip_0x_def py_isspace_def
      hexval_def liftR_def set_socket_def has_socket_def Let_def)

section \<open>Shape keys\<close>

lemma copy_coords_fills:
  "length key_data = i + length vs \<Longrightarrow> copy_coords i vs key_data = Inr (take i key_data @ vs)"
proof (induction vs arbitrary: i key_data)
  case Nil
  then show ?case by simp
next
  case (Cons v vs)
  have "copy_coords (Suc i) vs (key_data[i := v]) = Inr (take (Suc i) (key_data[i := v]) @ vs)"
    using Cons.prems by (intro Cons.IH) simp
  moreover have "take (Suc i) (key_data[i := v]) = take i key_data @ [v]"
    using Cons.prems by (simp add: take_Suc_conv_app_nth)
  ultimately show ?case using Cons.prems by simp
qed

lemma shape_key_step_match:
  assumes "length (verts (odata v)) = length (verts (odata b))"
  shows "shape_key_step (n, v) b
         = ([Print [Txt (''  '' @ check_mark @ '' Shape key created: ''), Txt n]],
            Inr (b\<lparr>okeys := okeys b @ [(n, verts (odata v))]\<rparr>))"
  using assms copy_coords_fills[of "verts (odata b)" 0 "verts (odata v)"]
  by (simp add: shape_key_step_def shape_key_add_def liftR_def retR_def Let_def)

lemma shape_key_step_mismatch:
  assumes "length (verts (odata v)) \<noteq> length (verts (odata b))"
  shows "shape_key_step (n, v) b
         = ([Print [Txt (''  '' @ ballot_x @ '' ERROR: Vertex count mismatch for ''), Txt n]],
            Inr b)"
  using assms by (simp add: shape_key_step_def retR_def)

lemma shape_key_loop:
  "for_each shape_key_step variants b =
     (map (\<lambda>(n, v). if length (verts (odata v)) = length (verts (odata b))
                      then Print [Txt (''  '' @ check_mark @ '' Shape key created: ''), Txt n]
                      else Print [Txt (''  '' @ ballot_x @ '' ERROR: Vertex count mismatch for ''),
                                  Txt n]) variants,
      Inr (b\<lparr>okeys := okeys b @ map (\<lambda>(n, v). (n, verts (odata v)))
                 (filter (\<lambda>(n, v). length (verts (odata v)) = length (verts (odata b)))
                    variants)\<rparr>))"
proof (induction variants arbitrary: b)
  case Nil
  show ?case by (simp add: retR_def)
next
  case (Cons e variants)
  obtain n v where e: "e = (n, v)" by (cases e)
  show ?case
  proof (cases "length (verts (odata v)) = length (verts (odata b))")
    case True
    show ?thesis
      by (simp add: e shape_key_step_match[OF True] True Cons.IH)
  next
    case False
    show ?thesis
      by (simp add: e shape_key_step_mismatch[OF False] False Cons.IH)
  qed
qed

text \<open>
  Claim C2. \<^verbatim>\<open>create_shape_keys\<close> never raises. It prints one line per variant, in
  order: the error line for a variant whose vertex count differs from the base object's,
  the confirmation line otherwise. The base object gains the key \<^verbatim>\<open>Basis\<close> and then
  one key for each variant with a matching count and for no other, and that key's data
  are the variant's vertex coordinates, index by index.
\<close>

theorem create_shape_keys_skips_mismatches:
  "create_shape_keys base_obj variants =
     (Print [Txt ''Creating shape keys from variants...'']
      # Print [Txt (''  '' @ check_mark @ '' Basis shape key created'')]
      # map (\<lambda>(n, v). if length (verts (odata v)) = length (verts (odata base_obj))
                        then Print [Txt (''  '' @ check_mark @ '' Shape key created: ''), Txt n]
                        else Print [Txt (''  '' @ ballot_x @ '' ERROR: Vertex count mismatch for ''),
                                    Txt n]) variants
      @ [Print [Txt (check_mark @ '' ''), Num (int (length variants)),
                Txt '' shape keys created'']],
      Inr (base_obj\<lparr>okeys := okeys base_obj @ (''Basis'', verts (odata base_obj))
             # map (\<lambda>(n, v). (n, verts (odata v)))
                 (filter (\<lambda>(n, v). length (verts (odata v)) = length (verts (odata base_obj)))
                    variants)\<rparr>))"
  by (simp add: create_shape_keys_def shape_key_loop shape_key_add_def retR_def emit_def)

theorem create_shape_keys_skips_mismatches_witness:
  "create_shape_keys tri_obj
     [(''Thin'', tri_obj\<lparr>odata := \<lparr>verts = [(0, 0, 0)], polys = []\<rparr>\<rparr>),
      (''Wide'', tri_obj\<lparr>odata := \<lparr>verts = [(0, 0, 0), (2, 0, 0), (0, 2, 0)],
                                        polys = [[0, 1, 2]]\<rparr>\<rparr>)]
   = ([Print [Txt ''Creating shape keys from variants...''],
       Print [Txt (''  '' @ check_mark @ '' Basis shape key created'')],
       Print [Txt (''  '' @ ballot_x @ '' ERROR: Vertex count mismatch for ''), Txt ''Thin''],
       Print [Txt (''  '' @ check_mark @ '' Shape key created: ''), Txt ''Wide''],
       Print [Txt (check_mark @ '' ''), Num 2, Txt '' shape keys created'']],
      Inr (tri_obj\<lparr>okeys := [(''Basis'', [(0, 0, 0), (1, 0, 0), (0, 1, 0)]),
                              (''Wide'', [(0, 0, 0), (2, 0, 0), (0, 2, 0)])]\<rparr>))"
  using create_shape_keys_skips_mismatches[of tri_obj
      "[(''Thin'', tri_obj\<lparr>odata := \<lparr>verts = [(0, 0, 0)], polys = []\<rparr>\<rparr>),
        (''Wide'', tri_obj\<lparr>odata := \<lparr>verts = [(0, 0, 0), (2, 0, 0), (0, 2, 0)],
                                          polys = [[0, 1, 2]]\<rparr>\<rparr>)]"]
  by (simp add: tri_obj_def tri_mesh_def)

section \<open>Mesh optimisation at, below and over budget\<close>

lemma find_append_last:
  "\<forall>x\<in>set xs. \<not> P x \<Longrightarrow> P y \<Longrightarrow> find P (xs @ [y]) = Some y"
  by (induction xs) simp_all

lemma remove1_append_last: "y \<notin> set xs \<Longrightarrow> remove1 y (xs @ [y]) = xs"
  by (induction xs) auto

lemma modifier_apply_fresh:
  assumes "\<forall>m\<in>set (omods ob). modname m \<noteq> nm" and "modname m0 = nm"
  shows "modifier_apply h nm (ob\<lparr>omods := omods ob @ [m0]\<rparr>)
         = ([Call ''bpy.ops.object.modifier_apply'' [(''modifier'', VStr nm)]],
            Inr (ob\<lparr>odata := apply_modifier h m0 (odata ob)\<rparr>))"
proof -
  have f: "find (\<lambda>m. modname m = nm) (omods ob @ [m0]) = Some m0"
    using assms by (intro find_append_last) auto
  have "m0 \<notin> set (omods ob)" using assms by auto
  then have r: "remove1 m0 (omods ob @ [m0]) = omods ob" by (rule remove1_append_last)
  show ?thesis by (simp add: modifier_apply_def f r retR_def)
qed

lemma decimate_fresh:
  assumes "\<forall>m\<in>set (omods ob). modname m \<noteq> ''Decimate''"
  shows "modifier_apply h ''Decimate'' (ob\<lparr>omods := omods ob @ [decimate_modifier ratio]\<rparr>)
         = ([decimate_call], Inr (decimated h ratio ob))"
  unfolding decimate_call_def decimated_def
  by (rule modifier_apply_fresh[OF assms]) (simp add: decimate_modifier_def)

lemma optimize_mesh_not_mesh: "otype ob \<noteq> ''MESH'' \<Longrightarrow> optimize_mesh h ob t = ([], Inr ob)"
  by (simp add: optimize_mesh_def retR_def)

lemma optimize_mesh_within: "npolys ob \<le> t \<Longrightarrow> optimize_mesh h ob t = ([], Inr ob)"
  by (simp add: optimize_mesh_def retR_def)

lemma optimize_mesh_over:
  assumes "otype ob = ''MESH''" "t < npolys ob" "0 \<le> t"
    "\<forall>m\<in>set (omods ob). modname m \<noteq> ''Decimate''"
  shows "optimize_mesh h ob t
         = ([decimate_call,
             Print [Txt ''  Optimized '', Txt (oname ob), Txt '': '', Num (npolys ob),
                    Txt ('' '' @ right_arrow @ '' ''),
                    Num (npolys (decimated h (real_of_int t / real_of_int (npolys ob)) ob)),
                    Txt '' polygons'']],
            Inr (decimated h (real_of_int t / real_of_int (npolys ob)) ob))"
proof -
  have nz: "npolys ob \<noteq> 0" using assms(2,3) by simp
  have eq: "optimize_mesh h ob t =
     bindR (modifier_apply h ''Decimate''
              (ob\<lparr>omods := omods ob @ [decimate_modifier (real_of_int t / real_of_int (npolys ob))]\<rparr>))
       (\<lambda>ob'. thenR (emit (Print [Txt ''  Optimized '', Txt (oname ob'), Txt '': '',
                               Num (npolys ob), Txt ('' '' @ right_arrow @ '' ''),
                               Num (npolys ob'), Txt '' polygons'']))
                 (retR ob'))"
    using assms(1,2) nz
    by (simp add: optimize_mesh_def py_truediv_def liftR_def Let_def decimate_modifier_def)
  show ?thesis
    unfolding eq decimate_fresh[OF assms(4)] by (simp add: retR_def decimated_def)
qed

lemma optimize_mesh_call_only_over:
  assumes "decimate_call \<in> set (fst (optimize_mesh h ob t))"
  shows "otype ob = ''MESH'' \<and> t < npolys ob"
proof (rule ccontr)
  assume "\<not> (otype ob = ''MESH'' \<and> t < npolys ob)"
  then have "optimize_mesh h ob t = ([], Inr ob)"
    using optimize_mesh_not_mesh optimize_mesh_within by (metis not_le)
  with assms show False by simp
qed

lemma prints_run: "prints ls = (map Print ls, Inr ())"
  by (induction ls) (simp_all add: retR_def)

lemma thenR_prints [simp]: "thenR (prints ls) k = (map Print ls @ fst k, snd k)"
  by (simp add: prints_run)

lemma decimate_mesh_fresh:
  assumes "\<forall>m\<in>set (omods ob). modname m \<noteq> ''Decimate''"
  shows "decimate_mesh h ob ratio
         = (if otype ob = ''MESH'' then ([decimate_call], Inr (decimated h ratio ob))
            else ([], Inr ob))"
  using decimate_fresh[OF assms, of h ratio]
  by (simp add: decimate_mesh_def retR_def decimate_modifier_def)

lemma decimate_step_fresh:
  assumes "\<forall>m\<in>set (omods ob). modname m \<noteq> ''Decimate''"
  shows "decimate_step h ratio ob acc
         = (if otype ob = ''MESH''
            then ([Print [Txt ''  Decimating '', Txt (oname ob), Txt ''...''], decimate_call],
                  Inr (acc @ [decimated h ratio ob]))
            else ([], Inr (acc @ [ob])))"
  by (simp add: decimate_step_def decimate_mesh_fresh[OF assms] retR_def)

lemma decimate_loop:
  assumes "\<forall>ob\<in>set scene. \<forall>m\<in>set (omods ob). modname m \<noteq> ''Decimate''"
  shows "for_each (decimate_step h ratio) scene acc
         = (concat (map (\<lambda>ob. if otype ob = ''MESH''
                              then [Print [Txt ''  Decimating '', Txt (oname ob), Txt ''...''],
                                    decimate_call]
                              else []) scene),
            Inr (acc @ map (\<lambda>ob. if otype ob = ''MESH'' then decimated h ratio ob else ob) scene))"
  using assms
proof (induction scene arbitrary: acc)
  case Nil
  show ?case by (simp add: retR_def)
next
  case (Cons ob scene)
  have f: "\<forall>m\<in>set (omods ob). modname m \<noteq> ''Decimate''" using Cons.prems by simp
  have r: "\<forall>ob\<in>set scene. \<forall>m\<in>set (omods ob). modname m \<noteq> ''Decimate''"
    using Cons.prems by simp
  show ?case
    by (simp add: decimate_step_fresh[OF f] Cons.IH[OF r])
qed

lemma optimize_models_within:
  assumes "map_of TARGET_POLYGON_COUNT d = Some t" "total_polygons scene \<le> t"
  shows "snd (optimize_models h d scene) = Inr scene"
    and "\<forall>e\<in>set (fst (optimize_models h d scene)). is_print e"
  using assms by (simp_all add: optimize_models_def retR_def is_print_def)

lemma optimize_models_over:
  assumes "map_of TARGET_POLYGON_COUNT d = Some t" "t < total_polygons scene"
    "\<forall>ob\<in>set scene. \<forall>m\<in>set (omods ob). modname m \<noteq> ''Decimate''"
  shows "snd (optimize_models h d scene)
         = Inr (map (\<lambda>ob. if otype ob = ''MESH''
                           then decimated h (real_of_int t / real_of_int (total_polygons scene)) ob
                           else ob) scene)"
proof -
  have "t = 500000 \<or> t = 50000"
    using assms(1) by (auto simp: TARGET_POLYGON_COUNT_def split: if_splits)
  then have nz: "total_polygons scene \<noteq> 0" using assms(2) by auto
  show ?thesis
    using assms(1,2) nz
    by (simp add: optimize_models_def py_truediv_def liftR_def retR_def
        decimate_loop[OF assms(3)])
qed

lemma optimize_models_call_only_over:
  assumes "decimate_call \<in> set (fst (optimize_models h d scene))"
  shows "\<exists>t. map_of TARGET_POLYGON_COUNT d = Some t \<and> t < total_polygons scene"
proof (cases "map_of TARGET_POLYGON_COUNT d")
  case None
  with assms show ?thesis
    by (simp add: optimize_models_def raiseR_def retR_def decimate_call_def)
next
  case (Some t)
  show ?thesis
  proof (cases "total_polygons scene \<le> t")
    case True
    from optimize_models_within(2)[OF Some True, of h] assms
    have "is_print decimate_call" by blast
    then show ?thesis by (simp add: is_print_def decimate_call_def)
  next
    case False
    with Some show ?thesis by simp
  qed
qed


text \<open>
  Claim C9. \<^verbatim>\<open>optimize_mesh\<close> returns the object as it is, with no call and no output,
  when the object is not a mesh or has at most the target number of polygons; it applies
  the decimate modifier only when the object is a mesh over the target, and then with the
  ratio target / count. \<^verbatim>\<open>optimize_models\<close> returns the scene as it is, printing only,
  when the scene's total is at most the target total; it decimates only when the total is
  over the target, and then every mesh with the ratio target / total.
\<close>

theorem optimize_noop_at_or_below_budget:
  "(otype ob \<noteq> ''MESH'' \<longrightarrow> optimize_mesh h ob t = ([], Inr ob))
   \<and> (npolys ob \<le> t \<longrightarrow> optimize_mesh h ob t = ([], Inr ob))
   \<and> (decimate_call \<in> set (fst (optimize_mesh h ob t))
        \<longrightarrow> otype ob = ''MESH'' \<and> t < npolys ob)
   \<and> (otype ob = ''MESH'' \<and> t < npolys ob \<and> 0 \<le> t
        \<and> (\<forall>m\<in>set (omods ob). modname m \<noteq> ''Decimate'')
        \<longrightarrow> decimate_call \<in> set (fst (optimize_mesh h ob t))
            \<and> snd (optimize_mesh h ob t)
                = Inr (decimated h (real_of_int t / real_of_int (npolys ob)) ob))
   \<and> (map_of TARGET_POLYGON_COUNT d = Some T \<and> total_polygons scene \<le> T
        \<longrightarrow> snd (optimize_models h d scene) = Inr scene
            \<and> (\<forall>e\<in>set (fst (optimize_models h d scene)). is_print e))
   \<and> (decimate_call \<in> set (fst (optimize_models h d scene))
        \<longrightarrow> (\<exists>T'. map_of TARGET_POLYGON_COUNT d = Some T' \<and> T' < total_polygons scene))
   \<and> (map_of TARGET_POLYGON_COUNT d = Some T \<and> T < total_polygons scene
        \<and> (\<forall>ob\<in>set scene. \<forall>m\<in>set (omods ob). modname m \<noteq> ''Decimate'')
        \<longrightarrow> snd (optimize_models h d scene)
            = Inr (map (\<lambda>ob. if otype ob = ''MESH''
                              then decimated h
                                     (real_of_int T / real_of_int (total_polygons scene)) ob
                              else ob) scene))"
proof (intro conjI impI)
  show "optimize_mesh h ob t = ([], Inr ob)" if "otype ob \<noteq> ''MESH''"
    using that by (rule optimize_mesh_not_mesh)
  show "optimize_mesh h ob t = ([], Inr ob)" if "npolys ob \<le> t"
    using that by (rule optimize_mesh_within)
  show "otype ob = ''MESH''" "t < npolys ob" if "decimate_call \<in> set (fst (optimize_mesh h ob t))"
    using optimize_mesh_call_only_over[OF that] by simp_all
  show "decimate_call \<in> set (fst (optimize_mesh h ob t))"
    "snd (optimize_mesh h ob t) = Inr (decimated h (real_of_int t / real_of_int (npolys ob)) ob)"
    if "otype ob = ''MESH'' \<and> t < npolys ob \<and> 0 \<le> t
        \<and> (\<forall>m\<in>set (omods ob). modname m \<noteq> ''Decimate'')"
    using that optimize_mesh_over[of ob t h] by simp_all
  show "snd (optimize_models h d scene) = Inr scene"
    "\<forall>e\<in>set (fst (optimize_models h d scene)). is_print e"
    if "map_of TARGET_POLYGON_COUNT d = Some T \<and> total_polygons scene \<le> T"
    using that optimize_models_within[of d T scene h] by simp_all
  show "\<exists>T'. map_of TARGET_POLYGON_COUNT d = Some T' \<and> T' < total_polygons scene"
    if "decimate_call \<in> set (fst (optimize_models h d scene))"
    using that by (rule optimize_models_call_only_over)
  show "snd (optimize_models h d scene)
            = Inr (map (\<lambda>ob. if otype ob = ''MESH''
                              then decimated h
                                     (real_of_int T / real_of_int (total_polygons scene)) ob
                              else ob) scene)"
    if "map_of TARGET_POLYGON_COUNT d = Some T \<and> T < total_polygons scene
        \<and> (\<forall>ob\<in>set scene. \<forall>m\<in>set (omods ob). modname m \<noteq> ''Decimate'')"
    using that optimize_models_over[of d T scene h] by simp
qed

lemma total_polygons_replicate: "total_polygons (replicate n tri_obj) = int n"
  by (simp add: total_polygons_def tri_obj_def tri_mesh_def npolys_def sum_list_replicate)

theorem optimize_noop_at_or_below_budget_witness:
  "optimize_mesh host_new (tri_obj\<lparr>otype := ''CURVE''\<rparr>) 0 = ([], Inr (tri_obj\<lparr>otype := ''CURVE''\<rparr>))
   \<and> optimize_mesh host_new tri_obj 1 = ([], Inr tri_obj)
   \<and> snd (optimize_mesh host_new (tri_obj\<lparr>odata := \<lparr>verts = [], polys = [[0, 1, 2], [1, 2, 3]]\<rparr>\<rparr>) 1)
       = Inr (decimated host_new (1 / 2)
                (tri_obj\<lparr>odata := \<lparr>verts = [], polys = [[0, 1, 2], [1, 2, 3]]\<rparr>\<rparr>))
   \<and> snd (optimize_models host_new ''low_detail'' [tri_obj]) = Inr [tri_obj]"
proof -
  have m: "map_of TARGET_POLYGON_COUNT ''low_detail'' = Some 50000"
    by (simp add: TARGET_POLYGON_COUNT_def)
  have one: "total_polygons [tri_obj] = 1"
    using total_polygons_replicate[of 1] by simp
  have a: "optimize_mesh host_new (tri_obj\<lparr>otype := ''CURVE''\<rparr>) 0 = ([], Inr (tri_obj\<lparr>otype := ''CURVE''\<rparr>))"
    using optimize_noop_at_or_below_budget[of "tri_obj\<lparr>otype := ''CURVE''\<rparr>" host_new 0]
    by simp
  have b: "optimize_mesh host_new tri_obj 1 = ([], Inr tri_obj)"
    using optimize_noop_at_or_below_budget[of tri_obj host_new 1]
    by (simp add: npolys_def tri_obj_def tri_mesh_def)
  have c: "snd (optimize_mesh host_new (tri_obj\<lparr>odata := \<lparr>verts = [], polys = [[0, 1, 2], [1, 2, 3]]\<rparr>\<rparr>) 1)
       = Inr (decimated host_new (1 / 2)
                (tri_obj\<lparr>odata := \<lparr>verts = [], polys = [[0, 1, 2], [1, 2, 3]]\<rparr>\<rparr>))"
    using optimize_noop_at_or_below_budget[of
        "tri_obj\<lparr>odata := \<lparr>verts = [], polys = [[0, 1, 2], [1, 2, 3]]\<rparr>\<rparr>" host_new 1]
    by (simp add: npolys_def tri_obj_def)
  have d: "snd (optimize_models host_new ''low_detail'' [tri_obj]) = Inr [tri_obj]"
    using optimize_noop_at_or_below_budget[where h = host_new and d = "''low_detail''" and T = 50000
        and scene = "[tri_obj]"] m one
    by simp
  show ?thesis using a b c d by simp
qed

section \<open>Events of composed computations\<close>

lemma la_retR: "list_all P (fst (retR x))" by (simp add: retR_def)
lemma la_raiseR: "list_all P (fst (raiseR e))" by (simp add: raiseR_def)
lemma la_liftR: "list_all P (fst (liftR r))" by (simp add: liftR_def)
lemma la_emit: "P e \<Longrightarrow> list_all P (fst (emit e))" by (simp add: emit_def)

lemma la_bindR:
  "list_all P (fst m) \<Longrightarrow> (\<And>a. list_all P (fst (f a))) \<Longrightarrow> list_all P (fst (bindR m f))"
proof -
  assume a: "list_all P (fst m)" and b: "\<And>a. list_all P (fst (f a))"
  obtain es r where m: "m = (es, r)" by (cases m)
  show ?thesis using a b[of "projr r"] by (cases r) (simp_all add: m)
qed

lemma la_thenR: "list_all P (fst m) \<Longrightarrow> list_all P (fst k) \<Longrightarrow> list_all P (fst (thenR m k))"
  by (simp add: thenR_def la_bindR)

lemma la_for_each:
  "(\<And>x s. x \<in> set xs \<Longrightarrow> list_all P (fst (f x s))) \<Longrightarrow> list_all P (fst (for_each f xs s))"
  by (induction xs arbitrary: s) (auto intro!: la_bindR la_retR)

lemma la_prints: "(\<And>l. P (Print l)) \<Longrightarrow> list_all P (fst (prints ls))"
  by (simp add: prints_run list_all_iff)

lemma la_call_op: "P (Call op kw) \<Longrightarrow> list_all P (fst (call_op op kw x))"
  by (simp add: call_op_def)

lemma la_run_op: "P (Call op kw) \<Longrightarrow> list_all P (fst (run_op h op kw ob))"
  by (simp add: run_op_def)

lemma la_set_prop: "P (SetProp (oname ob) k v) \<Longrightarrow> list_all P (fst (set_prop k v ob))"
  by (simp add: set_prop_def)

lemma la_add_primitive: "P (Call op kw) \<Longrightarrow> list_all P (fst (add_primitive h op kw ty loc))"
  by (simp add: add_primitive_def)

lemma la_select_set:
  "P (Call ''obj.select_set'' [(''object'', VStr (oname ob)), ([], VBool True)])
   \<Longrightarrow> list_all P (fst (select_set ob))"
  by (simp add: select_set_def call_op_def)

lemma la_transform_apply:
  "P (Call ''bpy.ops.object.transform_apply'' [(''scale'', VBool True)])
   \<Longrightarrow> list_all P (fst (transform_apply h ob))"
  by (simp add: transform_apply_def run_op_def retR_def)

lemma la_modifier_apply:
  "P (Call ''bpy.ops.object.modifier_apply'' [(''modifier'', VStr nm)])
   \<Longrightarrow> list_all P (fst (modifier_apply h nm ob))"
  by (simp add: modifier_apply_def retR_def raiseR_def split: option.splits)

lemmas la_intros = la_retR la_raiseR la_liftR la_emit la_bindR la_thenR la_for_each la_prints
  la_call_op la_run_op la_set_prop la_add_primitive la_select_set la_transform_apply
  la_modifier_apply

section \<open>Sockets and materials\<close>

lemma hex6_custom: "hex6 s \<Longrightarrow> \<exists>rgb. hex_to_rgb_custom s = Inr rgb"
proof -
  assume h: "hex6 s"
  then obtain c1 c2 c3 c4 c5 c6 where s: "py_lstrip (CHR ''#'') s = [c1, c2, c3, c4, c5, c6]"
    by (auto simp: hex6_def length_Suc_conv eval_nat_numeral)
  with h obtain d1 d2 d3 d4 d5 d6 where
    "hexval c1 = Some d1" "hexval c2 = Some d2" "hexval c3 = Some d3"
    "hexval c4 = Some d4" "hexval c5 = Some d5" "hexval c6 = Some d6"
    by (auto simp: hex6_def)
  then have "hex_to_rgb_custom s
      = Inr (real_of_int (int (16 * d1 + d2)) / 255, real_of_int (int (16 * d3 + d4)) / 255,
             real_of_int (int (16 * d5 + d6)) / 255)"
    by (simp add: hex_to_rgb_custom_def s py_slice_def py_int16_pair Let_def)
  then show ?thesis by blast
qed

lemma hex6_proc: "hex6 s \<Longrightarrow> \<exists>rgb. hex_to_rgb_proc s = Inr rgb"
  using hex6_custom by (simp add: hex_to_rgb_same)

lemma hex6_bp3d: "hex6 s \<Longrightarrow> \<exists>rgb. hex_to_rgb_bp3d s = Inr rgb"
  using hex6_custom by (simp add: hex_to_rgb_same)

lemma hex6_morph: "hex6 s \<Longrightarrow> \<exists>rgb. hex_triple_morph s = Inr rgb"
  using hex6_custom[of s]
  by (simp add: hex_triple_morph_def hex_to_rgb_custom_def Let_def)

lemma create_organ_material_events:
  "fst (create_organ_material h name c r)
   = [Call ''bpy.data.materials.new'' [(''name'', VStr (''Mat_'' @ name))]]"
  by (auto simp: create_organ_material_def raiseR_def liftR_def retR_def Let_def bindR_def
      split: sum.splits prod.splits)

lemma create_organ_material_ok:
  assumes "material_ready h" "use_nodes_default h" "hex6 c"
  shows "\<exists>m. snd (create_organ_material h name c r) = Inr m"
proof -
  obtain rgb where "hex_to_rgb_custom c = Inr rgb" using hex6_custom[OF assms(3)] by blast
  then show ?thesis
    using assms(1,2)
    by (auto simp: create_organ_material_def material_ready_def liftR_def retR_def Let_def
        set_socket_def has_socket_def update_conv' try_pass_def link_nodes_def split: prod.splits)
qed

lemma create_material_proc_events:
  "fst (create_material_proc h name c r s)
   = [Call ''bpy.data.materials.new'' [(''name'', VStr (''Mat_'' @ name))]]"
  by (auto simp: create_material_proc_def raiseR_def liftR_def retR_def Let_def bindR_def
      split: sum.splits prod.splits)

lemma create_material_proc_ok:
  assumes "material_ready h" "use_nodes_default h" "hex6 c"
  shows "\<exists>m. snd (create_material_proc h name c r s) = Inr m"
proof -
  obtain rgb where "hex_to_rgb_proc c = Inr rgb" using hex6_proc[OF assms(3)] by blast
  then show ?thesis
    using assms(1,2)
    by (auto simp: create_material_proc_def material_ready_def liftR_def retR_def Let_def
        set_socket_def has_socket_def update_conv' try_pass_def link_nodes_def split: prod.splits)
qed

lemma create_material_bp3d_events:
  "fst (create_material_bp3d h name c r)
   = [Call ''bpy.data.materials.new'' [(''name'', VStr (''Mat_'' @ name))]]"
  by (auto simp: create_material_bp3d_def raiseR_def liftR_def retR_def Let_def bindR_def
      split: sum.splits prod.splits)

lemma create_material_bp3d_ok:
  assumes "material_ready h" "has_socket ''Subsurface'' (new_node h ''ShaderNodeBsdfPrincipled'')"
    "has_socket ''Subsurface Color'' (new_node h ''ShaderNodeBsdfPrincipled'')" "hex6 c"
  shows "\<exists>m. snd (create_material_bp3d h name c r) = Inr m"
proof -
  obtain rgb where "hex_to_rgb_bp3d c = Inr rgb" using hex6_bp3d[OF assms(4)] by blast
  then show ?thesis
    using assms(1,2,3)
    by (auto simp: create_material_bp3d_def material_ready_def liftR_def retR_def Let_def
        set_socket_def has_socket_def update_conv' link_nodes_def split: prod.splits)
qed

section \<open>The build script: geometry, one structure, the whole table\<close>

lemma create_complex_mesh_fresh:
  "\<exists>ob. snd (create_complex_mesh h name p s d) = Inr ob \<and> fresh_named name ob"
  by (simp add: create_complex_mesh_def add_primitive_def transform_apply_def run_op_def
      modifier_apply_def retR_def fresh_named_def)

lemma create_tube_mesh_fresh:
  "\<exists>ob. snd (create_tube_mesh h name p s d) = Inr ob \<and> fresh_named name ob"
  by (cases s) (simp add: create_tube_mesh_def add_primitive_def call_op_def fresh_named_def)

lemma create_bean_mesh_fresh:
  "\<exists>ob. snd (create_bean_mesh h name p s d) = Inr ob \<and> fresh_named name ob"
  by (simp add: create_bean_mesh_def create_complex_mesh_def add_primitive_def
      transform_apply_def run_op_def modifier_apply_def retR_def fresh_named_def)

lemma create_dome_mesh_fresh:
  "\<exists>ob. snd (create_dome_mesh h name p s d) = Inr ob \<and> fresh_named name ob"
  by (simp add: create_dome_mesh_def add_primitive_def transform_apply_def run_op_def
      retR_def fresh_named_def)

lemma create_coiled_tube_mesh_fresh:
  "\<exists>ob. snd (create_coiled_tube_mesh h name p s d) = Inr ob \<and> fresh_named name ob"
  by (simp add: create_coiled_tube_mesh_def add_primitive_def run_op_def retR_def
      fresh_named_def)

lemma mesh_for_type_handled:
  assumes "stype spec \<in> set HANDLED_TYPES"
  shows "\<exists>ob. snd (mesh_for_type h name spec) = Inr (Some ob) \<and> fresh_named name ob"
proof -
  have lift: "\<exists>ob. snd (bindR m (\<lambda>ob. retR (Some ob))) = Inr (Some ob) \<and> fresh_named name ob"
    if "\<exists>ob. snd m = Inr ob \<and> fresh_named name ob" for m :: "obj run"
    using that by (cases m) (auto simp: retR_def)
  show ?thesis
    using assms
      lift[OF create_complex_mesh_fresh[of h name "sposition spec" "ssize spec" "subdivisions spec"]]
      lift[OF create_tube_mesh_fresh[of h name "sposition spec" "ssize spec" "subdivisions spec"]]
      lift[OF create_bean_mesh_fresh[of h name "sposition spec" "ssize spec" "subdivisions spec"]]
      lift[OF create_dome_mesh_fresh[of h name "sposition spec" "ssize spec" "subdivisions spec"]]
      lift[OF create_coiled_tube_mesh_fresh[of h name "sposition spec" "ssize spec"
          "subdivisions spec"]]
    by (simp add: mesh_for_type_def HANDLED_TYPES_def Let_def) blast
qed

lemma mesh_for_type_unhandled:
  "stype spec \<notin> set HANDLED_TYPES \<Longrightarrow> mesh_for_type h name spec = ([], Inr None)"
  by (simp add: mesh_for_type_def HANDLED_TYPES_def Let_def retR_def)

lemma find_append_hit: "P y \<Longrightarrow> find P (xs @ [y]) \<noteq> None"
  by (induction xs) simp_all

lemma optimize_mesh_keeps_tags:
  assumes "0 \<le> t"
  shows "\<exists>ob'. snd (optimize_mesh h ob t) = Inr ob' \<and> oname ob' = oname ob
              \<and> oprops ob' = oprops ob"
proof (cases "otype ob \<noteq> ''MESH'' \<or> npolys ob \<le> t")
  case True
  then show ?thesis by (auto simp: optimize_mesh_def retR_def)
next
  case False
  then have nz: "npolys ob \<noteq> 0" using assms by simp
  obtain m where f: "find (\<lambda>m. modname m = ''Decimate'')
      (omods ob @ [decimate_modifier (real_of_int t / real_of_int (npolys ob))]) = Some m"
    using find_append_hit[of "\<lambda>m. modname m = ''Decimate''"
        "decimate_modifier (real_of_int t / real_of_int (npolys ob))" "omods ob"]
    by (auto simp: decimate_modifier_def)
  show ?thesis
    using False nz f
    by (simp add: optimize_mesh_def py_truediv_def liftR_def Let_def modifier_apply_def
        retR_def decimate_modifier_def)
qed

lemma polygon_budget_nonneg: "map_of POLYGON_BUDGET name = Some b \<Longrightarrow> 0 \<le> b"
  by (auto simp: POLYGON_BUDGET_def split: if_splits)

lemma snd_bindR_Inr: "snd m = Inr a \<Longrightarrow> snd (bindR m f) = snd (f a)"
  by (cases m) simp

lemma fst_bindR_Inr: "snd m = Inr a \<Longrightarrow> fst (bindR m f) = fst m @ fst (f a)"
  by (cases m) simp

lemma bindR_Inl: "snd m = Inl e \<Longrightarrow> bindR m f = (fst m, Inl e)"
  by (cases m) simp

lemma snd_set_prop [simp]:
  "snd (set_prop k v ob) = Inr (ob\<lparr>oprops := AList.update k v (oprops ob)\<rparr>)"
  by (simp add: set_prop_def)

lemma optimize_tail_tags:
  "\<exists>ob'. snd (bindR (case map_of POLYGON_BUDGET name of
                          Some budget \<Rightarrow> optimize_mesh h ob budget
                        | None \<Rightarrow> retR ob) (\<lambda>ob. retR (created @ [ob])))
            = Inr (created @ [ob'])
         \<and> oname ob' = oname ob \<and> oprops ob' = oprops ob"
proof (cases "map_of POLYGON_BUDGET name")
  case None
  then show ?thesis by (simp add: retR_def)
next
  case (Some b)
  obtain ob' where "snd (optimize_mesh h ob b) = Inr ob'" "oname ob' = oname ob"
    "oprops ob' = oprops ob"
    using optimize_mesh_keeps_tags[OF polygon_budget_nonneg[OF Some], of h ob] by blast
  then show ?thesis by (simp add: Some snd_bindR_Inr retR_def)
qed

lemma build_structure_tags:
  assumes "material_ready h" "use_nodes_default h"
    and "stype spec \<in> set HANDLED_TYPES" "hex6 (scolor spec)"
  shows "\<exists>ob. snd (build_structure h (name, spec) created) = Inr (created @ [ob])
              \<and> tagged name (ssystem spec) ob"
proof -
  obtain ob0 where m0: "snd (mesh_for_type h name spec) = Inr (Some ob0)"
    and f0: "fresh_named name ob0"
    using mesh_for_type_handled[OF assms(3)] by blast
  obtain mat where m1: "snd (create_organ_material h name (scolor spec) (2 / 5)) = Inr mat"
    using create_organ_material_ok[OF assms(1,2,4)] by blast
  define tail where "tail = (\<lambda>ob. bindR (case map_of POLYGON_BUDGET name of
                          Some budget \<Rightarrow> optimize_mesh h ob budget
                        | None \<Rightarrow> retR ob) (\<lambda>ob. retR (created @ [ob])))"
  have "\<exists>obT. snd (build_structure h (name, spec) created) = snd (tail obT)
           \<and> oname obT = name
           \<and> oprops obT = [(''system'', VStr (ssystem spec)), (''clickable'', VBool True)]"
    unfolding tail_def
    apply (simp add: build_structure_def snd_bindR_Inr[OF m0] snd_bindR_Inr[OF m1] set_prop_def)
    apply (rule exI, rule conjI, rule refl)
    using f0 apply (simp add: fresh_named_def)
    done
  then obtain obT where e: "snd (build_structure h (name, spec) created) = snd (tail obT)"
    and t: "oname obT = name"
      "oprops obT = [(''system'', VStr (ssystem spec)), (''clickable'', VBool True)]"
    by blast
  obtain ob' where "snd (tail obT) = Inr (created @ [ob'])" "oname ob' = oname obT"
    "oprops ob' = oprops obT"
    unfolding tail_def using optimize_tail_tags[where name = name and h = h and ob = obT and created = created] by blast
  then show ?thesis using e t by (auto simp: tagged_def)
qed

lemma build_loop_tags:
  assumes "material_ready h" "use_nodes_default h"
    and "\<forall>e\<in>set entries. stype (snd e) \<in> set HANDLED_TYPES \<and> hex6 (scolor (snd e))"
  shows "\<exists>objs. snd (for_each (build_structure h) entries created) = Inr (created @ objs)
              \<and> list_all2 (\<lambda>ob e. tagged (fst e) (ssystem (snd e)) ob) objs entries"
  using assms(3)
proof (induction entries arbitrary: created)
  case Nil
  show ?case by (simp add: retR_def)
next
  case (Cons e entries)
  obtain name spec where e: "e = (name, spec)" by (cases e)
  obtain ob where s1: "snd (build_structure h (name, spec) created) = Inr (created @ [ob])"
    and t1: "tagged name (ssystem spec) ob"
    using build_structure_tags[OF assms(1,2), of spec name created] Cons.prems e by auto
  obtain objs where s2: "snd (for_each (build_structure h) entries (created @ [ob]))
        = Inr ((created @ [ob]) @ objs)"
    and t2: "list_all2 (\<lambda>ob e. tagged (fst e) (ssystem (snd e)) ob) objs entries"
    using Cons.IH[of "created @ [ob]"] Cons.prems by auto
  have "snd (for_each (build_structure h) (e # entries) created) = Inr (created @ ob # objs)"
    using s2 by (simp add: e snd_bindR_Inr[OF s1])
  then show ?case using t1 t2 e by auto
qed

lemma anatomy_structures_wellformed:
  "\<forall>e\<in>set ANATOMY_STRUCTURES. stype (snd e) \<in> set HANDLED_TYPES \<and> hex6 (scolor (snd e))"
  by (simp add: ANATOMY_STRUCTURES_def mk_structure_def HANDLED_TYPES_def hex6_def py_lstrip_def
      hexval_def)

section \<open>Results of composed computations\<close>

lemma returns_iff: "returns Q r = (\<exists>a. snd r = Inr a \<and> Q a)"
  by (cases "snd r") (simp_all add: returns_def)

lemma returns_retR: "Q x \<Longrightarrow> returns Q (retR x)"
  by (simp add: returns_def retR_def)

lemma returns_emit: "returns (\<lambda>_. True) (emit e)"
  by (simp add: returns_def emit_def)

lemma returns_prints: "returns (\<lambda>_. True) (prints ls)"
  by (simp add: returns_def prints_run)

lemma returns_liftR: "r = Inr a \<Longrightarrow> Q a \<Longrightarrow> returns Q (liftR r)"
  by (simp add: returns_def liftR_def)

lemma returns_bindR:
  "returns Q' m \<Longrightarrow> (\<And>a. Q' a \<Longrightarrow> returns Q (f a)) \<Longrightarrow> returns Q (bindR m f)"
  by (cases m) (auto simp: returns_iff)

lemma returns_thenR: "returns (\<lambda>_. True) m \<Longrightarrow> returns Q k \<Longrightarrow> returns Q (thenR m k)"
  unfolding thenR_def by (erule returns_bindR)

lemma returns_weaken: "returns Q r \<Longrightarrow> (\<And>a. Q a \<Longrightarrow> Q' a) \<Longrightarrow> returns Q' r"
  by (auto simp: returns_iff)

lemma returns_for_each:
  "Q s \<Longrightarrow> (\<And>x s. x \<in> set xs \<Longrightarrow> Q s \<Longrightarrow> returns Q (f x s)) \<Longrightarrow> returns Q (for_each f xs s)"
proof (induction xs arbitrary: s)
  case Nil
  then show ?case by (simp add: returns_retR)
next
  case (Cons x xs)
  have step: "returns Q (f x s)" using Cons.prems by simp
  have rest: "returns Q (for_each f xs a)" if "Q a" for a
    using that Cons.prems(2) by (intro Cons.IH) simp_all
  show ?case
    unfolding for_each.simps
    by (rule returns_bindR[OF step]) (rule rest)
qed

lemma returns_call_op: "Q x \<Longrightarrow> returns Q (call_op op kw x)"
  by (simp add: returns_def call_op_def)

lemma returns_clear_scene_ops: "returns (\<lambda>_. True) clear_scene_ops"
  by (simp add: clear_scene_ops_def returns_def emit_def)

section \<open>The build script: the model as a whole\<close>

lemma load_reference_returns: "returns (\<lambda>_. True) (load_reference h p)"
  unfolding load_reference_def
  by (intro returns_thenR returns_emit returns_bindR[where Q' = "\<lambda>_. True"] returns_for_each
      returns_retR TrueI)

lemma build_anatomy_model_tags:
  assumes "material_ready h" "use_nodes_default h"
  shows "returns (\<lambda>objs. list_all2 (\<lambda>ob e. tagged (fst e) (ssystem (snd e)) ob) objs
                          ANATOMY_STRUCTURES) (build_anatomy_model h z)"
proof -
  have refs: "returns (\<lambda>_. True)
      (case z of None \<Rightarrow> retR []
       | Some p \<Rightarrow> if p \<noteq> [] \<and> path_exists h p then load_reference h p else retR [])"
    by (cases z) (auto intro: returns_retR load_reference_returns)
  have loop: "returns (\<lambda>objs. list_all2 (\<lambda>ob e. tagged (fst e) (ssystem (snd e)) ob) objs
                          ANATOMY_STRUCTURES) (for_each (build_structure h) ANATOMY_STRUCTURES [])"
    using build_loop_tags[OF assms anatomy_structures_wellformed, of "[]"]
    by (simp add: returns_iff)
  show ?thesis
    unfolding build_anatomy_model_def
    apply (intro returns_thenR returns_prints returns_clear_scene_ops)
    apply (rule returns_bindR[OF refs])
    apply (intro returns_thenR returns_emit)
    apply (rule returns_bindR[OF loop])
    apply (rule returns_bindR[where Q' = "\<lambda>_. True"])
     apply (intro returns_for_each returns_emit TrueI)
    apply (intro returns_thenR returns_prints returns_retR)
    apply assumption
    done
qed

section \<open>The build script: its events\<close>

lemma is_export_simps [simp]:
  "is_export (Print l) = False"
  "is_export (SetProp a b c) = False"
  "is_export (Call op kw) = (op = ''bpy.ops.export_scene.gltf'')"
  by (simp_all add: is_export_def)

lemma is_call_simps [simp]:
  "is_call (Print l) = False"
  "is_call (SetProp a b c) = False"
  "is_call (Call op kw) = True"
  by (simp_all add: is_call_def)

lemma is_print_simps [simp]:
  "is_print (Print l) = True"
  "is_print (SetProp a b c) = False"
  "is_print (Call op kw) = False"
  by (simp_all add: is_print_def)

lemma mesh_for_type_no_export: "list_all (\<lambda>e. \<not> is_export e) (fst (mesh_for_type h name spec))"
  unfolding mesh_for_type_def Let_def create_complex_mesh_def create_tube_mesh_def
    create_bean_mesh_def create_dome_mesh_def create_coiled_tube_mesh_def
  by (auto intro!: la_intros split: prod.splits)

lemma optimize_mesh_events:
  "list_all (\<lambda>e. e = decimate_call \<or> is_print e) (fst (optimize_mesh h ob t))"
  unfolding optimize_mesh_def Let_def
  by (auto intro!: la_intros simp: decimate_call_def)

lemma optimize_mesh_no_export: "list_all (\<lambda>e. \<not> is_export e) (fst (optimize_mesh h ob t))"
  unfolding optimize_mesh_def Let_def
  by (auto intro!: la_intros)

lemma create_organ_material_no_export:
  "list_all (\<lambda>e. \<not> is_export e) (fst (create_organ_material h name c r))"
  by (simp add: create_organ_material_events)

lemma build_structure_no_export:
  "list_all (\<lambda>e. \<not> is_export e) (fst (build_structure h e created))"
  unfolding build_structure_def
  by (auto intro!: la_intros mesh_for_type_no_export create_organ_material_no_export
      optimize_mesh_no_export split: prod.splits option.splits)

lemma build_anatomy_model_no_export:
  "list_all (\<lambda>e. \<not> is_export e) (fst (build_anatomy_model h z))"
  unfolding build_anatomy_model_def load_reference_def clear_scene_ops_def
  by (auto intro!: la_intros build_structure_no_export split: option.splits)

lemma build_anatomy_model_starts:
  "\<exists>rest. calls (fst (build_anatomy_model h z))
     = Call ''bpy.ops.object.select_all'' [(''action'', VStr ''SELECT'')]
       # Call ''bpy.ops.object.delete'' [] # rest"
  by (simp add: build_anatomy_model_def clear_scene_ops_def calls_def emit_def retR_def)

lemma build_structure_events:
  assumes "material_ready h" "use_nodes_default h"
    and "stype spec \<in> set HANDLED_TYPES" "hex6 (scolor spec)"
  shows "\<exists>post. fst (build_structure h (name, spec) created)
           = Print [Txt ''Creating '', Txt name, Txt ''...'']
             # fst (mesh_for_type h name spec)
             @ [Call ''bpy.data.materials.new'' [(''name'', VStr (''Mat_'' @ name))],
                SetProp name ''system'' (VStr (ssystem spec)),
                SetProp name ''clickable'' (VBool True)]
             @ post
         \<and> list_all (\<lambda>e. e = decimate_call \<or> is_print e) post"
proof -
  obtain ob0 where m0: "snd (mesh_for_type h name spec) = Inr (Some ob0)"
    and f0: "fresh_named name ob0"
    using mesh_for_type_handled[OF assms(3)] by blast
  obtain mat where m1: "snd (create_organ_material h name (scolor spec) (2 / 5)) = Inr mat"
    using create_organ_material_ok[OF assms(1,2,4)] by blast
  have n0: "oname ob0 = name" using f0 by (simp add: fresh_named_def)
  have tail: "list_all (\<lambda>e. e = decimate_call \<or> is_print e)
      (fst (bindR (case map_of POLYGON_BUDGET name of
                     Some budget \<Rightarrow> optimize_mesh h ob budget
                   | None \<Rightarrow> retR ob) (\<lambda>ob. retR (created @ [ob]))))" for ob
    by (auto intro!: la_intros optimize_mesh_events split: option.splits)
  show ?thesis
    apply (simp add: build_structure_def fst_bindR_Inr[OF m0] fst_bindR_Inr[OF m1]
        create_organ_material_events set_prop_def n0)
    apply (rule tail)
    done
qed

lemma export_model_run:
  "\<exists>a b c d p. export_model h
     = ([Print a, export_call_custom h, Print b, Print c, Print d], Inr p)"
  by (simp add: export_model_def export_call_custom_def Let_def emit_def retR_def)

lemma calls_append [simp]: "calls (xs @ ys) = calls xs @ calls ys"
  by (simp add: calls_def)

lemma calls_Cons [simp]:
  "calls (Print l # es) = calls es"
  "calls (SetProp a b c # es) = calls es"
  "calls (Call op kw # es) = Call op kw # calls es"
  by (simp_all add: calls_def)

lemma calls_Nil [simp]: "calls [] = []"
  by (simp add: calls_def)

lemma calls_map_Print [simp]: "calls (map Print ls) = []"
  by (induction ls) simp_all

lemma filter_export_map_Print [simp]: "filter is_export (map Print ls) = []"
  by (induction ls) simp_all

lemma filter_none: "list_all (\<lambda>e. \<not> P e) es \<Longrightarrow> filter P es = []"
  by (induction es) simp_all

lemma list_all_calls: "list_all P es \<Longrightarrow> list_all P (calls es)"
  by (simp add: calls_def list_all_iff)

lemma main_custom_pipeline:
  assumes "material_ready h" "use_nodes_default h"
  shows "snd (main_custom h argv) = Inr ()"
    and "filter is_export (fst (main_custom h argv)) = [export_call_custom h]"
    and "\<exists>mid. calls (fst (main_custom h argv))
               = select_all_call # Call ''bpy.ops.object.delete'' [] # mid @ [export_call_custom h]
             \<and> list_all (\<lambda>e. \<not> is_export e) mid"
proof -
  obtain objs where b: "snd (build_anatomy_model h (parse_reference argv)) = Inr objs"
    using build_anatomy_model_tags[OF assms, of "parse_reference argv"]
    by (auto simp: returns_iff)
  obtain a b1 b2 b3 p where e: "export_model h
      = ([Print a, export_call_custom h, Print b1, Print b2, Print b3], Inr p)"
    using export_model_run by blast
  have ex: "is_export (export_call_custom h)" by (simp add: export_call_custom_def)
  have ev: "fst (main_custom h argv)
      = fst (build_anatomy_model h (parse_reference argv))
        @ [Print a, export_call_custom h, Print b1, Print b2, Print b3]
        @ fst (prints
       [[Txt (banner 70)], [Txt (check_mark @ '' SUCCESS!'')], [Txt (replicate 70 (CHR ''=''))],
        [Txt (CHR 0x0A # ''Custom anatomy model created: ''), Txt OUTPUT_FILE_custom],
        [Txt ''Structures: '', Num (int (length objs))],
        [Txt (CHR 0x0A # ''Next steps:'')],
        [Txt ''1. Update PhysicsAnatomyModel.tsx:''],
        [Txt (''   const { scene } = useGLTF('' @ [CHR 0x27]
              @ ''/models/human_anatomy_custom.glb'' @ [CHR 0x27] @ '');'')],
        [Txt ''2. Refresh browser: http://localhost:5175/physics-demo''],
        []])"
    unfolding main_custom_def by (simp only: fst_bindR_Inr[OF b] e bindR_simps fst_conv append_Cons append_assoc)
  show "snd (main_custom h argv) = Inr ()"
    unfolding main_custom_def
    by (simp only: snd_bindR_Inr[OF b] e bindR_simps snd_conv prints_run)
  have ne: "filter is_export (fst (build_anatomy_model h (parse_reference argv))) = []"
    by (rule filter_none[OF build_anatomy_model_no_export])
  show "filter is_export (fst (main_custom h argv)) = [export_call_custom h]"
    unfolding ev by (simp add: ne ex prints_run)
  obtain rest where st: "calls (fst (build_anatomy_model h (parse_reference argv)))
     = Call ''bpy.ops.object.select_all'' [(''action'', VStr ''SELECT'')]
       # Call ''bpy.ops.object.delete'' [] # rest"
    using build_anatomy_model_starts by blast
  have "list_all (\<lambda>e. \<not> is_export e) (calls (fst (build_anatomy_model h (parse_reference argv))))"
    by (rule list_all_calls[OF build_anatomy_model_no_export])
  then have r: "list_all (\<lambda>e. \<not> is_export e) rest" by (simp add: st)
  have "calls (fst (main_custom h argv))
          = select_all_call # Call ''bpy.ops.object.delete'' [] # rest @ [export_call_custom h]"
    unfolding ev by (simp add: st prints_run select_all_call_def export_call_custom_def)
  then show "\<exists>mid. calls (fst (main_custom h argv))
               = select_all_call # Call ''bpy.ops.object.delete'' [] # mid @ [export_call_custom h]
             \<and> list_all (\<lambda>e. \<not> is_export e) mid"
    using r by blast
qed

section \<open>The procedural script\<close>

lemma create_material_proc_run:
  assumes "material_ready h" "use_nodes_default h" "hex6 c"
  shows "\<exists>mat. create_material_proc h name c r s
           = ([Call ''bpy.data.materials.new'' [(''name'', VStr (''Mat_'' @ name))]], Inr mat)"
  using create_material_proc_ok[OF assms, of name r s] create_material_proc_events[of h name c r s]
  by (cases "create_material_proc h name c r s") auto

lemma create_organ_run:
  assumes "material_ready h" "use_nodes_default h"
    and "organ_call_ok (name, gt, sz, pos, color, system)"
  shows "\<exists>ob prim. create_organ h name gt sz pos color system scene
           = ([prim, Call ''bpy.data.materials.new'' [(''name'', VStr (''Mat_'' @ name))],
               SetProp name ''system'' (VStr system), SetProp name ''clickable'' (VBool True),
               Call ''bpy.ops.object.shade_smooth'' []],
              Inr (scene @ [ob]))
         \<and> is_primitive prim \<and> tagged name system ob"
proof -
  have c: "hex6 color" using assms(3) by (simp add: organ_call_ok_def)
  obtain mat where m: "create_material_proc h name color (2 / 5) (1 / 10)
      = ([Call ''bpy.data.materials.new'' [(''name'', VStr (''Mat_'' @ name))]], Inr mat)"
    using create_material_proc_run[OF assms(1,2) c] by blast
  consider (sphere) "gt = ''sphere''"
    | (ellipsoid) x y z where "gt = ''ellipsoid''" "sz = VTuple [x, y, z]"
    | (cylinder) r d rest where "gt = ''cylinder''" "sz = VTuple (r # d # rest)"
    using assms(3)
    by (auto simp: organ_call_ok_def length_Suc_conv eval_nat_numeral Suc_le_length_iff
        split: pyval.splits)
  then show ?thesis
  proof cases
    case sphere
    then show ?thesis
      by (simp add: create_organ_def add_primitive_def m set_prop_def call_op_def retR_def
          is_primitive_def tagged_def)
  next
    case ellipsoid
    then show ?thesis
      by (simp add: create_organ_def add_primitive_def m set_prop_def call_op_def retR_def
          is_primitive_def tagged_def set_scale_def liftR_def)
  next
    case cylinder
    then show ?thesis
      by (simp add: create_organ_def add_primitive_def m set_prop_def call_op_def retR_def
          is_primitive_def tagged_def py_getitem_def liftR_def)
  qed
qed

lemma is_primitive_simps [simp]:
  "is_primitive (Print l) = False"
  "is_primitive (SetProp a b c) = False"
  "is_primitive (Call ''bpy.data.materials.new'' kw) = False"
  "is_primitive (Call ''bpy.ops.object.shade_smooth'' kw) = False"
  by (simp_all add: is_primitive_def)

lemma is_primitive_not_export: "is_primitive e \<Longrightarrow> \<not> is_export e"
  by (cases e) (auto simp: is_primitive_def)

lemma create_organs_run:
  assumes "material_ready h" "use_nodes_default h" "\<forall>a\<in>set cs. organ_call_ok a"
  shows "\<exists>objs es. create_organs h cs scene = (es, Inr (scene @ objs))
              \<and> list_all2 (\<lambda>ob a. tagged (fst a) (call_system a) ob) objs cs
              \<and> list_all (\<lambda>e. \<not> is_export e) es
              \<and> length (filter is_primitive es) = length cs"
  using assms(3)
proof (induction cs arbitrary: scene)
  case Nil
  show ?case by (simp add: create_organs_def retR_def)
next
  case (Cons a cs)
  obtain name gt sz pos color system where a: "a = (name, gt, sz, pos, color, system)"
    by (cases a)
  obtain ob prim where s1: "create_organ h name gt sz pos color system scene
           = ([prim, Call ''bpy.data.materials.new'' [(''name'', VStr (''Mat_'' @ name))],
               SetProp name ''system'' (VStr system), SetProp name ''clickable'' (VBool True),
               Call ''bpy.ops.object.shade_smooth'' []],
              Inr (scene @ [ob]))"
    and p1: "is_primitive prim" and t1: "tagged name system ob"
    using create_organ_run[OF assms(1,2), of name gt sz pos color system scene] Cons.prems a
    by auto
  obtain objs es where s2: "create_organs h cs (scene @ [ob]) = (es, Inr ((scene @ [ob]) @ objs))"
    and t2: "list_all2 (\<lambda>ob a. tagged (fst a) (call_system a) ob) objs cs"
    and e2: "list_all (\<lambda>e. \<not> is_export e) es"
    and n2: "length (filter is_primitive es) = length cs"
    using Cons.IH[of "scene @ [ob]"] Cons.prems by auto
  have "create_organs h (a # cs) scene
        = ([prim, Call ''bpy.data.materials.new'' [(''name'', VStr (''Mat_'' @ name))],
               SetProp name ''system'' (VStr system), SetProp name ''clickable'' (VBool True),
               Call ''bpy.ops.object.shade_smooth'' []] @ es, Inr (scene @ ob # objs))"
    using s2 by (simp add: create_organs_def a s1)
  then show ?case
    using t1 t2 a e2 n2 p1 is_primitive_not_export[OF p1] by (auto simp: call_system_def)
qed

lemma builds_organs:
  "material_ready h \<Longrightarrow> use_nodes_default h \<Longrightarrow> \<forall>a\<in>set cs. organ_call_ok a
   \<Longrightarrow> builds cs scene (create_organs h cs scene)"
  unfolding builds_def by (rule create_organs_run)

lemma builds_print: "builds cs scene r \<Longrightarrow> builds cs scene (thenR (emit (Print l)) r)"
  by (auto simp: builds_def)

lemma builds_bind:
  assumes "builds cs1 scene m" and "\<And>s1. builds cs2 s1 (f s1)"
  shows "builds (cs1 @ cs2) scene (bindR m f)"
proof -
  obtain objs1 es1 where m: "m = (es1, Inr (scene @ objs1))"
    and t1: "list_all2 (\<lambda>ob a. tagged (fst a) (call_system a) ob) objs1 cs1"
    and e1: "list_all (\<lambda>e. \<not> is_export e) es1"
    and n1: "length (filter is_primitive es1) = length cs1"
    using assms(1) by (auto simp: builds_def)
  obtain objs2 es2 where f: "f (scene @ objs1) = (es2, Inr ((scene @ objs1) @ objs2))"
    and t2: "list_all2 (\<lambda>ob a. tagged (fst a) (call_system a) ob) objs2 cs2"
    and e2: "list_all (\<lambda>e. \<not> is_export e) es2"
    and n2: "length (filter is_primitive es2) = length cs2"
    using assms(2)[of "scene @ objs1"] by (auto simp: builds_def)
  have "bindR m f = (es1 @ es2, Inr (scene @ (objs1 @ objs2)))"
    by (simp add: m f)
  then show ?thesis
    unfolding builds_def
    using list_all2_appendI[OF t1 t2] e1 e2 n1 n2 by (intro exI[of _ "objs1 @ objs2"] exI[of _ "es1 @ es2"]) simp
qed

lemma tagged_make_transparent: "tagged n s ob \<Longrightarrow> tagged n s (make_transparent ob)"
  by (auto simp: tagged_def make_transparent_def Let_def split: list.splits option.splits)

lemma builds_skeletal:
  assumes "material_ready h" "use_nodes_default h" "organ_call_ok skull_call"
    "\<forall>a\<in>set spine_ribs_calls. organ_call_ok a"
  shows "builds (skull_call # spine_ribs_calls) scene (create_skeletal_system h scene)"
proof -
  obtain objs1 es1 where m: "create_organs h [skull_call] scene = (es1, Inr (scene @ objs1))"
    and t1: "list_all2 (\<lambda>ob a. tagged (fst a) (call_system a) ob) objs1 [skull_call]"
    and e1: "list_all (\<lambda>e. \<not> is_export e) es1"
    and n1: "length (filter is_primitive es1) = length [skull_call]"
    using create_organs_run[OF assms(1,2), of "[skull_call]" scene] assms(3) by auto
  obtain skull where o1: "objs1 = [skull]" and ts: "tagged (fst skull_call) (call_system skull_call) skull"
    using t1 by (auto simp: list_all2_Cons2)
  let ?scene1 = "scene @ [make_transparent skull]"
  obtain objs2 es2 where f: "create_organs h spine_ribs_calls ?scene1 = (es2, Inr (?scene1 @ objs2))"
    and t2: "list_all2 (\<lambda>ob a. tagged (fst a) (call_system a) ob) objs2 spine_ribs_calls"
    and e2: "list_all (\<lambda>e. \<not> is_export e) es2"
    and n2: "length (filter is_primitive es2) = length spine_ribs_calls"
    using create_organs_run[OF assms(1,2,4), of ?scene1] by auto
  have "create_skeletal_system h scene
        = (Print [Txt ''Creating skeletal system...''] # es1 @ es2,
           Inr (scene @ (make_transparent skull # objs2)))"
    by (simp add: create_skeletal_system_def m o1 f)
  then show ?thesis
    unfolding builds_def
    using tagged_make_transparent[OF ts] t2 e1 e2 n1 n2
    by (intro exI[of _ "make_transparent skull # objs2"]
        exI[of _ "Print [Txt ''Creating skeletal system...''] # es1 @ es2"]) simp
qed

lemma all_organ_calls_ok: "\<forall>a\<in>set all_organ_calls. organ_call_ok a"
  by (simp add: all_organ_calls_def body_outline_calls_def brain_calls_def heart_calls_def
      lungs_calls_def digestive_calls_def urinary_calls_def skull_call_def spine_ribs_calls_def
      vascular_calls_def nervous_calls_def organ_call_ok_def hex6_def py_lstrip_def hexval_def
      upt_rec[of 0] upt_rec[of "Suc _"] eval_nat_numeral)

lemma builds_create_all:
  assumes "material_ready h" "use_nodes_default h"
  shows "builds all_organ_calls [] (create_all h)"
proof -
  have ok: "\<forall>a\<in>set body_outline_calls. organ_call_ok a" "\<forall>a\<in>set brain_calls. organ_call_ok a"
    "\<forall>a\<in>set heart_calls. organ_call_ok a" "\<forall>a\<in>set lungs_calls. organ_call_ok a"
    "\<forall>a\<in>set digestive_calls. organ_call_ok a" "\<forall>a\<in>set urinary_calls. organ_call_ok a"
    "organ_call_ok skull_call" "\<forall>a\<in>set spine_ribs_calls. organ_call_ok a"
    "\<forall>a\<in>set vascular_calls. organ_call_ok a" "\<forall>a\<in>set nervous_calls. organ_call_ok a"
    using all_organ_calls_ok by (simp_all add: all_organ_calls_def)
  have "builds (body_outline_calls @ brain_calls @ heart_calls @ lungs_calls @ digestive_calls
          @ urinary_calls @ (skull_call # spine_ribs_calls) @ vascular_calls @ nervous_calls) []
          (create_all h)"
    unfolding create_all_def create_body_outline_def create_brain_def create_heart_def
      create_lungs_def create_digestive_system_def create_urinary_system_def
      create_vascular_system_def create_nervous_system_def
    by (intro builds_bind builds_print builds_organs builds_skeletal assms ok)
  then show ?thesis by (simp add: all_organ_calls_def)
qed

lemma is_primitive_is_call: "is_primitive e \<Longrightarrow> is_call e"
  by (cases e) (simp_all add: is_primitive_def)

lemma filter_primitive_calls: "filter is_primitive (calls es) = filter is_primitive es"
  unfolding calls_def filter_filter
  by (rule filter_cong) (auto dest: is_primitive_is_call)

lemma main_proc_pipeline:
  assumes "material_ready h" "use_nodes_default h"
  shows "snd (main_proc h) = Inr ()"
    and "filter is_export (fst (main_proc h)) = [export_call_proc h]"
    and "\<exists>mid. calls (fst (main_proc h))
               = select_all_call # Call ''bpy.ops.object.delete'' [] # mid @ [export_call_proc h]
             \<and> list_all (\<lambda>e. \<not> is_export e) mid
             \<and> length (filter is_primitive mid) = length all_organ_calls"
proof -
  obtain objs es where c: "create_all h = (es, Inr objs)"
    and e: "list_all (\<lambda>e. \<not> is_export e) es"
    and n: "length (filter is_primitive es) = length all_organ_calls"
    using builds_create_all[OF assms] by (auto simp: builds_def)
  have ex: "is_export (export_call_proc h)" by (simp add: export_call_proc_def)
  have cl: "is_call (export_call_proc h)" by (simp add: export_call_proc_def)
  show "snd (main_proc h) = Inr ()"
    by (simp add: main_proc_def clear_scene_proc_def clear_scene_ops_def c Let_def emit_def
        retR_def)
  show "filter is_export (fst (main_proc h)) = [export_call_proc h]"
    by (simp add: main_proc_def clear_scene_proc_def clear_scene_ops_def c Let_def emit_def
        retR_def filter_none[OF e] ex)
  have "calls (fst (main_proc h))
        = select_all_call # Call ''bpy.ops.object.delete'' [] # calls es @ [export_call_proc h]"
    by (simp add: main_proc_def clear_scene_proc_def clear_scene_ops_def c Let_def emit_def
        retR_def select_all_call_def calls_def cl)
  moreover have "list_all (\<lambda>e. \<not> is_export e) (calls es)" by (rule list_all_calls[OF e])
  moreover have "length (filter is_primitive (calls es)) = length all_organ_calls"
    by (simp add: filter_primitive_calls n)
  ultimately show "\<exists>mid. calls (fst (main_proc h))
               = select_all_call # Call ''bpy.ops.object.delete'' [] # mid @ [export_call_proc h]
             \<and> list_all (\<lambda>e. \<not> is_export e) mid
             \<and> length (filter is_primitive mid) = length all_organ_calls"
    by blast
qed

section \<open>The morph script\<close>

lemma import_base_model_returns:
  "returns (\<lambda>b. oname b = ''BodyReference_BMI22'') (import_base_model h)"
  by (simp add: import_base_model_def add_primitive_def transform_apply_def run_op_def
      retR_def returns_def)

lemma create_vertex_groups_returns:
  "returns (\<lambda>res. oname (fst res) = oname ob) (create_vertex_groups h ob)"
  by (simp add: create_vertex_groups_def Let_def retR_def returns_def)

lemma create_bmi_variant_returns: "returns (\<lambda>_. True) (create_bmi_variant h b n p)"
  by (simp add: create_bmi_variant_def select_set_def retR_def returns_def)

lemma variant_step_returns: "returns (\<lambda>_. True) (variant_step h b e vs)"
  unfolding variant_step_def
  by (auto split: prod.splits
      intro!: returns_retR returns_bindR[OF create_bmi_variant_returns])

lemma create_shape_keys_returns:
  "returns (\<lambda>b. oname b = oname base_obj) (create_shape_keys base_obj variants)"
  by (simp add: create_shape_keys_def shape_key_loop shape_key_add_def retR_def emit_def
      returns_def)

lemma hex6_morph_run: "hex6 c \<Longrightarrow> \<exists>rgb. hex_triple_morph c = Inr rgb"
  by (rule hex6_morph)

lemma organ_material_returns:
  assumes "morph_ready h" "hex6 color"
  shows "returns (\<lambda>_. True) (organ_material h organ_name color)"
proof (cases "find (\<lambda>n. nname n = ''Principled BSDF'') (default_nodes h)")
  case None
  then show ?thesis by (simp add: organ_material_def retR_def returns_def)
next
  case (Some bsdf)
  obtain rgb where r: "hex_triple_morph color = Inr rgb" using hex6_morph[OF assms(2)] by blast
  have "has_socket ''Base Color'' bsdf" "has_socket ''Roughness'' bsdf"
    using assms(1) Some by (simp_all add: morph_ready_def)
  then show ?thesis
    by (auto simp: organ_material_def Some r liftR_def retR_def returns_def set_socket_def
        has_socket_def update_conv' split: prod.splits)
qed

lemma add_organ_returns:
  assumes "morph_ready h" "hex6 color"
  shows "returns (\<lambda>res. res = added @ [last res] \<and> oname (last res) = organ_name)
           (add_organ h (organ_name, location, scale, color) added)"
proof -
  obtain mat where m: "snd (organ_material h organ_name color) = Inr mat"
    using organ_material_returns[OF assms] by (auto simp: returns_iff)
  show ?thesis
    by (simp add: add_organ_def add_primitive_def set_prop_def snd_bindR_Inr[OF m] retR_def
        returns_def)
qed

lemma organs_wellformed: "\<forall>e\<in>set ORGANS. hex6 (snd (snd (snd e)))"
  by (simp add: ORGANS_def hex6_def py_lstrip_def hexval_def)

lemma add_organs_loop:
  assumes "morph_ready h" "\<forall>e\<in>set es. hex6 (snd (snd (snd e)))"
  shows "returns (\<lambda>res. map oname res = map oname added @ map fst es)
           (for_each (add_organ h) es added)"
  using assms(2)
proof (induction es arbitrary: added)
  case Nil
  show ?case by (simp add: returns_retR)
next
  case (Cons e es)
  obtain organ_name location scale color where e: "e = (organ_name, location, scale, color)"
    by (cases e)
  have c: "hex6 color" using Cons.prems e by simp
  have step: "returns (\<lambda>res. map oname res = map oname added @ [organ_name])
                (add_organ h e added)"
    unfolding e
    by (rule returns_weaken[OF add_organ_returns[OF assms(1) c]]) (metis list.simps(8,9) map_append)
  show ?case
    unfolding for_each.simps
  proof (rule returns_bindR[OF step])
    fix a :: "obj list" assume a: "map oname a = map oname added @ [organ_name]"
    have "returns (\<lambda>res. map oname res = map oname a @ map fst es) (for_each (add_organ h) es a)"
      using Cons.prems by (intro Cons.IH) simp
    then show "returns (\<lambda>res. map oname res = map oname added @ map fst (e # es))
                 (for_each (add_organ h) es a)"
      by (rule returns_weaken) (simp add: a e)
  qed
qed

lemma add_organ_meshes_returns:
  assumes "morph_ready h"
  shows "returns (\<lambda>organs. map oname organs = map fst ORGANS) (add_organ_meshes h)"
  unfolding add_organ_meshes_def
  apply (intro returns_thenR returns_emit)
  apply (rule returns_bindR[OF add_organs_loop[OF assms organs_wellformed, of "[]"]])
  apply (intro returns_thenR returns_emit returns_retR)
  apply simp
  done

lemma prepare_morph_returns:
  assumes "morph_ready h"
  shows "returns (\<lambda>res. oname (fst res) = ''BodyReference_BMI22''
                        \<and> map oname (snd res) = map fst ORGANS) (prepare_morph h)"
  unfolding prepare_morph_def
  apply (rule returns_thenR)
   apply (simp add: clear_scene_morph_def returns_def emit_def)
  apply (rule returns_bindR[OF import_base_model_returns])
  apply (rule returns_bindR[OF create_vertex_groups_returns])
  apply (rule returns_bindR[where Q' = "\<lambda>_. True"])
   apply (intro returns_for_each variant_step_returns TrueI)
  apply (rule returns_bindR[OF create_shape_keys_returns])
  apply (rule returns_bindR[where Q' = "\<lambda>_. True"])
   apply (intro returns_for_each returns_emit TrueI)
  apply (rule returns_bindR[OF add_organ_meshes_returns[OF assms]])
  apply (rule returns_retR)
  apply simp
  done

lemma organ_material_no_export:
  "list_all (\<lambda>e. \<not> is_export e) (fst (organ_material h n c))"
  unfolding organ_material_def
  by (auto intro!: la_intros split: option.splits prod.splits)

lemma add_organ_no_export: "list_all (\<lambda>e. \<not> is_export e) (fst (add_organ h e added))"
  unfolding add_organ_def
  by (auto intro!: la_intros organ_material_no_export split: prod.splits)

lemma create_bmi_variant_no_export:
  "list_all (\<lambda>e. \<not> is_export e) (fst (create_bmi_variant h b n p))"
  unfolding create_bmi_variant_def
  by (auto intro!: la_intros)

lemma create_shape_keys_no_export:
  "list_all (\<lambda>e. \<not> is_export e) (fst (create_shape_keys b vs))"
  by (simp add: create_shape_keys_def shape_key_loop retR_def list_all_iff split: prod.splits)

lemma prepare_morph_no_export: "list_all (\<lambda>e. \<not> is_export e) (fst (prepare_morph h))"
  unfolding prepare_morph_def clear_scene_morph_def import_base_model_def
    create_vertex_groups_def variant_step_def add_organ_meshes_def Let_def
  by (auto intro!: la_intros create_bmi_variant_no_export create_shape_keys_no_export
      add_organ_no_export split: prod.splits)

lemma prepare_morph_starts:
  "\<exists>rest. calls (fst (prepare_morph h))
     = select_all_call # Call ''bpy.ops.object.delete'' [(''use_global'', VBool False)] # rest"
  by (simp add: prepare_morph_def clear_scene_morph_def emit_def select_all_call_def)

lemma select_loop:
  "for_each (\<lambda>ob (u :: unit). bindR (select_set ob) (\<lambda>_. retR ())) xs ()
   = (map (\<lambda>ob. Call ''obj.select_set'' [(''object'', VStr (oname ob)), ([], VBool True)]) xs,
      Inr ())"
  by (induction xs) (simp_all add: select_set_def retR_def)

lemma export_gltf_morph_run:
  "\<exists>pre post. export_gltf_morph h b os (path_div (OUTPUT_DIR_morph h) OUTPUT_FILE_morph)
       = (pre @ [export_call_morph h, Print post], Inr ())
     \<and> list_all (\<lambda>e. \<not> is_export e) pre"
proof -
  let ?sel = "map (\<lambda>ob. Call ''obj.select_set'' [(''object'', VStr (oname ob)), ([], VBool True)])
                (b # filter (\<lambda>ob. py_truthy (get_prop ob ''isOrgan'')) os)"
  have "export_gltf_morph h b os (path_div (OUTPUT_DIR_morph h) OUTPUT_FILE_morph)
        = ((Print [Txt ''Exporting to GLTF: '',
                   Txt (path_str (path_div (OUTPUT_DIR_morph h) OUTPUT_FILE_morph))]
            # Call ''bpy.ops.object.select_all'' [(''action'', VStr ''DESELECT'')] # ?sel)
           @ [export_call_morph h,
              Print [Txt (check_mark @ '' Export complete: ''),
                     Flt (real (file_size h (path_str (path_div (OUTPUT_DIR_morph h)
                            OUTPUT_FILE_morph))) / (1024 * 1024)),
                     Txt '' MB'']], Inr ())"
    by (simp add: export_gltf_morph_def select_loop export_call_morph_def emit_def
        del: list.map)
  moreover have "list_all (\<lambda>e. \<not> is_export e)
     (Print [Txt ''Exporting to GLTF: '',
                   Txt (path_str (path_div (OUTPUT_DIR_morph h) OUTPUT_FILE_morph))]
            # Call ''bpy.ops.object.select_all'' [(''action'', VStr ''DESELECT'')] # ?sel)"
    by (simp add: list_all_iff del: list.map)
  ultimately show ?thesis by blast
qed

lemma main_morph_pipeline:
  assumes "morph_ready h"
  shows "snd (main_morph h) = Inr ()"
    and "filter is_export (fst (main_morph h)) = [export_call_morph h]"
    and "\<exists>mid. calls (fst (main_morph h))
               = select_all_call # Call ''bpy.ops.object.delete'' [(''use_global'', VBool False)]
                 # mid @ [export_call_morph h]
             \<and> list_all (\<lambda>e. \<not> is_export e) mid"
proof -
  obtain res where p: "snd (prepare_morph h) = Inr res"
    using prepare_morph_returns[OF assms] by (auto simp: returns_iff)
  obtain pre post where x: "export_gltf_morph h (fst res) (snd res)
         (path_div (OUTPUT_DIR_morph h) OUTPUT_FILE_morph)
       = (pre @ [export_call_morph h, Print post], Inr ())"
    and npre: "list_all (\<lambda>e. \<not> is_export e) pre"
    using export_gltf_morph_run by blast
  have ex: "is_export (export_call_morph h)" "is_call (export_call_morph h)"
    by (simp_all add: export_call_morph_def)
  show "snd (main_morph h) = Inr ()"
    by (simp add: main_morph_def Let_def snd_bindR_Inr[OF p] x retR_def)
  show "filter is_export (fst (main_morph h)) = [export_call_morph h]"
    by (simp add: main_morph_def Let_def fst_bindR_Inr[OF p] x retR_def
        filter_none[OF prepare_morph_no_export] filter_none[OF npre] ex)
  obtain rest where st: "calls (fst (prepare_morph h))
     = select_all_call # Call ''bpy.ops.object.delete'' [(''use_global'', VBool False)] # rest"
    using prepare_morph_starts by blast
  have "list_all (\<lambda>e. \<not> is_export e) (calls (fst (prepare_morph h)))"
    by (rule list_all_calls[OF prepare_morph_no_export])
  then have r: "list_all (\<lambda>e. \<not> is_export e) (rest @ calls pre)"
    using list_all_calls[OF npre] by (simp add: st)
  have ce: "calls (export_call_morph h # es) = export_call_morph h # calls es" for es
    using ex(2) by (simp add: calls_def)
  have "calls (fst (main_morph h))
        = select_all_call # Call ''bpy.ops.object.delete'' [(''use_global'', VBool False)]
          # (rest @ calls pre) @ [export_call_morph h]"
    by (simp add: main_morph_def Let_def fst_bindR_Inr[OF p] x retR_def st ce)
  then show "\<exists>mid. calls (fst (main_morph h))
               = select_all_call # Call ''bpy.ops.object.delete'' [(''use_global'', VBool False)]
                 # mid @ [export_call_morph h]
             \<and> list_all (\<lambda>e. \<not> is_export e) mid"
    using r by blast
qed

end
